(* ===== verification/Prelude.thy ===== *)
theory Prelude
  imports Main
begin

text \<open>
  Shared vocabulary of the development: the type of timestamps, the simp collection
  \<open>store_simps\<close> that the component theories extend, and generic facts on lists
  (first match of a predicate, rows updated in place, splitting and joining on a
  separator, ASCII lower case) that the table model, the token codec, the bearer
  scheme and the email validator use.
\<close>

section \<open>Types\<close>

text \<open>
  Python's \<open>datetime\<close> values enter the model as whole seconds since the epoch,
  which is also what the JWT \<open>exp\<close> claim carries. Python integers are unbounded,
  so timestamps and durations are \<open>int\<close>.
\<close>

type_synonym timestamp = int

named_theorems store_simps "evaluation rules of the users table"

section \<open>Rows updated in place\<close>

text \<open>
  An \<open>UPDATE ... WHERE key = k\<close> maps a function over the rows that match.
  Whatever the function leaves unchanged, the column keeps.
\<close>

definition update_where :: "('a \<Rightarrow> bool) \<Rightarrow> ('a \<Rightarrow> 'a) \<Rightarrow> 'a list \<Rightarrow> 'a list" where
  "update_where P g xs = map (\<lambda>u. if P u then g u else u) xs"

section \<open>Splitting and joining on a separator\<close>

text \<open>
  A JWT is three segments joined by \<open>.\<close>; its payload here is fields joined by
  \<open>:\<close>. \<open>split_on\<close> is Python's \<open>str.split(sep)\<close>: it always yields at least
  one segment, and \<open>join_on\<close> is \<open>sep.join\<close>.
\<close>

fun split_on :: "char \<Rightarrow> string \<Rightarrow> string list" where
  "split_on c [] = [[]]"
| "split_on c (x # xs) =
     (if x = c then [] # split_on c xs
      else (case split_on c xs of [] \<Rightarrow> [[x]] | s # ss \<Rightarrow> (x # s) # ss))"

fun join_on :: "char \<Rightarrow> string list \<Rightarrow> string" where
  "join_on c [] = []"
| "join_on c [s] = s"
| "join_on c (s # ss) = s @ c # join_on c ss"

section \<open>ASCII case\<close>

text \<open>\<open>str.lower\<close> on ASCII characters: the capital letters \<open>A\<close>--\<open>Z\<close>
  become \<open>a\<close>--\<open>z\<close>, every other character is kept.\<close>

definition ascii_lower :: "char \<Rightarrow> char" where
  "ascii_lower c =
     (if (65::nat) \<le> of_char c \<and> of_char c \<le> (90::nat) then char_of (of_char c + (32::nat)) else c)"

section \<open>First match in a list\<close>

text \<open>\<open>result.scalars().first()\<close> is \<open>List.find\<close> over the rows of the table.\<close>

lemma find_SomeD:
  "List.find P xs = Some x \<Longrightarrow> x \<in> set xs \<and> P x"
  by (induction xs) (auto split: if_splits)

lemma find_key_distinct:
  assumes "distinct (map f xs)" and "x \<in> set xs"
  shows "List.find (\<lambda>u. f u = f x) xs = Some x"
  using assms by (induction xs) (auto simp: image_iff)

lemma find_None_all:
  "List.find P xs = None \<longleftrightarrow> (\<forall>x\<in>set xs. \<not> P x)"
  by (auto simp: find_None_iff)

lemma find_cong_set:
  "(\<And>x. x \<in> set xs \<Longrightarrow> P x = Q x) \<Longrightarrow> List.find P xs = List.find Q xs"
  by (induction xs) auto

lemma find_map_comp:
  "List.find P (map g xs) = map_option g (List.find (P \<circ> g) xs)"
  by (induction xs) auto

section \<open>Facts: rows updated in place\<close>

lemma map_update_where [simp]:
  "(\<And>u. f (g u) = f u) \<Longrightarrow> map f (update_where P g xs) = map f xs"
  by (induction xs) (auto simp: update_where_def)

lemma length_update_where [simp]:
  "length (update_where P g xs) = length xs"
  by (simp add: update_where_def)

lemma set_update_where:
  "set (update_where P g xs) = {if P u then g u else u | u. u \<in> set xs}"
  by (auto simp: update_where_def)

lemma update_where_Nil [simp]: "update_where P g [] = []"
  and update_where_Cons [simp]:
    "update_where P g (x # xs) = (if P x then g x else x) # update_where P g xs"
  by (simp_all add: update_where_def)

section \<open>Facts: splitting and joining on a separator\<close>

lemma split_on_nonempty: "split_on c s \<noteq> []"
  by (induction s) (auto split: list.split)

lemma split_on_append_sep:
  "c \<notin> set x \<Longrightarrow> split_on c (x @ c # y) = x # split_on c y"
  by (induction x) auto

lemma split_on_no_sep:
  "c \<notin> set x \<Longrightarrow> split_on c x = [x]"
  by (induction x) auto

theorem split_join_on:
  "ss \<noteq> [] \<Longrightarrow> (\<forall>s\<in>set ss. c \<notin> set s) \<Longrightarrow> split_on c (join_on c ss) = ss"

proof (induction c ss rule: join_on.induct)
  case (2 c s)
  then show ?case by (simp add: split_on_no_sep)

next
  case (3 c s v vs)
  then show ?case by (simp add: split_on_append_sep)

qed simp

lemma join_on_Cons_Cons: "join_on c ((x # s) # ss) = x # join_on c (s # ss)"
  by (cases ss) auto

theorem join_split_on: "join_on c (split_on c s) = s"

proof (induction s)
  case (Cons x xs)
  show ?case
  proof (cases "x = c")
    case True
    with Cons.IH split_on_nonempty [of c xs] show ?thesis
      by (cases "split_on c xs") auto
  next
    case False
    with Cons.IH split_on_nonempty [of c xs] show ?thesis
      by (cases "split_on c xs") (auto simp: join_on_Cons_Cons)
  qed

qed simp

section \<open>Facts: ASCII case\<close>

lemma ascii_lower_id: "\<not> ((65::nat) \<le> of_char c \<and> of_char c \<le> (90::nat)) \<Longrightarrow> ascii_lower c = c"
  unfolding ascii_lower_def by (rule if_not_P)

end
