(* ===== verification/Email_Validator.thy ===== *)
theory Email_Validator
  imports Prelude
begin

text \<open>
  \<open>EmailStr\<close> of \<open>app/schemas/user.py\<close>: Pydantic's \<open>validate_email\<close>
  (\<open>pydantic/networks.py\<close>) and the \<open>email-validator\<close> library it calls with
  \<open>check_deliverability=False\<close>. A value of at most 2048 characters is first read as
  \<open>Display Name <address>\<close> when it has that form, and stripped of white space;
  the address must have exactly one \<open>@\<close>; the local part is a dot-atom of at most 64
  characters; the domain, lower-cased, is a dotted host name of at most 253 characters
  whose labels have at most 63 characters, whose last character is a letter, and which
  is not a special-use name (\<open>arpa\<close>, \<open>invalid\<close>, \<open>local\<close>, \<open>localhost\<close>,
  \<open>onion\<close>, \<open>test\<close>, or a subdomain of one); the whole normalised address has at
  most 254 characters. The value Pydantic hands on is the normalised address: the local
  part as given, \<open>@\<close>, the lower-cased domain. The model is of ASCII addresses:
  internationalised local parts and domains (including \<open>xn--\<close> labels) are refused
  here, where the library accepts the well-formed ones.
\<close>

section \<open>Characters\<close>

text \<open>\<open>str.isspace\<close> on ASCII: tab, line feed, vertical tab, form feed, carriage
  return, the four separators \<open>\x1c\<close>--\<open>\x1f\<close>, and space.\<close>

definition is_space :: "char \<Rightarrow> bool" where
  "is_space c \<longleftrightarrow> of_char c \<in> {9, 10, 11, 12, 13, 28, 29, 30, 31, 32 :: nat}"

definition is_letter :: "char \<Rightarrow> bool" where
  "is_letter c \<longleftrightarrow>
     (65 \<le> (of_char c :: nat) \<and> of_char c \<le> (90 :: nat)) \<or> (97 \<le> (of_char c :: nat) \<and> of_char c \<le> (122 :: nat))"

definition is_alnum :: "char \<Rightarrow> bool" where
  "is_alnum c \<longleftrightarrow> is_letter c \<or> (48 \<le> (of_char c :: nat) \<and> of_char c \<le> (57 :: nat))"

text \<open>\<open>ATEXT\<close> of RFC 5322, which is also Pydantic's set of display-name characters.\<close>

definition atext_char :: "char \<Rightarrow> bool" where
  "atext_char c \<longleftrightarrow> is_alnum c \<or> c \<in> set (CHR 0x27 # ''_!#$%&*+-/=?^`{|}~'')"

definition strip :: "string \<Rightarrow> string" where
  "strip s = rev (dropWhile is_space (rev (dropWhile is_space s)))"

section \<open>The display-name form\<close>

text \<open>
  Pydantic's pattern \<open>\s*(?:NAME|"QNAME")?\s*<(.+)>\s*\<close>: an unquoted name is
  words of name characters separated by white space, a quoted name is anything between
  double quotes; the address is what lies between the \<open><\<close> and the final \<open>>\<close>.
  A quoted name that itself contains \<open><\<close> is refused here.
\<close>

definition display_name_ok :: "string \<Rightarrow> bool" where
  "display_name_ok n \<longleftrightarrow>
     n = [] \<or>
     (\<not> is_space (hd n) \<and> \<not> is_space (last n) \<and> list_all (\<lambda>c. atext_char c \<or> is_space c) n) \<or>
     (3 \<le> length n \<and> hd n = CHR 0x22 \<and> last n = CHR 0x22)"

definition pretty_address :: "string \<Rightarrow> string option" where
  "pretty_address s =
     (let t = strip s; pre = takeWhile (\<lambda>c. c \<noteq> CHR ''<'') t; rest = dropWhile (\<lambda>c. c \<noteq> CHR ''<'') t in
      if length rest < 3 \<or> last rest \<noteq> CHR ''>'' \<or> \<not> display_name_ok (strip pre) then None
      else Some (butlast (tl rest)))"

section \<open>The local part and the domain\<close>

definition dot_atom :: "string \<Rightarrow> bool" where
  "dot_atom l \<longleftrightarrow> list_all (\<lambda>s. s \<noteq> [] \<and> list_all atext_char s) (split_on CHR ''.'' l)"

definition local_part_ok :: "string \<Rightarrow> bool" where
  "local_part_ok l \<longleftrightarrow> length l \<le> 64 \<and> dot_atom l"

text \<open>
  A host-name label: letters, digits and hyphens, neither first nor last a hyphen, and
  no \<open>--\<close> in the third and fourth place (reserved for IDNA).
\<close>

definition label_ok :: "string \<Rightarrow> bool" where
  "label_ok lab \<longleftrightarrow>
     lab \<noteq> [] \<and> length lab \<le> 63 \<and> list_all (\<lambda>c. is_alnum c \<or> c = CHR ''-'') lab \<and>
     hd lab \<noteq> CHR ''-'' \<and> last lab \<noteq> CHR ''-'' \<and> take 2 (drop 2 lab) \<noteq> ''--''"

definition SPECIAL_USE_DOMAIN_NAMES :: "string list" where
  "SPECIAL_USE_DOMAIN_NAMES = [''arpa'', ''invalid'', ''local'', ''localhost'', ''onion'', ''test'']"

definition ends_with :: "string \<Rightarrow> string \<Rightarrow> bool" where
  "ends_with x s \<longleftrightarrow> length x \<le> length s \<and> drop (length s - length x) s = x"

definition domain_ok :: "string \<Rightarrow> bool" where
  "domain_ok host \<longleftrightarrow>
     length host \<le> 253 \<and> list_all label_ok (split_on CHR ''.'' host) \<and>
     CHR ''.'' \<in> set host \<and> is_letter (last host) \<and>
     \<not> list_ex (\<lambda>x. host = x \<or> ends_with (CHR ''.'' # x) host) SPECIAL_USE_DOMAIN_NAMES"

section \<open>\<open>validate_email\<close>\<close>

text \<open>The normalised address, or \<open>None\<close> where Pydantic raises its validation error.\<close>

definition email_address :: "string \<Rightarrow> string option" where
  "email_address value =
     (if 2048 < length value then None
      else
        let e = strip (case pretty_address value of Some a \<Rightarrow> a | None \<Rightarrow> value) in
        (case split_on CHR ''@'' e of
           [l, d] \<Rightarrow>
             let host = map ascii_lower d in
             if local_part_ok l \<and> domain_ok host \<and> length (l @ CHR ''@'' # host) \<le> 254
             then Some (l @ CHR ''@'' # host) else None
         | _ \<Rightarrow> None))"

section \<open>Evaluation\<close>

text \<open>
  The definitions a concrete address is checked with by \<open>simp\<close>; a domain with
  capital letters is lower-cased by \<open>code_simp\<close>.
\<close>

lemmas email_syntax = email_address_def pretty_address_def display_name_ok_def strip_def
  is_space_def local_part_ok_def dot_atom_def atext_char_def is_alnum_def is_letter_def
  domain_ok_def label_ok_def SPECIAL_USE_DOMAIN_NAMES_def ends_with_def ascii_lower_id

end
