(* ===== verification/User_Model.thy ===== *)
theory User_Model
  imports Email_Validator
begin

text \<open>
  The data of the program: the role enumeration and the \<open>users\<close> row of
  \<open>app/models/user.py\<close>, the request and response schemas of
  \<open>app/schemas/user.py\<close> and \<open>app/schemas/token.py\<close> with the field
  constraints Pydantic enforces (with \<open>EmailStr\<close> from \<open>Email_Validator\<close>), the
  validation FastAPI applies to a returned user, the settings of
  \<open>app/core/config.py\<close>, and the exceptions the program raises or lets escape.
\<close>

section \<open>Roles (\<open>UserRole\<close>)\<close>

datatype UserRole = ADMIN | ANALYST | VIEWER

text \<open>\<open>UserRole.value\<close>: what the JSON responses and the token's \<open>role\<close> claim carry.\<close>

fun role_value :: "UserRole \<Rightarrow> string" where
  "role_value ADMIN = ''admin''"
| "role_value ANALYST = ''analyst''"
| "role_value VIEWER = ''viewer''"

text \<open>\<open>UserRole(v)\<close>: lookup of a member by its value, \<open>ValueError\<close> as \<open>None\<close>.\<close>

definition role_of_value :: "string \<Rightarrow> UserRole option" where
  "role_of_value v = List.find (\<lambda>r. role_value r = v) [ADMIN, ANALYST, VIEWER]"

section \<open>The \<open>users\<close> row (\<open>class User\<close>)\<close>

record User =
  uid :: int
  username :: string
  email :: string
  hashed_password :: string
  full_name :: "string option"
  role :: UserRole
  is_active :: bool
  is_verified :: bool
  created_at :: timestamp
  updated_at :: "timestamp option"
  last_login :: "timestamp option"

text \<open>
  A \<open>User(...)\<close> built by the program before it is flushed: the keyword arguments
  given, \<open>None\<close> where the constructor call omits one (the column default applies).
  \<open>id\<close>, \<open>created_at\<close>, \<open>updated_at\<close> and \<open>last_login\<close> are never given.
\<close>

record NewUser =
  nu_username :: string
  nu_email :: string
  nu_hashed_password :: string
  nu_full_name :: "string option"
  nu_role :: "UserRole option"
  nu_is_active :: "bool option"
  nu_is_verified :: "bool option"

text \<open>The declared widths of the string columns: \<open>String(50)\<close>, \<open>String(100)\<close>, \<open>String(255)\<close>.\<close>

definition USERNAME_WIDTH :: nat where "USERNAME_WIDTH = 50"
definition EMAIL_WIDTH :: nat where "EMAIL_WIDTH = 100"
definition HASH_WIDTH :: nat where "HASH_WIDTH = 255"
definition FULL_NAME_WIDTH :: nat where "FULL_NAME_WIDTH = 100"

text \<open>The column defaults: \<open>role\<close> VIEWER, \<open>is_active\<close> True, \<open>is_verified\<close> False.\<close>

definition materialize :: "int \<Rightarrow> timestamp \<Rightarrow> NewUser \<Rightarrow> User" where
  "materialize i now n =
     \<lparr>uid = i, username = nu_username n, email = nu_email n,
      hashed_password = nu_hashed_password n, full_name = nu_full_name n,
      role = (case nu_role n of None \<Rightarrow> VIEWER | Some r \<Rightarrow> r),
      is_active = (case nu_is_active n of None \<Rightarrow> True | Some b \<Rightarrow> b),
      is_verified = (case nu_is_verified n of None \<Rightarrow> False | Some b \<Rightarrow> b),
      created_at = now, updated_at = None, last_login = None\<rparr>"

definition fits_columns :: "NewUser \<Rightarrow> bool" where
  "fits_columns n \<longleftrightarrow>
     length (nu_username n) \<le> USERNAME_WIDTH \<and> length (nu_email n) \<le> EMAIL_WIDTH \<and>
     length (nu_hashed_password n) \<le> HASH_WIDTH \<and>
     (case nu_full_name n of None \<Rightarrow> True | Some f \<Rightarrow> length f \<le> FULL_NAME_WIDTH)"

section \<open>Request schemas (\<open>UserCreate\<close>, \<open>UserLogin\<close>)\<close>

record UserCreate =
  uc_username :: string
  uc_email :: string
  uc_full_name :: "string option"
  uc_role :: UserRole
  uc_is_active :: bool
  uc_password :: string

text \<open>The body as sent: the fields with a default may be absent.\<close>

definition user_create_body ::
  "string \<Rightarrow> string \<Rightarrow> string \<Rightarrow> string option \<Rightarrow> UserRole option \<Rightarrow> bool option \<Rightarrow> UserCreate" where
  "user_create_body u e p f r a =
     \<lparr>uc_username = u, uc_email = e, uc_full_name = f,
      uc_role = (case r of None \<Rightarrow> VIEWER | Some x \<Rightarrow> x),
      uc_is_active = (case a of None \<Rightarrow> True | Some x \<Rightarrow> x), uc_password = p\<rparr>"

text \<open>\<open>EmailStr\<close>: the value passes \<open>validate_email\<close> of \<open>Email_Validator\<close>.\<close>

definition valid_email :: "string \<Rightarrow> bool" where
  "valid_email e \<longleftrightarrow> email_address e \<noteq> None"

definition valid_user_create :: "UserCreate \<Rightarrow> bool" where
  "valid_user_create d \<longleftrightarrow>
     3 \<le> length (uc_username d) \<and> length (uc_username d) \<le> 50 \<and>
     valid_email (uc_email d) \<and>
     (case uc_full_name d of None \<Rightarrow> True | Some f \<Rightarrow> length f \<le> 100) \<and>
     8 \<le> length (uc_password d) \<and> length (uc_password d) \<le> 100"

text \<open>
  What the route receives after validation: the same body with its email replaced by
  the normalised address that \<open>EmailStr\<close> hands on; \<open>None\<close> for a 422.
\<close>

definition validate_user_create :: "UserCreate \<Rightarrow> UserCreate option" where
  "validate_user_create d =
     (if 3 \<le> length (uc_username d) \<and> length (uc_username d) \<le> 50 \<and>
         (case uc_full_name d of None \<Rightarrow> True | Some f \<Rightarrow> length f \<le> 100) \<and>
         8 \<le> length (uc_password d) \<and> length (uc_password d) \<le> 100
      then map_option (\<lambda>e. d\<lparr>uc_email := e\<rparr>) (email_address (uc_email d))
      else None)"

text \<open>
  \<open>UserUpdate\<close>: every field optional, with the constraints of \<open>UserBase\<close> on the
  fields that are present. No route of the application accepts it yet.
\<close>

record UserUpdate =
  uu_username :: "string option"
  uu_email :: "string option"
  uu_full_name :: "string option"
  uu_role :: "UserRole option"
  uu_is_active :: "bool option"

definition valid_user_update :: "UserUpdate \<Rightarrow> bool" where
  "valid_user_update d \<longleftrightarrow>
     (case uu_username d of None \<Rightarrow> True | Some n \<Rightarrow> 3 \<le> length n \<and> length n \<le> 50) \<and>
     (case uu_email d of None \<Rightarrow> True | Some e \<Rightarrow> valid_email e) \<and>
     (case uu_full_name d of None \<Rightarrow> True | Some f \<Rightarrow> length f \<le> 100)"

record UserLogin =
  login_username :: string
  login_password :: string

section \<open>Response schemas (\<open>UserResponse\<close>, \<open>Token\<close>, \<open>TokenData\<close>)\<close>

record UserResponse =
  ur_id :: int
  ur_username :: string
  ur_email :: string
  ur_full_name :: "string option"
  ur_role :: string
  ur_is_active :: bool
  ur_is_verified :: bool
  ur_created_at :: timestamp
  ur_updated_at :: "timestamp option"
  ur_last_login :: "timestamp option"

text \<open>
  \<open>UserResponse.model_validate(user)\<close> (\<open>from_attributes\<close>), serialised to JSON:
  the enum is written as its value. No field reads \<open>hashed_password\<close>.
\<close>

definition user_response :: "User \<Rightarrow> UserResponse" where
  "user_response u =
     \<lparr>ur_id = uid u, ur_username = username u, ur_email = email u,
      ur_full_name = full_name u, ur_role = role_value (role u),
      ur_is_active = is_active u, ur_is_verified = is_verified u,
      ur_created_at = created_at u, ur_updated_at = updated_at u,
      ur_last_login = last_login u\<rparr>"

text \<open>
  FastAPI validates what a route returns against its \<open>response_model\<close>:
  \<open>UserResponse\<close> inherits the constraints of \<open>UserBase\<close>, so the row read back
  must have a username of 3 to 50 characters, a full name of at most 100, and an email
  that passes \<open>EmailStr\<close>, whose normalised form is what is sent. A row that fails
  raises \<open>ResponseValidationError\<close>; \<open>None\<close> here.
\<close>

definition user_response_of :: "User \<Rightarrow> UserResponse option" where
  "user_response_of u =
     (if 3 \<le> length (username u) \<and> length (username u) \<le> 50 \<and>
         (case full_name u of None \<Rightarrow> True | Some f \<Rightarrow> length f \<le> 100)
      then map_option (\<lambda>e. (user_response u)\<lparr>ur_email := e\<rparr>) (email_address (email u))
      else None)"

record Token =
  access_token :: string
  token_type :: string
  expires_in :: int

record TokenData =
  td_username :: "string option"
  td_user_id :: "int option"
  td_role :: "string option"

section \<open>Settings\<close>

record Settings =
  PROJECT_NAME :: string
  VERSION :: string
  API_V1_STR :: string
  SECRET_KEY :: string
  ACCESS_TOKEN_EXPIRE_MINUTES :: int
  ENVIRONMENT :: string

definition default_settings :: Settings where
  "default_settings =
     \<lparr>PROJECT_NAME = ''RE Platform'', VERSION = ''0.1.0'', API_V1_STR = ''/api/v1'',
      SECRET_KEY = ''your-secret-key-change-this-in-production'',
      ACCESS_TOKEN_EXPIRE_MINUTES = 30, ENVIRONMENT = ''development''\<rparr>"

section \<open>Exceptions\<close>

text \<open>
  \<open>HTTPException(status_code, detail, headers)\<close>, the flag saying whether the
  \<open>WWW-Authenticate: Bearer\<close> header is set; SQLAlchemy's \<open>IntegrityError\<close>
  (a unique constraint) and \<open>DataError\<close> (a value wider than its column), which
  the program does not catch and FastAPI turns into a 500; FastAPI's
  \<open>ResponseValidationError\<close> for a return value that fails its response model, also
  a 500.
\<close>

datatype error =
    HTTPException nat string bool
  | IntegrityError string
  | DataError string
  | ResponseValidationError string

fun status_of :: "error \<Rightarrow> nat" where
  "status_of (HTTPException s _ _) = s"
| "status_of (IntegrityError _) = 500"
| "status_of (DataError _) = 500"
| "status_of (ResponseValidationError _) = 500"

section \<open>Facts shared by the components\<close>

lemmas column_widths = USERNAME_WIDTH_def EMAIL_WIDTH_def HASH_WIDTH_def FULL_NAME_WIDTH_def

lemma validate_user_create_None: "validate_user_create d = None \<longleftrightarrow> \<not> valid_user_create d"
  by (auto simp: validate_user_create_def valid_user_create_def valid_email_def)

lemma validate_user_create_Some:
  "validate_user_create d = Some d' \<Longrightarrow>
   valid_user_create d \<and> email_address (uc_email d) = Some (uc_email d') \<and> d' = d\<lparr>uc_email := uc_email d'\<rparr>"
  by (auto simp: validate_user_create_def valid_user_create_def valid_email_def split: if_splits)

lemma user_response_of_hash [simp]:
  "user_response_of (u\<lparr>hashed_password := h\<rparr>) = user_response_of u"
  by (simp add: user_response_of_def user_response_def)

end
