(* ===== verification/User_Store.thy ===== *)
theory User_Store
  imports User_Model
begin

text \<open>
  The \<open>users\<close> table as the SQLAlchemy session sees it: its rows in primary-key
  order and the \<open>users_id_seq\<close> sequence that numbers them. The operations are the
  statements the program issues: \<open>select(User).where(P)\<close> followed by
  \<open>.scalars().first()\<close>, the INSERT of \<open>db.add(u); db.commit()\<close> with the
  column defaults and the constraints of \<open>app/models/user.py\<close>, and the UPDATE
  of \<open>user.last_login = ...; db.commit()\<close>, which also fires
  \<open>onupdate=func.now()\<close>. The invariant \<open>db_inv\<close> is the table's
  constraints; every operation keeps it.
\<close>

record db =
  users :: "User list"
  id_seq :: int

definition empty_db :: db where
  "empty_db = \<lparr>users = [], id_seq = 1\<rparr>"

type_synonym 'a db_result = "(error + 'a) \<times> db"

section \<open>Queries\<close>

definition select_first :: "(User \<Rightarrow> bool) \<Rightarrow> db \<Rightarrow> User option" where
  "select_first P d = List.find P (users d)"

section \<open>INSERT\<close>

text \<open>
  The row gets \<open>nextval('users_id_seq')\<close>; the sequence is not transactional,
  so it advances even when the INSERT then fails and the session rolls back. A value
  wider than its column raises \<open>DataError\<close>; a duplicate \<open>username\<close> or
  \<open>email\<close> violates the unique index and raises \<open>IntegrityError\<close>.
\<close>

definition insert_user :: "timestamp \<Rightarrow> NewUser \<Rightarrow> db \<Rightarrow> User db_result" where
  "insert_user now n d =
     (let i = id_seq d; d' = d\<lparr>id_seq := i + 1\<rparr>; u = materialize i now n in
      if \<not> fits_columns n then (Inl (DataError ''value too long for type character varying''), d')
      else if username u \<in> username ` set (users d) then
        (Inl (IntegrityError ''duplicate key value violates unique constraint ix_users_username''), d')
      else if email u \<in> email ` set (users d) then
        (Inl (IntegrityError ''duplicate key value violates unique constraint ix_users_email''), d')
      else (Inr u, d'\<lparr>users := users d @ [u]\<rparr>))"

section \<open>UPDATE of \<open>last_login\<close>\<close>

definition touch_login :: "timestamp \<Rightarrow> User \<Rightarrow> User" where
  "touch_login now u = u\<lparr>last_login := Some now, updated_at := Some now\<rparr>"

definition update_last_login :: "timestamp \<Rightarrow> int \<Rightarrow> db \<Rightarrow> db" where
  "update_last_login now i d =
     d\<lparr>users := update_where (\<lambda>u. uid u = i) (touch_login now) (users d)\<rparr>"

section \<open>The table's constraints\<close>

definition db_inv :: "db \<Rightarrow> bool" where
  "db_inv d \<longleftrightarrow>
     distinct (map uid (users d)) \<and> distinct (map username (users d)) \<and>
     distinct (map email (users d)) \<and> 1 \<le> id_seq d \<and>
     (\<forall>u\<in>set (users d). 1 \<le> uid u \<and> uid u < id_seq d)"

lemma db_inv_empty: "db_inv empty_db"
  by (simp add: db_inv_def empty_db_def)

lemma materialize_fields [simp]:
  "uid (materialize i now n) = i" "username (materialize i now n) = nu_username n"
  "email (materialize i now n) = nu_email n"
  "hashed_password (materialize i now n) = nu_hashed_password n"
  "last_login (materialize i now n) = None" "created_at (materialize i now n) = now"
  by (simp_all add: materialize_def)

lemma touch_login_keys [simp]:
  "uid (touch_login now u) = uid u" "username (touch_login now u) = username u"
  "email (touch_login now u) = email u" "role (touch_login now u) = role u"
  "is_active (touch_login now u) = is_active u"
  "hashed_password (touch_login now u) = hashed_password u"
  by (simp_all add: touch_login_def)

text \<open>The outcomes of an INSERT, one per branch.\<close>

lemma insert_user_cases:
  assumes "insert_user now n d = (r, d')"
  obtains (data) "\<not> fits_columns n" "r = Inl (DataError ''value too long for type character varying'')"
      "d' = d\<lparr>id_seq := id_seq d + 1\<rparr>"
    | (dup) e where "fits_columns n" "r = Inl (IntegrityError e)"
      "nu_username n \<in> username ` set (users d) \<or> nu_email n \<in> email ` set (users d)"
      "d' = d\<lparr>id_seq := id_seq d + 1\<rparr>"
    | (ok) "fits_columns n" "nu_username n \<notin> username ` set (users d)"
      "nu_email n \<notin> email ` set (users d)"
      "r = Inr (materialize (id_seq d) now n)"
      "d' = d\<lparr>id_seq := id_seq d + 1, users := users d @ [materialize (id_seq d) now n]\<rparr>"
  using assms by (auto simp: insert_user_def Let_def split: if_splits)

lemma insert_user_seq [store_simps]:
  "id_seq (snd (insert_user now n d)) = id_seq d + 1"
  by (simp add: insert_user_def Let_def)

lemma insert_user_users_Inl [store_simps]:
  "fst (insert_user now n d) = Inl e \<Longrightarrow> users (snd (insert_user now n d)) = users d"
  by (auto simp: insert_user_def Let_def split: if_splits)

lemma update_last_login_seq [store_simps]:
  "id_seq (update_last_login now i d) = id_seq d"
  by (simp add: update_last_login_def)

lemma db_inv_insert_user:
  assumes "db_inv d"
  shows "db_inv (snd (insert_user now n d))"
proof (cases "insert_user now n d")
  case (Pair r d')
  from assms have fresh: "id_seq d \<notin> uid ` set (users d)"
    by (auto simp: db_inv_def)
  from Pair show ?thesis
  proof (cases rule: insert_user_cases)
    case ok
    then show ?thesis using assms Pair fresh by (auto simp: db_inv_def)
  qed (use assms Pair in \<open>auto simp: db_inv_def\<close>)
qed

end
