(* ===== verification/Password_Hash.thy ===== *)
theory Password_Hash
  imports User_Model
begin

text \<open>
  The credential hasher of \<open>app/core/security.py\<close> (\<open>get_password_hash\<close>,
  \<open>verify_password\<close>). That file is not part of the sources at hand, so the model
  follows the spec (section 4.1): a salted, bcrypt-class hash whose output embeds the
  salt. The primitives themselves (the bcrypt key derivation and HMAC-SHA256) are
  parameters, collected in the record \<open>crypto\<close>; no property here assumes more of
  them than a lemma states. The salt, drawn at random by the library, is an explicit
  argument.
\<close>

record crypto =
  bcrypt_kdf :: "string \<Rightarrow> string \<Rightarrow> string"
  hmac_sha256 :: "string \<Rightarrow> string \<Rightarrow> string"

text \<open>A bcrypt hash string starts with its 29-character salt \<open>$2b$12$...\<close>.\<close>

definition SALT_LEN :: nat where "SALT_LEN = 29"

definition get_password_hash :: "crypto \<Rightarrow> string \<Rightarrow> string \<Rightarrow> string" where
  "get_password_hash cr salt password = salt @ bcrypt_kdf cr salt password"

definition verify_password :: "crypto \<Rightarrow> string \<Rightarrow> string \<Rightarrow> bool" where
  "verify_password cr plain hashed =
     (let salt = take SALT_LEN hashed in hashed = salt @ bcrypt_kdf cr salt plain)"

text \<open>
  Sample primitives and salt for the concrete runs of the development: any functions
  of the right type will do, these are easy to evaluate.
\<close>

definition demo_crypto :: crypto where
  "demo_crypto = \<lparr>bcrypt_kdf = (\<lambda>salt p. rev p), hmac_sha256 = (\<lambda>k m. k @ m)\<rparr>"

definition demo_salt :: string where
  "demo_salt = ''$2b$12$abcdefghijklmnopqrstuv''"

lemma demo_salt_len [simp]: "length demo_salt = SALT_LEN"
  by (simp add: demo_salt_def SALT_LEN_def)

lemma verify_password_hash [simp]:
  "length salt = SALT_LEN \<Longrightarrow> verify_password cr p (get_password_hash cr salt p)"
  by (simp add: verify_password_def get_password_hash_def)

lemma verify_password_other:
  assumes "length salt = SALT_LEN" and "inj (bcrypt_kdf cr salt)" and "q \<noteq> p"
  shows "\<not> verify_password cr q (get_password_hash cr salt p)"
  using assms by (simp add: verify_password_def get_password_hash_def inj_eq)

lemma demo_verify [simp]:
  "verify_password demo_crypto q (get_password_hash demo_crypto demo_salt p) \<longleftrightarrow> q = p"
  using verify_password_other [of demo_salt demo_crypto q p]
  by (auto simp: demo_crypto_def)

lemma demo_hash_length [simp]:
  "length (get_password_hash demo_crypto demo_salt p) = SALT_LEN + length p"
  by (simp add: get_password_hash_def demo_crypto_def)

end
