(* ===== verification/Token_Codec.thy ===== *)
theory Token_Codec
  imports Password_Hash
begin

text \<open>
  The token codec of \<open>app/core/security.py\<close> (\<open>create_access_token\<close>,
  \<open>verify_token\<close>), modelled from the spec (section 4.2) since that file is not
  among the sources: an HS256 JSON Web Token, three segments joined by \<open>.\<close>,
  header, claims and signature, the signature the HMAC of the first two under the
  secret key. Segment encoding (base64url in the library) is an escape that keeps
  \<open>.\<close> and \<open>:\<close> out of a segment; numbers are written in decimal. Decoding
  checks the header and the signature before it reads a claim, then the expiry.
\<close>

section \<open>Escaping a segment\<close>

fun esc_char :: "char \<Rightarrow> string" where
  "esc_char c =
     (if c = CHR ''.'' then ''~d'' else if c = CHR '':'' then ''~c''
      else if c = CHR ''~'' then ''~t'' else [c])"

definition esc :: "string \<Rightarrow> string" where
  "esc s = concat (map esc_char s)"

definition unesc_code :: "char \<Rightarrow> char" where
  "unesc_code d = (if d = CHR ''d'' then CHR ''.'' else if d = CHR ''c'' then CHR '':'' else CHR ''~'')"

fun unesc :: "string \<Rightarrow> string" where
  "unesc [] = []"
| "unesc (c # cs) =
     (if c = CHR ''~'' then (case cs of [] \<Rightarrow> [c] | d # ds \<Rightarrow> unesc_code d # unesc ds)
      else c # unesc cs)"

section \<open>Decimal numbers\<close>

definition digit_char :: "nat \<Rightarrow> char" where
  "digit_char d = char_of (48 + d)"

definition digit_val :: "char \<Rightarrow> nat" where
  "digit_val c = of_char c - 48"

definition is_digit :: "char \<Rightarrow> bool" where
  "is_digit c \<longleftrightarrow> (48::nat) \<le> of_char c \<and> of_char c \<le> (57::nat)"

fun string_of_nat :: "nat \<Rightarrow> string" where
  "string_of_nat n =
     (if n < 10 then [digit_char n] else string_of_nat (n div 10) @ [digit_char (n mod 10)])"

definition nat_of_digits :: "string \<Rightarrow> nat" where
  "nat_of_digits s = foldl (\<lambda>a c. 10 * a + digit_val c) 0 s"

definition parse_nat :: "string \<Rightarrow> nat option" where
  "parse_nat s = (if s \<noteq> [] \<and> (\<forall>c\<in>set s. is_digit c) then Some (nat_of_digits s) else None)"

definition string_of_int :: "int \<Rightarrow> string" where
  "string_of_int i =
     (if i < 0 then CHR ''-'' # string_of_nat (nat (- i)) else string_of_nat (nat i))"

definition parse_int :: "string \<Rightarrow> int option" where
  "parse_int s =
     (if s \<noteq> [] \<and> hd s = CHR ''-'' then map_option (\<lambda>n. - int n) (parse_nat (tl s))
      else map_option int (parse_nat s))"

section \<open>Claims\<close>

text \<open>
  The claim set \<open>{"sub", "user_id", "role", "exp"}\<close>; the first three may be
  absent from a token (the fields of \<open>TokenData\<close> are \<open>Optional\<close>).
\<close>

record claims =
  c_sub :: "string option"
  c_user_id :: "int option"
  c_role :: "string option"
  c_exp :: timestamp

definition enc_opt_str :: "string option \<Rightarrow> string" where
  "enc_opt_str x = (case x of None \<Rightarrow> ''-'' | Some s \<Rightarrow> CHR ''+'' # esc s)"

definition dec_opt_str :: "string \<Rightarrow> string option option" where
  "dec_opt_str s =
     (if s = ''-'' then Some None
      else if s \<noteq> [] \<and> hd s = CHR ''+'' then Some (Some (unesc (tl s))) else None)"

definition enc_opt_int :: "int option \<Rightarrow> string" where
  "enc_opt_int x = (case x of None \<Rightarrow> ''-'' | Some i \<Rightarrow> CHR ''+'' # string_of_int i)"

definition dec_opt_int :: "string \<Rightarrow> int option option" where
  "dec_opt_int s =
     (if s = ''-'' then Some None
      else if s \<noteq> [] \<and> hd s = CHR ''+'' then map_option Some (parse_int (tl s)) else None)"

definition encode_claims :: "claims \<Rightarrow> string" where
  "encode_claims c =
     join_on (CHR '':'')
       [enc_opt_str (c_sub c), enc_opt_int (c_user_id c), enc_opt_str (c_role c),
        string_of_int (c_exp c)]"

definition decode_claims :: "string \<Rightarrow> claims option" where
  "decode_claims p =
     (case split_on (CHR '':'') p of
        [a, b, r, e] \<Rightarrow>
          (case (dec_opt_str a, dec_opt_int b, dec_opt_str r, parse_int e) of
             (Some s, Some i, Some ro, Some x) \<Rightarrow>
               Some \<lparr>c_sub = s, c_user_id = i, c_role = ro, c_exp = x\<rparr>
           | _ \<Rightarrow> None)
      | _ \<Rightarrow> None)"

section \<open>Signing and verifying\<close>

datatype jwt_error = InvalidSignature | Expired

text \<open>The header segment: base64url of \<open>{"alg":"HS256","typ":"JWT"}\<close>.\<close>

definition JWT_HEADER :: string where
  "JWT_HEADER = ''eyJhbGciOiJIUzI1NiIsInR5cCI6IkpXVCJ9''"

definition signing_input :: "string \<Rightarrow> string \<Rightarrow> string" where
  "signing_input h p = h @ CHR ''.'' # p"

definition jwt_encode :: "crypto \<Rightarrow> string \<Rightarrow> claims \<Rightarrow> string" where
  "jwt_encode cr key c =
     (let p = encode_claims c
      in join_on (CHR ''.'') [JWT_HEADER, p, esc (hmac_sha256 cr key (signing_input JWT_HEADER p))])"

text \<open>
  \<open>jwt.decode(token, key, algorithms=["HS256"])\<close>: the segments, the header, the
  signature; only then the claims, and last the expiry, which has passed at
  \<open>exp\<close> itself (spec 4.2).
\<close>

definition jwt_decode :: "crypto \<Rightarrow> string \<Rightarrow> timestamp \<Rightarrow> string \<Rightarrow> jwt_error + claims" where
  "jwt_decode cr key now tok =
     (case split_on (CHR ''.'') tok of
        [h, p, s] \<Rightarrow>
          (if h \<noteq> JWT_HEADER then Inl InvalidSignature
           else if s \<noteq> esc (hmac_sha256 cr key (signing_input h p)) then Inl InvalidSignature
           else (case decode_claims p of
                   None \<Rightarrow> Inl InvalidSignature
                 | Some c \<Rightarrow> if c_exp c \<le> now then Inl Expired else Inr c))
      | _ \<Rightarrow> Inl InvalidSignature)"

section \<open>\<open>create_access_token\<close> and \<open>verify_token\<close>\<close>

text \<open>
  \<open>create_access_token(data, expires_delta)\<close>: the claims of \<open>data\<close> and
  \<open>exp = utcnow() + expires_delta\<close>, signed with \<open>settings.SECRET_KEY\<close>.
\<close>

definition create_access_token ::
  "Settings \<Rightarrow> crypto \<Rightarrow> timestamp \<Rightarrow> string \<times> int \<times> string \<Rightarrow> int \<Rightarrow> string" where
  "create_access_token st cr now data expires_delta =
     (case data of (sub, i, r) \<Rightarrow>
        jwt_encode cr (SECRET_KEY st)
          \<lparr>c_sub = Some sub, c_user_id = Some i, c_role = Some r, c_exp = now + expires_delta\<rparr>)"

text \<open>\<open>verify_token(token)\<close>: any \<open>JWTError\<close> becomes a 401.\<close>

definition token_exception :: error where
  "token_exception = HTTPException 401 ''Could not validate credentials'' True"

definition verify_token :: "Settings \<Rightarrow> crypto \<Rightarrow> timestamp \<Rightarrow> string \<Rightarrow> error + TokenData" where
  "verify_token st cr now tok =
     (case jwt_decode cr (SECRET_KEY st) now tok of
        Inl _ \<Rightarrow> Inl token_exception
      | Inr c \<Rightarrow> Inr \<lparr>td_username = c_sub c, td_user_id = c_user_id c, td_role = c_role c\<rparr>)"

section \<open>Facts: escaping a segment\<close>

lemma unesc_esc_append [simp]: "unesc (esc_char c @ r) = c # unesc r"
  by (simp add: unesc_code_def)

declare esc_char.simps [simp del]

lemma unesc_esc [simp]: "unesc (esc s) = s"
  by (induction s) (simp_all add: esc_def)

lemma esc_inj: "esc s = esc t \<longleftrightarrow> s = t"
  by (metis unesc_esc)

lemma esc_no_sep [simp]: "CHR ''.'' \<notin> set (esc s)" "CHR '':'' \<notin> set (esc s)"
  by (induction s) (auto simp: esc_def esc_char.simps)

section \<open>Facts: decimal numbers\<close>

declare string_of_nat.simps [simp del]

lemma digit_char_props [simp]:
  "d < 10 \<Longrightarrow> digit_val (digit_char d) = d"
  "d < 10 \<Longrightarrow> is_digit (digit_char d)"
  by (simp_all add: digit_char_def digit_val_def is_digit_def)

lemma string_of_nat_digits:
  "string_of_nat n \<noteq> [] \<and> (\<forall>c\<in>set (string_of_nat n). is_digit c)"

proof (induction n rule: string_of_nat.induct)
  case (1 n)
  then show ?case
    by (cases "n < 10") (simp_all add: string_of_nat.simps [of n])

qed

lemma nat_of_digits_snoc:
  "nat_of_digits (s @ [c]) = 10 * nat_of_digits s + digit_val c"
  by (simp add: nat_of_digits_def)

lemma nat_of_digits_string_of_nat [simp]: "nat_of_digits (string_of_nat n) = n"

proof (induction n rule: string_of_nat.induct)
  case (1 n)
  then show ?case
    by (subst string_of_nat.simps) (auto simp: nat_of_digits_snoc nat_of_digits_def)

qed

lemma parse_nat_string_of_nat [simp]: "parse_nat (string_of_nat n) = Some n"
  using string_of_nat_digits [of n] by (simp add: parse_nat_def)

lemma string_of_nat_not_minus: "hd (string_of_nat n) \<noteq> CHR ''-''"

proof -
  have "is_digit (hd (string_of_nat n))"
    using string_of_nat_digits [of n] by simp
  then show ?thesis by (auto simp: is_digit_def)

qed

theorem parse_int_string_of_int [simp]: "parse_int (string_of_int i) = Some i"
  using string_of_nat_digits [of "nat i"] string_of_nat_not_minus [of "nat i"]
  by (auto simp: parse_int_def string_of_int_def)

lemma string_of_int_no_sep [simp]:
  "CHR ''.'' \<notin> set (string_of_int i)" "CHR '':'' \<notin> set (string_of_int i)"
  using string_of_nat_digits [of "nat i"] string_of_nat_digits [of "nat (- i)"]
  by (auto simp: string_of_int_def is_digit_def)

section \<open>Facts: claims\<close>

lemma dec_enc_opt [simp]:
  "dec_opt_str (enc_opt_str x) = Some x" "dec_opt_int (enc_opt_int y) = Some y"
  by (auto simp: dec_opt_str_def enc_opt_str_def dec_opt_int_def enc_opt_int_def
      split: option.split)

lemma enc_opt_no_sep [simp]:
  "CHR '':'' \<notin> set (enc_opt_str x)" "CHR '':'' \<notin> set (enc_opt_int y)"
  "CHR ''.'' \<notin> set (enc_opt_str x)" "CHR ''.'' \<notin> set (enc_opt_int y)"
  by (auto simp: enc_opt_str_def enc_opt_int_def split: option.split)

lemma decode_encode_claims [simp]: "decode_claims (encode_claims c) = Some c"
  unfolding decode_claims_def encode_claims_def by (subst split_join_on) auto

lemma encode_claims_no_dot [simp]: "CHR ''.'' \<notin> set (encode_claims c)"

proof -
  have "\<And>ss. (\<forall>s\<in>set ss. CHR ''.'' \<notin> set s) \<Longrightarrow> CHR ''.'' \<notin> set (join_on (CHR '':'') ss)"
  proof -
    fix ss :: "string list"
    show "(\<forall>s\<in>set ss. CHR ''.'' \<notin> set s) \<Longrightarrow> CHR ''.'' \<notin> set (join_on (CHR '':'') ss)"
      by (induction "CHR '':''" ss rule: join_on.induct) auto
  qed
  then show ?thesis by (simp add: encode_claims_def)

qed

section \<open>Facts: signing and verifying\<close>

lemma JWT_HEADER_no_dot [simp]: "CHR ''.'' \<notin> set JWT_HEADER"
  by (simp add: JWT_HEADER_def)

lemma jwt_encode_nonempty [simp]: "jwt_encode cr key c \<noteq> []"
  by (simp add: jwt_encode_def Let_def JWT_HEADER_def)

lemma split_jwt_encode [simp]:
  "split_on (CHR ''.'') (jwt_encode cr key c) =
     [JWT_HEADER, encode_claims c,
      esc (hmac_sha256 cr key (signing_input JWT_HEADER (encode_claims c)))]"
  unfolding jwt_encode_def Let_def by (subst split_join_on) auto

text \<open>Decoding what was encoded, before the expiry: the claims come back unchanged.\<close>

theorem jwt_decode_encode:
  "now < c_exp c \<Longrightarrow> jwt_decode cr key now (jwt_encode cr key c) = Inr c"
  by (simp add: jwt_decode_def)

lemma jwt_decode_encode_expired:
  "c_exp c \<le> now \<Longrightarrow> jwt_decode cr key now (jwt_encode cr key c) = Inl Expired"
  by (simp add: jwt_decode_def)

text \<open>
  Verify, then trust: a token is accepted only if it is the header, a payload and the
  HMAC of the two under the key, and the claims returned are read from that payload.
\<close>

lemma jwt_decode_Inr:
  assumes "jwt_decode cr key now tok = Inr c"
  shows "\<exists>p. tok = join_on (CHR ''.'') [JWT_HEADER, p,
                  esc (hmac_sha256 cr key (signing_input JWT_HEADER p))] \<and>
             decode_claims p = Some c \<and> now < c_exp c"

proof -
  obtain h p s where sp: "split_on (CHR ''.'') tok = [h, p, s]"
    using assms by (auto simp: jwt_decode_def split: list.splits)
  with assms have "h = JWT_HEADER" "s = esc (hmac_sha256 cr key (signing_input h p))"
      "decode_claims p = Some c" "now < c_exp c"
    by (auto simp: jwt_decode_def split: if_splits option.splits)
  moreover have "tok = join_on (CHR ''.'') [h, p, s]"
    using join_split_on [of "CHR ''.''" tok] sp by simp
  ultimately show ?thesis by blast

qed

section \<open>Facts: \<open>create_access_token\<close> and \<open>verify_token\<close>\<close>

lemma verify_token_create:
  "now' < now + d \<Longrightarrow>
   verify_token st cr now' (create_access_token st cr now (s, i, r) d) =
     Inr \<lparr>td_username = Some s, td_user_id = Some i, td_role = Some r\<rparr>"
  by (simp add: verify_token_def create_access_token_def jwt_decode_encode)

lemma verify_token_create_expired:
  "now + d \<le> now' \<Longrightarrow>
   verify_token st cr now' (create_access_token st cr now (s, i, r) d) = Inl token_exception"
  by (simp add: verify_token_def create_access_token_def jwt_decode_encode_expired)

end
