(* ===== verification/Auth_Service.thy ===== *)
theory Auth_Service
  imports User_Store Token_Codec
begin

text \<open>
  \<open>class AuthService\<close> of \<open>app/services/auth_service.py\<close>: registration
  (\<open>create_user\<close>), authentication (\<open>authenticate_user\<close>), login
  (\<open>login_user\<close>) and the two lookups. Each method takes the session's table and
  returns its result with the table after the method's commits; the random salt of the
  password hash and the value of \<open>datetime.utcnow()\<close> are arguments.
\<close>

section \<open>Operations\<close>

text \<open>The \<open>User(...)\<close> that \<open>create_user\<close> builds: \<open>is_verified\<close> is left to its default.\<close>

definition new_user_of :: "crypto \<Rightarrow> string \<Rightarrow> UserCreate \<Rightarrow> NewUser" where
  "new_user_of cr salt ud =
     \<lparr>nu_username = uc_username ud, nu_email = uc_email ud,
      nu_hashed_password = get_password_hash cr salt (uc_password ud),
      nu_full_name = uc_full_name ud, nu_role = Some (uc_role ud),
      nu_is_active = Some (uc_is_active ud), nu_is_verified = None\<rparr>"

definition already_registered :: error where
  "already_registered = HTTPException 400 ''Username or email already registered'' False"

definition create_user :: "crypto \<Rightarrow> string \<Rightarrow> timestamp \<Rightarrow> db \<Rightarrow> UserCreate \<Rightarrow> User db_result" where
  "create_user cr salt now d ud =
     (case select_first (\<lambda>u. username u = uc_username ud \<or> email u = uc_email ud) d of
        Some _ \<Rightarrow> (Inl already_registered, d)
      | None \<Rightarrow> insert_user now (new_user_of cr salt ud) d)"

definition authenticate_user :: "crypto \<Rightarrow> timestamp \<Rightarrow> db \<Rightarrow> UserLogin \<Rightarrow> User option \<times> db" where
  "authenticate_user cr now d l =
     (case select_first (\<lambda>u. username u = login_username l) d of
        None \<Rightarrow> (None, d)
      | Some u \<Rightarrow>
          if \<not> verify_password cr (login_password l) (hashed_password u) then (None, d)
          else if \<not> is_active u then (None, d)
          else (Some (touch_login now u), update_last_login now (uid u) d))"

definition incorrect_credentials :: error where
  "incorrect_credentials = HTTPException 401 ''Incorrect username or password'' True"

definition login_user :: "Settings \<Rightarrow> crypto \<Rightarrow> timestamp \<Rightarrow> db \<Rightarrow> UserLogin \<Rightarrow> Token db_result" where
  "login_user st cr now d l =
     (case authenticate_user cr now d l of
        (None, d') \<Rightarrow> (Inl incorrect_credentials, d')
      | (Some u, d') \<Rightarrow>
          (let minutes = ACCESS_TOKEN_EXPIRE_MINUTES st in
           (Inr \<lparr>access_token =
                   create_access_token st cr now (username u, uid u, role_value (role u)) (minutes * 60),
                 token_type = ''bearer'', expires_in = minutes * 60\<rparr>, d')))"

text \<open>
  \<open>get_user_by_id\<close> is called with \<open>TokenData.user_id\<close>, an \<open>Optional[int]\<close>;
  SQLAlchemy compiles \<open>User.id == None\<close> to \<open>id IS NULL\<close>, which no row of a
  primary key satisfies.
\<close>

definition get_user_by_id :: "db \<Rightarrow> int option \<Rightarrow> User option" where
  "get_user_by_id d i = select_first (\<lambda>u. Some (uid u) = i) d"

definition get_user_by_username :: "db \<Rightarrow> string \<Rightarrow> User option" where
  "get_user_by_username d n = select_first (\<lambda>u. username u = n) d"

section \<open>Sample data\<close>

definition alice :: User where
  "alice = \<lparr>uid = 1, username = ''alice'', email = ''alice@example.com'',
     hashed_password = get_password_hash demo_crypto demo_salt ''password1'',
     full_name = None, role = ANALYST, is_active = True, is_verified = False,
     created_at = 10, updated_at = None, last_login = None\<rparr>"

definition demo_db :: db where
  "demo_db = \<lparr>users = [alice], id_seq = 2\<rparr>"

definition demo_login :: "string \<Rightarrow> string \<Rightarrow> UserLogin" where
  "demo_login n p = \<lparr>login_username = n, login_password = p\<rparr>"

definition demo_create :: "string \<Rightarrow> string \<Rightarrow> UserCreate" where
  "demo_create n e = user_create_body n e ''password2'' None None None"

section \<open>Facts the properties share\<close>

lemma select_first_conflict_None:
  "select_first (\<lambda>u. username u = x \<or> email u = y) d = None \<longleftrightarrow>
   x \<notin> username ` set (users d) \<and> y \<notin> email ` set (users d)"
  by (auto simp: select_first_def find_None_iff)

lemma select_first_key:
  "distinct (map f (users d)) \<Longrightarrow> u \<in> set (users d) \<Longrightarrow> select_first (\<lambda>v. f v = f u) d = Some u"
  by (simp add: select_first_def find_key_distinct)

lemma select_first_SomeD:
  "select_first P d = Some u \<Longrightarrow> u \<in> set (users d) \<and> P u"
  by (simp add: select_first_def find_SomeD)

lemma new_user_of_fields [simp]:
  "nu_username (new_user_of cr salt ud) = uc_username ud"
  "nu_email (new_user_of cr salt ud) = uc_email ud"
  "nu_hashed_password (new_user_of cr salt ud) = get_password_hash cr salt (uc_password ud)"
  "nu_full_name (new_user_of cr salt ud) = uc_full_name ud"
  "nu_role (new_user_of cr salt ud) = Some (uc_role ud)"
  "nu_is_active (new_user_of cr salt ud) = Some (uc_is_active ud)"
  by (simp_all add: new_user_of_def)

lemma materialize_new_user_of:
  "materialize i now (new_user_of cr salt ud) =
     \<lparr>uid = i, username = uc_username ud, email = uc_email ud,
      hashed_password = get_password_hash cr salt (uc_password ud),
      full_name = uc_full_name ud, role = uc_role ud, is_active = uc_is_active ud,
      is_verified = False, created_at = now, updated_at = None, last_login = None\<rparr>"
  by (simp add: materialize_def new_user_of_def)

lemma demo_create_fields [simp]:
  "uc_username (demo_create n e) = n" "uc_email (demo_create n e) = e"
  "uc_password (demo_create n e) = ''password2''" "uc_full_name (demo_create n e) = None"
  "uc_role (demo_create n e) = VIEWER" "uc_is_active (demo_create n e)"
  by (simp_all add: demo_create_def user_create_body_def)

lemma fits_demo_create [simp]:
  "fits_columns (new_user_of demo_crypto demo_salt (demo_create n e)) \<longleftrightarrow>
   length n \<le> USERNAME_WIDTH \<and> length e \<le> EMAIL_WIDTH"
  by (simp add: fits_columns_def new_user_of_def get_password_hash_def demo_crypto_def
      demo_salt_def column_widths)

lemma db_inv_update_last_login:
  "db_inv d \<Longrightarrow> db_inv (update_last_login now i d)"
  by (auto simp: db_inv_def update_last_login_def set_update_where)

lemma authenticate_user_cases:
  assumes "authenticate_user cr now d l = (r, d')"
  obtains (fail) "r = None" "d' = d"
    | (ok) u where "select_first (\<lambda>u. username u = login_username l) d = Some u"
        "verify_password cr (login_password l) (hashed_password u)" "is_active u"
        "r = Some (touch_login now u)" "d' = update_last_login now (uid u) d"
  using assms by (auto simp: authenticate_user_def split: option.splits if_splits)

lemma select_first_username:
  "db_inv d \<Longrightarrow> u \<in> set (users d) \<Longrightarrow> select_first (\<lambda>v. username v = username u) d = Some u"
  by (rule select_first_key) (auto simp: db_inv_def)

lemma select_first_username_None:
  "select_first (\<lambda>v. username v = n) d = None \<longleftrightarrow> (\<forall>u\<in>set (users d). username u \<noteq> n)"
  by (simp add: select_first_def find_None_all)

section \<open>Properties\<close>

text \<open>
  C1. Authentication of a stored, active user whose password verifies succeeds: it
  returns that user with \<open>last_login\<close> (and \<open>updated_at\<close>) set to the current
  time, and commits exactly that update to the table.
\<close>

theorem authenticate_user_success:
  assumes "db_inv d" and "u \<in> set (users d)" and "username u = login_username l"
    and "verify_password cr (login_password l) (hashed_password u)" and "is_active u"
  shows "authenticate_user cr now d l = (Some (touch_login now u), update_last_login now (uid u) d)"
proof -
  have "select_first (\<lambda>v. username v = login_username l) d = Some u"
    using select_first_username [OF assms(1,2)] assms(3) by simp
  with assms(4,5) show ?thesis by (simp add: authenticate_user_def)
qed

lemma demo_db_inv: "db_inv demo_db"
  by (simp add: db_inv_def demo_db_def alice_def)

lemma demo_db_fields [simp]: "users demo_db = [alice]" "id_seq demo_db = 2"
  by (simp_all add: demo_db_def)

lemma alice_fields [simp]:
  "uid alice = 1" "username alice = ''alice''" "email alice = ''alice@example.com''"
  "hashed_password alice = get_password_hash demo_crypto demo_salt ''password1''"
  "role alice = ANALYST" "is_active alice"
  by (simp_all add: alice_def)

theorem authenticate_user_success_witness:
  "db_inv demo_db \<and> alice \<in> set (users demo_db) \<and>
   authenticate_user demo_crypto 100 demo_db (demo_login ''alice'' ''password1'') =
     (Some (touch_login 100 alice), update_last_login 100 1 demo_db)"
  using authenticate_user_success [OF demo_db_inv, of alice "demo_login ''alice'' ''password1''"
      demo_crypto 100] demo_db_inv
  by (simp add: demo_login_def)


text \<open>
  C2. Authentication fails exactly when no stored user has the login name, or that
  user's password does not verify, or that user is inactive; every failure is the same
  value \<open>None\<close> and leaves the table as it was, so the caller cannot tell the three
  causes apart and no \<open>last_login\<close> changes.
\<close>

theorem authenticate_user_fails_iff:
  assumes "db_inv d"
  shows "authenticate_user cr now d l = (None, d) \<longleftrightarrow>
         (\<forall>u\<in>set (users d). username u = login_username l \<longrightarrow>
             \<not> verify_password cr (login_password l) (hashed_password u) \<or> \<not> is_active u)"
proof
  assume fail: "authenticate_user cr now d l = (None, d)"
  show "\<forall>u\<in>set (users d). username u = login_username l \<longrightarrow>
          \<not> verify_password cr (login_password l) (hashed_password u) \<or> \<not> is_active u"
  proof (intro ballI impI)
    fix u assume u: "u \<in> set (users d)" "username u = login_username l"
    show "\<not> verify_password cr (login_password l) (hashed_password u) \<or> \<not> is_active u"
    proof (rule ccontr)
      assume "\<not> ?thesis"
      moreover have "select_first (\<lambda>v. username v = login_username l) d = Some u"
        using select_first_username [OF assms u(1)] u(2) by simp
      ultimately show False using fail by (simp add: authenticate_user_def)
    qed
  qed
next
  assume all: "\<forall>u\<in>set (users d). username u = login_username l \<longrightarrow>
          \<not> verify_password cr (login_password l) (hashed_password u) \<or> \<not> is_active u"
  show "authenticate_user cr now d l = (None, d)"
  proof (cases "select_first (\<lambda>u. username u = login_username l) d")
    case (Some u)
    with all show ?thesis
      by (auto simp: authenticate_user_def dest!: select_first_SomeD)
  qed (simp add: authenticate_user_def)
qed

theorem authenticate_user_fails_iff_witness:
  "db_inv demo_db \<and>
   authenticate_user demo_crypto 100 demo_db (demo_login ''alice'' ''wrong-password'') = (None, demo_db)"
  using authenticate_user_fails_iff [OF demo_db_inv, of demo_crypto 100
      "demo_login ''alice'' ''wrong-password''"] demo_db_inv
  by (simp add: demo_login_def verify_password_def get_password_hash_def
      demo_crypto_def demo_salt_def SALT_LEN_def)


text \<open>
  C3. A successful login returns a bearer token whose lifetime \<open>expires_in\<close> is the
  configured number of minutes in seconds, commits the \<open>last_login\<close> update, and
  the token, presented at any time before it expires, verifies to the user's name, id
  and role value.
\<close>

theorem login_user_token:
  assumes "db_inv d" and "u \<in> set (users d)" and "username u = login_username l"
    and "verify_password cr (login_password l) (hashed_password u)" and "is_active u"
    and "t < now + ACCESS_TOKEN_EXPIRE_MINUTES st * 60"
  shows "\<exists>tok. login_user st cr now d l = (Inr tok, update_last_login now (uid u) d) \<and>
           token_type tok = ''bearer'' \<and> expires_in tok = ACCESS_TOKEN_EXPIRE_MINUTES st * 60 \<and>
           verify_token st cr t (access_token tok) =
             Inr \<lparr>td_username = Some (username u), td_user_id = Some (uid u),
                  td_role = Some (role_value (role u))\<rparr>"
proof -
  have "select_first (\<lambda>v. username v = login_username l) d = Some u"
    using select_first_username [OF assms(1,2)] assms(3) by simp
  with assms(4,5) have "authenticate_user cr now d l =
      (Some (touch_login now u), update_last_login now (uid u) d)"
    by (simp add: authenticate_user_def)
  with assms(6) show ?thesis
    by (simp add: login_user_def Let_def verify_token_create)
qed

theorem login_user_token_witness:
  "\<exists>tok. login_user default_settings demo_crypto 100 demo_db (demo_login ''alice'' ''password1'') =
      (Inr tok, update_last_login 100 1 demo_db) \<and> expires_in tok = 1800 \<and>
      verify_token default_settings demo_crypto 1000 (access_token tok) =
        Inr \<lparr>td_username = Some ''alice'', td_user_id = Some 1, td_role = Some ''analyst''\<rparr>"
  using login_user_token [OF demo_db_inv, of alice "demo_login ''alice'' ''password1''" demo_crypto
      1000 100 default_settings]
  by (simp add: demo_login_def default_settings_def) blast


text \<open>
  C4. When authentication fails, for whichever reason, login raises the one generic
  401 \<open>Incorrect username or password\<close> with the \<open>WWW-Authenticate\<close> header and
  commits nothing.
\<close>

theorem login_user_rejects:
  "fst (authenticate_user cr now d l) = None \<Longrightarrow>
   login_user st cr now d l = (Inl incorrect_credentials, d)"
  by (cases "authenticate_user cr now d l" rule: prod.exhaust)
     (auto simp: login_user_def elim: authenticate_user_cases)

theorem login_user_rejects_witness:
  "fst (authenticate_user demo_crypto 100 demo_db (demo_login ''bob'' ''password1'')) = None \<and>
   login_user default_settings demo_crypto 100 demo_db (demo_login ''bob'' ''password1'') =
     (Inl incorrect_credentials, demo_db)"
proof -
  have h: "fst (authenticate_user demo_crypto 100 demo_db (demo_login ''bob'' ''password1'')) = None"
    by (simp add: authenticate_user_def select_first_def demo_login_def)
  show ?thesis using h login_user_rejects [OF h] by simp
qed


text \<open>
  C5. Registering a user whose username or email is already stored raises the 400
  \<open>Username or email already registered\<close> and leaves the table unchanged.
\<close>

theorem create_user_duplicate:
  assumes "x \<in> set (users d)" and "username x = uc_username ud \<or> email x = uc_email ud"
  shows "create_user cr salt now d ud = (Inl already_registered, d)"
proof -
  have "select_first (\<lambda>u. username u = uc_username ud \<or> email u = uc_email ud) d \<noteq> None"
    using assms unfolding select_first_conflict_None by (metis rev_image_eqI)
  then show ?thesis by (auto simp: create_user_def)
qed

theorem create_user_duplicate_witness:
  "alice \<in> set (users demo_db) \<and> username alice = uc_username (demo_create ''alice'' ''a2@example.com'') \<and>
   create_user demo_crypto demo_salt 100 demo_db (demo_create ''alice'' ''a2@example.com'') =
     (Inl already_registered, demo_db)"
  using create_user_duplicate [of alice demo_db "demo_create ''alice'' ''a2@example.com''"
      demo_crypto demo_salt 100]
  by (simp add: demo_create_def user_create_body_def)


text \<open>
  C6. Registering a user with a fresh username and email whose values fit their columns
  appends one row: it has the next id of the sequence, the given name, email, role and
  active flag, is not verified, has never logged in, was created now and has no
  \<open>updated_at\<close> (the column has only \<open>onupdate\<close>), and its stored hash verifies the
  given password.
\<close>

theorem create_user_success:
  assumes "\<forall>x\<in>set (users d). username x \<noteq> uc_username ud \<and> email x \<noteq> uc_email ud"
    and "fits_columns (new_user_of cr salt ud)" and "length salt = SALT_LEN"
  shows "\<exists>u. create_user cr salt now d ud = (Inr u, d\<lparr>id_seq := id_seq d + 1, users := users d @ [u]\<rparr>) \<and>
           uid u = id_seq d \<and> username u = uc_username ud \<and> email u = uc_email ud \<and>
           role u = uc_role ud \<and> is_active u = uc_is_active ud \<and> \<not> is_verified u \<and>
           last_login u = None \<and> updated_at u = None \<and> created_at u = now \<and>
           verify_password cr (uc_password ud) (hashed_password u)"
proof -
  have free: "select_first (\<lambda>u. username u = uc_username ud \<or> email u = uc_email ud) d = None"
    using assms(1) by (auto simp: select_first_conflict_None)
  have "insert_user now (new_user_of cr salt ud) d =
      (Inr (materialize (id_seq d) now (new_user_of cr salt ud)),
       d\<lparr>id_seq := id_seq d + 1, users := users d @ [materialize (id_seq d) now (new_user_of cr salt ud)]\<rparr>)"
    using assms(1,2) by (auto simp: insert_user_def Let_def)
  with free assms(3) show ?thesis
    by (simp add: create_user_def materialize_new_user_of)
qed

theorem create_user_success_witness:
  "fits_columns (new_user_of demo_crypto demo_salt (demo_create ''carol'' ''carol@example.com'')) \<and>
   (\<exists>u. create_user demo_crypto demo_salt 100 demo_db (demo_create ''carol'' ''carol@example.com'') =
      (Inr u, demo_db\<lparr>id_seq := 3, users := [alice, u]\<rparr>) \<and> uid u = 2 \<and> role u = VIEWER \<and>
      is_active u \<and> verify_password demo_crypto ''password2'' (hashed_password u))"
proof -
  have f: "fits_columns (new_user_of demo_crypto demo_salt (demo_create ''carol'' ''carol@example.com''))"
    by (simp add: column_widths)
  have "\<forall>x\<in>set (users demo_db). username x \<noteq> uc_username (demo_create ''carol'' ''carol@example.com'') \<and>
      email x \<noteq> uc_email (demo_create ''carol'' ''carol@example.com'')"
    by (simp add: demo_create_def user_create_body_def)
  from create_user_success [OF this f demo_salt_len, of 100] f show ?thesis
    by (simp add: demo_db_def demo_create_def user_create_body_def) blast
qed


text \<open>
  C7. Registration keeps the table's constraints: ids, usernames and emails stay unique
  and every id stays below the sequence, whichever branch is taken.
\<close>

theorem db_inv_create_user:
  "db_inv d \<Longrightarrow> db_inv (snd (create_user cr salt now d ud))"
  by (auto simp: create_user_def db_inv_insert_user split: option.split)

theorem db_inv_create_user_witness:
  "db_inv demo_db \<and>
   db_inv (snd (create_user demo_crypto demo_salt 100 demo_db (demo_create ''carol'' ''carol@example.com'')))"
  using db_inv_create_user [OF demo_db_inv] demo_db_inv by simp


lemma db_inv_authenticate_user:
  "db_inv d \<Longrightarrow> db_inv (snd (authenticate_user cr now d l))"
  by (auto simp: authenticate_user_def db_inv_update_last_login split: option.split)

lemma db_inv_login_user:
  "db_inv d \<Longrightarrow> db_inv (snd (login_user st cr now d l))"
  using db_inv_authenticate_user [of d cr now l]
  by (auto simp: login_user_def Let_def split: prod.split option.split)

text \<open>
  C23. \<open>ACCESS_TOKEN_EXPIRE_MINUTES\<close> is an unconstrained \<open>int\<close> setting: when it is
  zero or negative, login still succeeds and returns a token, but that token is already
  expired and is refused from the moment it is issued.
\<close>

theorem login_user_nonpositive_ttl:
  assumes "ACCESS_TOKEN_EXPIRE_MINUTES st \<le> 0"
    and "login_user st cr now d l = (Inr tok, d')" and "now \<le> t"
  shows "verify_token st cr t (access_token tok) = Inl token_exception"
proof -
  obtain u where "fst (authenticate_user cr now d l) = Some u"
    and tok: "tok = \<lparr>access_token = create_access_token st cr now (username u, uid u, role_value (role u))
          (ACCESS_TOKEN_EXPIRE_MINUTES st * 60), token_type = ''bearer'',
          expires_in = ACCESS_TOKEN_EXPIRE_MINUTES st * 60\<rparr>"
    using assms(2) by (auto simp: login_user_def Let_def split: prod.splits option.splits)
  have "now + ACCESS_TOKEN_EXPIRE_MINUTES st * 60 \<le> t" using assms(1,3) by linarith
  then show ?thesis by (simp add: tok verify_token_create_expired)
qed

theorem login_user_nonpositive_ttl_witness:
  "\<exists>tok d'. ACCESS_TOKEN_EXPIRE_MINUTES (default_settings\<lparr>ACCESS_TOKEN_EXPIRE_MINUTES := 0\<rparr>) \<le> 0 \<and>
     login_user (default_settings\<lparr>ACCESS_TOKEN_EXPIRE_MINUTES := 0\<rparr>) demo_crypto 100 demo_db
       (demo_login ''alice'' ''password1'') = (Inr tok, d') \<and>
     verify_token (default_settings\<lparr>ACCESS_TOKEN_EXPIRE_MINUTES := 0\<rparr>) demo_crypto 100 (access_token tok) =
       Inl token_exception"
proof -
  obtain tok d' where eq: "login_user (default_settings\<lparr>ACCESS_TOKEN_EXPIRE_MINUTES := 0\<rparr>) demo_crypto 100
      demo_db (demo_login ''alice'' ''password1'') = (Inr tok, d')"
    by (simp add: login_user_def authenticate_user_def select_first_def demo_login_def Let_def)
  have z: "ACCESS_TOKEN_EXPIRE_MINUTES (default_settings\<lparr>ACCESS_TOKEN_EXPIRE_MINUTES := 0\<rparr>) \<le> 0" by simp
  show ?thesis using login_user_nonpositive_ttl [OF z eq, of 100] eq z by blast
qed

text \<open>
  C28. What validation guarantees about the columns: for a body that passes the
  \<open>UserCreate\<close> constraints, and a hash that fits its column (a bcrypt hash has 60
  characters), the row fits every column exactly when the email has at most 100
  characters; \<open>EmailStr\<close> admits up to 254, so the email column is the one
  constraint that validation does not cover.
\<close>

theorem valid_create_fits_iff:
  assumes "valid_user_create ud"
    and "length (get_password_hash cr salt (uc_password ud)) \<le> HASH_WIDTH"
  shows "fits_columns (new_user_of cr salt ud) \<longleftrightarrow> length (uc_email ud) \<le> EMAIL_WIDTH"
  using assms
  by (auto simp: fits_columns_def new_user_of_def valid_user_create_def column_widths
      split: option.splits)

theorem valid_create_fits_iff_witness:
  "valid_user_create (demo_create ''carol'' ''carol@example.com'') \<and>
   fits_columns (new_user_of demo_crypto demo_salt (demo_create ''carol'' ''carol@example.com''))"
proof -
  have v: "valid_user_create (demo_create ''carol'' ''carol@example.com'')"
    by (simp add: valid_user_create_def valid_email_def email_syntax demo_create_def user_create_body_def)
  have h: "length (get_password_hash demo_crypto demo_salt (uc_password (demo_create ''carol'' ''carol@example.com'')))
      \<le> HASH_WIDTH"
    by (simp add: get_password_hash_def demo_crypto_def demo_salt_def demo_create_def
        user_create_body_def HASH_WIDTH_def)
  show ?thesis using valid_create_fits_iff [OF v h] v
    by (simp add: demo_create_def user_create_body_def EMAIL_WIDTH_def)
qed

end
