(* ===== verification/Auth_Deps.thy ===== *)
theory Auth_Deps
  imports Auth_Service
begin

text \<open>
  The FastAPI dependencies of \<open>app/core/deps.py\<close>: the bearer scheme
  (\<open>security = HTTPBearer()\<close>), \<open>get_current_user\<close>,
  \<open>get_current_active_user\<close>, and the role gate \<open>require_role\<close> with its three
  instances. A dependency chain is a composition of functions into
  \<open>error + User\<close>: the first exception raised is the result.
\<close>

section \<open>The bearer scheme\<close>

text \<open>
  \<open>HTTPBearer.__call__\<close> (FastAPI): the \<open>Authorization\<close> header is split at its
  first space (\<open>str.partition\<close>); a missing header, an empty scheme or empty
  credentials give 403 \<open>Not authenticated\<close>, a scheme other than \<open>bearer\<close> in
  any case (\<open>scheme.lower()\<close>, \<open>ascii_lower\<close> of the prelude) gives 403
  \<open>Invalid authentication credentials\<close>.
\<close>

definition partition_space :: "string \<Rightarrow> string \<times> string" where
  "partition_space s = (takeWhile (\<lambda>c. c \<noteq> CHR '' '') s, drop 1 (dropWhile (\<lambda>c. c \<noteq> CHR '' '') s))"

definition not_authenticated :: error where
  "not_authenticated = HTTPException 403 ''Not authenticated'' False"

definition http_bearer :: "string option \<Rightarrow> error + string" where
  "http_bearer authorization =
     (case authorization of
        None \<Rightarrow> Inl not_authenticated
      | Some a \<Rightarrow>
          (let (scheme, credentials) = partition_space a in
           if a = [] \<or> scheme = [] \<or> credentials = [] then Inl not_authenticated
           else if map ascii_lower scheme \<noteq> ''bearer''
           then Inl (HTTPException 403 ''Invalid authentication credentials'' False)
           else Inr credentials))"

section \<open>Resolving the current user\<close>

definition credentials_exception :: error where
  "credentials_exception = HTTPException 401 ''Could not validate credentials'' True"

definition inactive_user :: error where
  "inactive_user = HTTPException 400 ''Inactive user'' False"

definition get_current_user :: "Settings \<Rightarrow> crypto \<Rightarrow> timestamp \<Rightarrow> db \<Rightarrow> string \<Rightarrow> error + User" where
  "get_current_user st cr now d token =
     (case verify_token st cr now token of
        Inl e \<Rightarrow> Inl e
      | Inr token_data \<Rightarrow>
          (case get_user_by_id d (td_user_id token_data) of
             None \<Rightarrow> Inl credentials_exception
           | Some u \<Rightarrow> if \<not> is_active u then Inl inactive_user else Inr u))"

definition get_current_active_user :: "Settings \<Rightarrow> crypto \<Rightarrow> timestamp \<Rightarrow> db \<Rightarrow> string \<Rightarrow> error + User" where
  "get_current_active_user st cr now d token =
     (case get_current_user st cr now d token of
        Inl e \<Rightarrow> Inl e
      | Inr u \<Rightarrow> if \<not> is_active u then Inl inactive_user else Inr u)"

section \<open>The role gate\<close>

definition not_enough_permissions :: error where
  "not_enough_permissions = HTTPException 403 ''Not enough permissions'' False"

definition role_checker :: "UserRole \<Rightarrow> User \<Rightarrow> error + User" where
  "role_checker required_role u =
     (if role u \<noteq> required_role \<and> role u \<noteq> ADMIN then Inl not_enough_permissions else Inr u)"

definition require_role ::
  "UserRole \<Rightarrow> Settings \<Rightarrow> crypto \<Rightarrow> timestamp \<Rightarrow> db \<Rightarrow> string \<Rightarrow> error + User" where
  "require_role required_role st cr now d token =
     (case get_current_active_user st cr now d token of
        Inl e \<Rightarrow> Inl e
      | Inr u \<Rightarrow> role_checker required_role u)"

definition require_admin :: "Settings \<Rightarrow> crypto \<Rightarrow> timestamp \<Rightarrow> db \<Rightarrow> string \<Rightarrow> error + User" where
  "require_admin = require_role ADMIN"

definition require_analyst :: "Settings \<Rightarrow> crypto \<Rightarrow> timestamp \<Rightarrow> db \<Rightarrow> string \<Rightarrow> error + User" where
  "require_analyst = require_role ANALYST"

definition require_viewer :: "Settings \<Rightarrow> crypto \<Rightarrow> timestamp \<Rightarrow> db \<Rightarrow> string \<Rightarrow> error + User" where
  "require_viewer = require_role VIEWER"

section \<open>Sample tokens\<close>

definition alice_token :: string where
  "alice_token = create_access_token default_settings demo_crypto 100 (''alice'', 1, ''analyst'') 1800"

section \<open>Facts the properties share\<close>

lemma get_user_by_id_Some:
  "get_user_by_id d i = Some u \<Longrightarrow> u \<in> set (users d) \<and> i = Some (uid u)"
  by (auto simp: get_user_by_id_def dest: select_first_SomeD)

lemma get_user_by_id_stored:
  "db_inv d \<Longrightarrow> u \<in> set (users d) \<Longrightarrow> get_user_by_id d (Some (uid u)) = Some u"
  using select_first_key [of uid d u] by (simp add: get_user_by_id_def db_inv_def)

lemma get_user_by_id_None [simp]: "get_user_by_id d None = None"
  by (simp add: get_user_by_id_def select_first_def find_None_iff)

lemma get_current_user_Inr_active:
  "get_current_user st cr now d token = Inr u \<Longrightarrow> is_active u"
  by (auto simp: get_current_user_def split: sum.splits option.splits if_splits)

lemma get_current_active_user_eq:
  "get_current_active_user st cr now d token = get_current_user st cr now d token"
  by (auto simp: get_current_active_user_def dest: get_current_user_Inr_active split: sum.split)

lemma lower_Bearer:
  "ascii_lower CHR ''B'' = CHR ''b''" "ascii_lower CHR ''e'' = CHR ''e''"
  "ascii_lower CHR ''a'' = CHR ''a''" "ascii_lower CHR ''r'' = CHR ''r''"
  unfolding ascii_lower_def by code_simp+

lemma http_bearer_Bearer:
  "t \<noteq> [] \<Longrightarrow> http_bearer (Some (''Bearer '' @ t)) = Inr t"
  by (simp add: http_bearer_def partition_space_def lower_Bearer)

lemma require_role_Inr:
  "require_role r st cr now d token = Inr u \<Longrightarrow>
   get_current_user st cr now d token = Inr u \<and> (role u = r \<or> role u = ADMIN)"
  by (auto simp: require_role_def role_checker_def get_current_active_user_eq split: sum.splits if_splits)

lemma jwt_decode_alice_token:
  "t < 1900 \<Longrightarrow> jwt_decode demo_crypto (SECRET_KEY default_settings) t alice_token =
     Inr \<lparr>c_sub = Some ''alice'', c_user_id = Some 1, c_role = Some ''analyst'', c_exp = 1900\<rparr>"
  by (simp add: alice_token_def create_access_token_def jwt_decode_encode)

lemma get_current_user_cases:
  assumes "get_current_user st cr now d token = r"
  obtains (bad_token) e where "jwt_decode cr (SECRET_KEY st) now token = Inl e"
      "r = Inl token_exception"
    | (no_user) c where "jwt_decode cr (SECRET_KEY st) now token = Inr c"
      "get_user_by_id d (c_user_id c) = None" "r = Inl credentials_exception"
    | (found) c u where "jwt_decode cr (SECRET_KEY st) now token = Inr c"
      "get_user_by_id d (c_user_id c) = Some u"
      "r = (if is_active u then Inr u else Inl inactive_user)"
  using assms
  by (cases "jwt_decode cr (SECRET_KEY st) now token")
     (auto simp: get_current_user_def verify_token_def split: option.splits)

lemma ascii_lower_space: "ascii_lower c = CHR '' '' \<longleftrightarrow> c = CHR '' ''"
proof
  assume h: "ascii_lower c = CHR '' ''"
  show "c = CHR '' ''"
  proof (cases "(65::nat) \<le> of_char c \<and> of_char c \<le> (90::nat)")
    case True
    then have "of_char (ascii_lower c) = (of_char c + 32 :: nat)"
      by (simp add: ascii_lower_def of_char_of)
    then show ?thesis using h True by simp
  qed (use h in \<open>simp add: ascii_lower_def split: if_splits\<close>)
qed (simp add: ascii_lower_def)

lemma partition_space_append:
  "CHR '' '' \<notin> set s \<Longrightarrow> partition_space (s @ CHR '' '' # t) = (s, t)"
  by (induction s) (auto simp: partition_space_def)

lemma lower_BEARER: "map ascii_lower ''BEARER'' = ''bearer''"
proof -
  have "ascii_lower CHR ''E'' = CHR ''e''" "ascii_lower CHR ''A'' = CHR ''a''"
    "ascii_lower CHR ''R'' = CHR ''r''"
    unfolding ascii_lower_def by code_simp+
  then show ?thesis by (simp add: lower_Bearer)
qed

lemma get_user_by_id_touched:
  assumes "db_inv d" and "u \<in> set (users d)"
  shows "get_user_by_id (update_last_login now (uid u) d) (Some (uid u)) = Some (touch_login now u)"
proof -
  have "touch_login now u \<in> set (users (update_last_login now (uid u) d))"
    using assms(2) by (auto simp: update_last_login_def set_update_where)
  from get_user_by_id_stored [OF db_inv_update_last_login [OF assms(1)] this] show ?thesis
    by simp
qed

section \<open>Properties\<close>

text \<open>
  C8. A token resolves only to a stored, active user, and only when the token verifies
  (signature, then expiry) and its \<open>user_id\<close> claim is that user's id.
\<close>

theorem get_current_user_sound:
  assumes "get_current_user st cr now d token = Inr u"
  shows "u \<in> set (users d) \<and> is_active u \<and>
         (\<exists>c. jwt_decode cr (SECRET_KEY st) now token = Inr c \<and> c_user_id c = Some (uid u))"
  using assms
proof (cases rule: get_current_user_cases)
  case (found c v)
  then show ?thesis using assms get_user_by_id_Some [OF found(2)]
    by (auto split: if_splits)
qed simp_all

theorem get_current_user_sound_witness:
  "get_current_user default_settings demo_crypto 500 demo_db alice_token = Inr alice \<and>
   alice \<in> set (users demo_db) \<and> is_active alice"
proof -
  have r: "get_current_user default_settings demo_crypto 500 demo_db alice_token = Inr alice"
    by (simp add: get_current_user_def verify_token_def jwt_decode_alice_token
        get_user_by_id_def select_first_def)
  show ?thesis using r get_current_user_sound [OF r] by simp
qed

text \<open>
  C9. A token that still verifies but belongs to a deactivated account is refused with
  the 400 \<open>Inactive user\<close>, not resolved.
\<close>

theorem get_current_user_inactive:
  assumes "db_inv d" and "u \<in> set (users d)" and "\<not> is_active u"
    and "jwt_decode cr (SECRET_KEY st) now token = Inr c" and "c_user_id c = Some (uid u)"
  shows "get_current_user st cr now d token = Inl inactive_user"
  using assms get_user_by_id_stored [OF assms(1,2)]
  by (simp add: get_current_user_def verify_token_def)

theorem get_current_user_inactive_witness:
  "get_current_user default_settings demo_crypto 500 \<lparr>users = [alice\<lparr>is_active := False\<rparr>], id_seq = 2\<rparr>
     alice_token = Inl inactive_user"
proof -
  have "db_inv \<lparr>users = [alice\<lparr>is_active := False\<rparr>], id_seq = 2\<rparr>"
    by (simp add: db_inv_def)
  from get_current_user_inactive [OF this _ _ jwt_decode_alice_token] show ?thesis
    by simp
qed

text \<open>
  C10. A verified token whose user id no longer names a stored user (or carries no user
  id) is refused with the same 401.
\<close>

theorem get_current_user_vanished:
  "jwt_decode cr (SECRET_KEY st) now token = Inr c \<Longrightarrow>
   (\<forall>u\<in>set (users d). c_user_id c \<noteq> Some (uid u)) \<Longrightarrow>
   get_current_user st cr now d token = Inl credentials_exception"
proof -
  assume dec: "jwt_decode cr (SECRET_KEY st) now token = Inr c"
    and none: "\<forall>u\<in>set (users d). c_user_id c \<noteq> Some (uid u)"
  from none have "get_user_by_id d (c_user_id c) = None"
    by (auto simp: get_user_by_id_def select_first_def find_None_all)
  with dec show ?thesis by (simp add: get_current_user_def verify_token_def)
qed

theorem get_current_user_vanished_witness:
  "users empty_db = [] \<and>
   get_current_user default_settings demo_crypto 500 empty_db alice_token = Inl credentials_exception"
  using get_current_user_vanished [OF jwt_decode_alice_token [of 500], of empty_db]
  by (simp add: empty_db_def)

text \<open>
  C11. The role gate \<open>require_role r\<close> lets a request through exactly when the
  token resolves to a user whose role is \<open>r\<close> or ADMIN: ADMIN satisfies every
  requirement, and there is no other order among roles (an ANALYST does not pass a
  VIEWER gate).
\<close>

theorem require_role_iff:
  "require_role r st cr now d token = Inr u \<longleftrightarrow>
   get_current_user st cr now d token = Inr u \<and> (role u = r \<or> role u = ADMIN)"
  by (auto simp: require_role_def role_checker_def get_current_active_user_eq split: sum.split)

lemma get_current_user_alice:
  "t < 1900 \<Longrightarrow> get_current_user default_settings demo_crypto t demo_db alice_token = Inr alice"
  by (simp add: get_current_user_def verify_token_def jwt_decode_alice_token
      get_user_by_id_def select_first_def)

theorem require_role_iff_witness:
  "require_role ANALYST default_settings demo_crypto 500 demo_db alice_token = Inr alice \<and>
   require_role VIEWER default_settings demo_crypto 500 demo_db alice_token \<noteq> Inr alice"
  using require_role_iff [of ANALYST default_settings demo_crypto 500 demo_db alice_token alice]
    require_role_iff [of VIEWER default_settings demo_crypto 500 demo_db alice_token alice]
  by (simp add: get_current_user_alice)

text \<open>
  C24. A token whose signature segment has been replaced by anything but the HMAC of
  its header and claims under \<open>SECRET_KEY\<close> is refused with 401, even though its
  claims are intact and unexpired.
\<close>

theorem get_current_user_altered_signature:
  assumes "CHR ''.'' \<notin> set s'"
    and "s' \<noteq> esc (hmac_sha256 cr (SECRET_KEY st) (signing_input JWT_HEADER (encode_claims c)))"
  shows "get_current_user st cr now d (join_on (CHR ''.'') [JWT_HEADER, encode_claims c, s']) =
         Inl credentials_exception"
proof -
  have "split_on (CHR ''.'') (join_on (CHR ''.'') [JWT_HEADER, encode_claims c, s']) =
      [JWT_HEADER, encode_claims c, s']"
    using assms(1) by (intro split_join_on) auto
  with assms(2) show ?thesis
    by (simp add: get_current_user_def verify_token_def jwt_decode_def token_exception_def
        credentials_exception_def)
qed

theorem get_current_user_altered_signature_witness:
  "CHR ''.'' \<notin> set ''AAAA'' \<and>
   ''AAAA'' \<noteq> esc (hmac_sha256 demo_crypto (SECRET_KEY default_settings) (signing_input JWT_HEADER
      (encode_claims \<lparr>c_sub = Some ''alice'', c_user_id = Some 1, c_role = Some ''analyst'', c_exp = 1900\<rparr>))) \<and>
   get_current_user default_settings demo_crypto 500 demo_db
     (join_on (CHR ''.'') [JWT_HEADER,
        encode_claims \<lparr>c_sub = Some ''alice'', c_user_id = Some 1, c_role = Some ''analyst'', c_exp = 1900\<rparr>,
        ''AAAA'']) = Inl credentials_exception"
proof -
  have h1: "CHR ''.'' \<notin> set ''AAAA''" by simp
  have h2: "''AAAA'' \<noteq> esc (hmac_sha256 demo_crypto (SECRET_KEY default_settings) (signing_input JWT_HEADER
      (encode_claims \<lparr>c_sub = Some ''alice'', c_user_id = Some 1, c_role = Some ''analyst'', c_exp = 1900\<rparr>)))"
    by (simp add: demo_crypto_def default_settings_def esc_def esc_char.simps)
  show ?thesis using h1 h2 get_current_user_altered_signature [OF h1 h2, of 500 demo_db] by simp
qed

text \<open>
  C26. The bearer scheme parses back what a client prints: for every spelling of the
  scheme that lower-cases to \<open>bearer\<close> (\<open>Bearer\<close>, \<open>BEARER\<close>, ...) and every
  non-empty credential, the header \<open>scheme SP credential\<close> yields exactly that
  credential, spaces inside it included.
\<close>

theorem http_bearer_roundtrip:
  assumes "map ascii_lower s = ''bearer''" and "t \<noteq> []"
  shows "http_bearer (Some (s @ CHR '' '' # t)) = Inr t"
proof -
  have "CHR '' '' \<notin> set s"
  proof
    assume "CHR '' '' \<in> set s"
    then have "ascii_lower CHR '' '' \<in> set (map ascii_lower s)" by simp
    then show False using assms(1) ascii_lower_space [of "CHR '' ''"] by simp
  qed
  moreover have "s \<noteq> []" using assms(1) by auto
  ultimately have "partition_space (s @ CHR '' '' # t) = (s, t)" "s @ CHR '' '' # t \<noteq> []"
    by (simp_all add: partition_space_append)
  then show ?thesis using assms \<open>s \<noteq> []\<close> unfolding http_bearer_def by simp
qed

theorem http_bearer_roundtrip_witness:
  "http_bearer (Some (''BEARER '' @ alice_token)) = Inr alice_token"
proof -
  have "alice_token \<noteq> []"
    by (simp add: alice_token_def create_access_token_def jwt_encode_def Let_def JWT_HEADER_def)
  from http_bearer_roundtrip [OF lower_BEARER this] show ?thesis by simp
qed

text \<open>
  C27. A login's token resolves back to the user who logged in: while it has not
  expired, \<open>get_current_user\<close> on the table left by the login returns that stored
  user, with the \<open>last_login\<close> the login wrote.
\<close>

theorem login_token_resolves:
  assumes "db_inv d" and "login_user st cr now d l = (Inr tok, d')"
    and "t < now + ACCESS_TOKEN_EXPIRE_MINUTES st * 60"
  shows "\<exists>u. u \<in> set (users d) \<and> username u = login_username l \<and>
           get_current_user st cr t d' (access_token tok) = Inr (touch_login now u)"
proof -
  obtain r d0 where auth: "authenticate_user cr now d l = (r, d0)" by fastforce
  show ?thesis using auth
  proof (cases rule: authenticate_user_cases)
    case fail
    then show ?thesis using assms(2) auth by (simp add: login_user_def)
  next
    case (ok u)
    have u: "u \<in> set (users d)" "username u = login_username l"
      using select_first_SomeD [OF ok(1)] by simp_all
    have tok: "access_token tok = create_access_token st cr now (username u, uid u, role_value (role u))
        (ACCESS_TOKEN_EXPIRE_MINUTES st * 60)" and d': "d' = update_last_login now (uid u) d"
      using assms(2) auth ok by (auto simp: login_user_def Let_def)
    have "get_current_user st cr t d' (access_token tok) = Inr (touch_login now u)"
      using ok(3) assms(3)
      by (simp add: tok d' get_current_user_def verify_token_create get_user_by_id_touched [OF assms(1) u(1)]
          touch_login_def)
    then show ?thesis using u by blast
  qed
qed

theorem login_token_resolves_witness:
  "\<exists>tok d'. login_user default_settings demo_crypto 100 demo_db (demo_login ''alice'' ''password1'') =
      (Inr tok, d') \<and>
      get_current_user default_settings demo_crypto 1000 d' (access_token tok) = Inr (touch_login 100 alice)"
proof -
  obtain tok d' where l: "login_user default_settings demo_crypto 100 demo_db (demo_login ''alice'' ''password1'') =
      (Inr tok, d')"
    by (simp add: login_user_def authenticate_user_def select_first_def demo_login_def Let_def)
  have "(1000::int) < 100 + ACCESS_TOKEN_EXPIRE_MINUTES default_settings * 60"
    by (simp add: default_settings_def)
  from login_token_resolves [OF demo_db_inv l this] obtain u where
    "u \<in> set (users demo_db)" "username u = login_username (demo_login ''alice'' ''password1'')"
    "get_current_user default_settings demo_crypto 1000 d' (access_token tok) = Inr (touch_login 100 u)"
    by blast
  then show ?thesis using l by (auto simp: demo_login_def)
qed

end
