(* ===== verification/Auth_Api.thy ===== *)
theory Auth_Api
  imports Auth_Deps
begin

text \<open>
  The HTTP surface: the four routes of \<open>app/api/v1/auth.py\<close>, the status route of
  \<open>app/api/v1/__init__.py\<close> and the health route of \<open>app/main.py\<close>. A route
  resolves its dependencies in the order FastAPI does (the bearer scheme, then the
  chain of user dependencies, then the body's field validation), calls the service, and
  turns an escaping exception into its response: an \<open>HTTPException\<close> into its
  status and detail, anything else into a 500. Each request runs on its own session;
  the table after the request is returned with the response. A route that returns a
  user has it validated against \<open>UserResponse\<close> first. The properties cover
  access control, the normalised duplicate check, the statuses of \<open>/me\<close>, the table
  under any sequence of requests, and what the stored hashes can influence.
\<close>

section \<open>Responses and the request environment\<close>

datatype body =
    BUser UserResponse
  | BToken Token
  | BMessage string
  | BHealth string string string string
  | BDetail string

datatype response = Response nat body

fun status_code :: "response \<Rightarrow> nat" where
  "status_code (Response s _) = s"

definition error_response :: "error \<Rightarrow> response" where
  "error_response e =
     (case e of
        HTTPException s detail _ \<Rightarrow> Response s (BDetail detail)
      | _ \<Rightarrow> Response 500 (BDetail ''Internal Server Error''))"

definition validation_error :: response where
  "validation_error = Response 422 (BDetail ''Unprocessable Entity'')"

text \<open>
  A route that returns a user: FastAPI validates the row against \<open>UserResponse\<close>
  and sends it with the route's status, or fails with a 500.
\<close>

definition user_reply :: "nat \<Rightarrow> User \<Rightarrow> response" where
  "user_reply s u =
     (case user_response_of u of
        Some r \<Rightarrow> Response s (BUser r)
      | None \<Rightarrow> error_response (ResponseValidationError ''UserResponse''))"

text \<open>What a request sees of the process: settings, primitives, the clock, the salt drawn.\<close>

record env =
  env_settings :: Settings
  env_crypto :: crypto
  env_now :: timestamp
  env_salt :: string

section \<open>Routes\<close>

definition register :: "env \<Rightarrow> db \<Rightarrow> string option \<Rightarrow> UserCreate \<Rightarrow> response \<times> db" where
  "register ev d authorization user_data =
     (case http_bearer authorization of
        Inl e \<Rightarrow> (error_response e, d)
      | Inr token \<Rightarrow>
          (case require_admin (env_settings ev) (env_crypto ev) (env_now ev) d token of
             Inl e \<Rightarrow> (error_response e, d)
           | Inr current_user \<Rightarrow>
               (case validate_user_create user_data of
                  None \<Rightarrow> (validation_error, d)
                | Some ud \<Rightarrow>
                    (case create_user (env_crypto ev) (env_salt ev) (env_now ev) d ud of
                       (Inl e, d') \<Rightarrow> (error_response e, d')
                     | (Inr u, d') \<Rightarrow> (user_reply 201 u, d')))))"

definition login :: "env \<Rightarrow> db \<Rightarrow> UserLogin \<Rightarrow> response \<times> db" where
  "login ev d login_data =
     (case login_user (env_settings ev) (env_crypto ev) (env_now ev) d login_data of
        (Inl e, d') \<Rightarrow> (error_response e, d')
      | (Inr t, d') \<Rightarrow> (Response 200 (BToken t), d'))"

definition get_current_user_info :: "env \<Rightarrow> db \<Rightarrow> string option \<Rightarrow> response \<times> db" where
  "get_current_user_info ev d authorization =
     (case http_bearer authorization of
        Inl e \<Rightarrow> (error_response e, d)
      | Inr token \<Rightarrow>
          (case get_current_active_user (env_settings ev) (env_crypto ev) (env_now ev) d token of
             Inl e \<Rightarrow> (error_response e, d)
           | Inr u \<Rightarrow> (user_reply 200 u, d)))"

definition logout :: "db \<Rightarrow> response \<times> db" where
  "logout d = (Response 200 (BMessage ''Successfully logged out''), d)"

definition api_status :: "db \<Rightarrow> response \<times> db" where
  "api_status d = (Response 200 (BMessage ''RE Platform API v1 is running''), d)"

definition health_check :: "env \<Rightarrow> db \<Rightarrow> response \<times> db" where
  "health_check ev d =
     (Response 200 (BHealth ''healthy'' (PROJECT_NAME (env_settings ev)) (VERSION (env_settings ev))
        (ENVIRONMENT (env_settings ev))), d)"

section \<open>The application\<close>

text \<open>
  The requests the application routes, with the header and body each reads.
\<close>

datatype request =
    PostRegister "string option" UserCreate
  | PostLogin UserLogin
  | GetMe "string option"
  | PostLogout
  | GetStatus
  | GetHealth

fun handle :: "env \<Rightarrow> db \<Rightarrow> request \<Rightarrow> response \<times> db" where
  "handle ev d (PostRegister a u) = register ev d a u"
| "handle ev d (PostLogin l) = login ev d l"
| "handle ev d (GetMe a) = get_current_user_info ev d a"
| "handle ev d PostLogout = logout d"
| "handle ev d GetStatus = api_status d"
| "handle ev d GetHealth = health_check ev d"

text \<open>A sequence of requests, each served to completion before the next.\<close>

fun run :: "(env \<times> request) list \<Rightarrow> db \<Rightarrow> response list \<times> db" where
  "run [] d = ([], d)"
| "run ((ev, r) # rs) d =
     (let (resp, d') = handle ev d r; (resps, d'') = run rs d' in (resp # resps, d''))"

section \<open>Sample data\<close>

definition root_user :: User where
  "root_user = \<lparr>uid = 2, username = ''root'', email = ''root@example.com'',
     hashed_password = get_password_hash demo_crypto demo_salt ''rootpass1'',
     full_name = None, role = ADMIN, is_active = True, is_verified = True,
     created_at = 20, updated_at = None, last_login = None\<rparr>"

definition staff_db :: db where
  "staff_db = \<lparr>users = [alice, root_user], id_seq = 3\<rparr>"

definition root_token :: string where
  "root_token = create_access_token default_settings demo_crypto 100 (''root'', 2, ''admin'') 1800"

definition demo_env :: "timestamp \<Rightarrow> env" where
  "demo_env now = \<lparr>env_settings = default_settings, env_crypto = demo_crypto, env_now = now,
     env_salt = demo_salt\<rparr>"

text \<open>
  The same table with every stored hash replaced by \<open>f\<close> of its row: the device for
  stating which responses the hashes can influence.
\<close>

definition rehash :: "(User \<Rightarrow> string) \<Rightarrow> db \<Rightarrow> db" where
  "rehash f d = d\<lparr>users := map (\<lambda>u. u\<lparr>hashed_password := f u\<rparr>) (users d)\<rparr>"

section \<open>Facts the properties share\<close>

lemma error_response_body: "error_response e = Response s b \<Longrightarrow> \<exists>m. b = BDetail m"
  by (auto simp: error_response_def split: error.splits)

lemma register_cases:
  assumes "register ev d a ud = (resp, d')"
  obtains (refused) e where "resp = error_response e \<or> resp = validation_error" "d' = d"
    | (created) tok adm ud' where "http_bearer a = Inr tok"
      "require_admin (env_settings ev) (env_crypto ev) (env_now ev) d tok = Inr adm"
      "validate_user_create ud = Some ud'"
      "(case fst (create_user (env_crypto ev) (env_salt ev) (env_now ev) d ud') of
          Inl e \<Rightarrow> error_response e | Inr u \<Rightarrow> user_reply 201 u) = resp"
      "d' = snd (create_user (env_crypto ev) (env_salt ev) (env_now ev) d ud')"
proof (cases "http_bearer a")
  case (Inl e)
  with assms show ?thesis by (intro that(1) [of e]) (auto simp: register_def)
next
  case (Inr tok)
  show ?thesis
  proof (cases "require_admin (env_settings ev) (env_crypto ev) (env_now ev) d tok")
    case (Inl e)
    with Inr assms show ?thesis by (intro that(1) [of e]) (auto simp: register_def)
  next
    case adm: (Inr adm)
    show ?thesis
    proof (cases "validate_user_create ud")
      case None
      with Inr adm assms show ?thesis by (intro that(1) [of undefined]) (auto simp: register_def)
    next
      case (Some ud')
      have "register ev d a ud =
          ((case fst (create_user (env_crypto ev) (env_salt ev) (env_now ev) d ud') of
              Inl e \<Rightarrow> error_response e | Inr u \<Rightarrow> user_reply 201 u),
           snd (create_user (env_crypto ev) (env_salt ev) (env_now ev) d ud'))"
        unfolding register_def using Inr adm Some by (simp split: prod.split sum.split)
      with assms show ?thesis by (intro that(2) [OF Inr adm Some]) auto
    qed
  qed
qed

lemma fst_case_reply:
  "fst (case p of (Inl e, d') \<Rightarrow> (g e, d') | (Inr u, d') \<Rightarrow> (h u, d')) =
   (case fst p of Inl e \<Rightarrow> g e | Inr u \<Rightarrow> h u)"
  by (cases p) (simp split: sum.split)

lemma user_reply_hash [simp]: "user_reply s (u\<lparr>hashed_password := h\<rparr>) = user_reply s u"
  by (simp add: user_reply_def)

lemma user_reply_body:
  "user_reply s u = Response s' (BUser r) \<Longrightarrow> user_response_of u = Some r \<and> s' = s"
  by (auto simp: user_reply_def error_response_def split: option.splits)

lemma db_inv_handle:
  "db_inv d \<Longrightarrow> db_inv (snd (handle ev d r))"
proof (cases r)
  case (PostRegister a ud)
  assume inv: "db_inv d"
  obtain resp d' where eq: "register ev d a ud = (resp, d')" by (cases "register ev d a ud")
  from eq have "db_inv d'"
    by (cases rule: register_cases)
       (auto simp: inv create_user_def db_inv_insert_user split: option.split)
  with PostRegister eq show ?thesis by simp
next
  case (PostLogin l)
  assume "db_inv d"
  then have "db_inv (snd (login_user (env_settings ev) (env_crypto ev) (env_now ev) d l))"
    by (rule db_inv_login_user)
  with PostLogin show ?thesis
    by (auto simp: login_def split: prod.split sum.split)
qed (auto simp: get_current_user_info_def logout_def api_status_def health_check_def
       split: sum.split)

lemma snd_run_Cons:
  "snd (run ((ev, r) # rs) d) = snd (run rs (snd (handle ev d r)))"
  by (simp add: split_def Let_def)

lemma register_refused_body:
  assumes "register ev d a ud = (Response s (BUser r), d')"
  shows "\<exists>tok adm. http_bearer a = Inr tok \<and>
     require_admin (env_settings ev) (env_crypto ev) (env_now ev) d tok = Inr adm \<and> valid_user_create ud"
  using assms
proof (cases rule: register_cases)
  case refused
  then obtain e where "Response s (BUser r) = error_response e \<or> Response s (BUser r) = validation_error"
    by blast
  then show ?thesis using error_response_body [of e s "BUser r"] by (auto simp: validation_error_def)
qed (auto dest: validate_user_create_Some)

lemma staff_db_inv: "db_inv staff_db"
  by (simp add: db_inv_def staff_db_def alice_def root_user_def)

lemma staff_db_fields [simp]: "users staff_db = [alice, root_user]" "id_seq staff_db = 3"
  by (simp_all add: staff_db_def)

lemma root_user_fields [simp]:
  "uid root_user = 2" "username root_user = ''root''" "role root_user = ADMIN" "is_active root_user"
  by (simp_all add: root_user_def)

lemma root_token_resolves:
  "t < 1900 \<Longrightarrow> get_current_user default_settings demo_crypto t staff_db root_token = Inr root_user"
  by (simp add: get_current_user_def verify_token_def root_token_def create_access_token_def
      jwt_decode_encode get_user_by_id_def select_first_def)

lemma alice_token_resolves_staff:
  "t < 1900 \<Longrightarrow> get_current_user default_settings demo_crypto t staff_db alice_token = Inr alice"
  by (simp add: get_current_user_def verify_token_def jwt_decode_alice_token
      get_user_by_id_def select_first_def)

lemma env_of_demo [simp]:
  "env_settings (demo_env t) = default_settings" "env_crypto (demo_env t) = demo_crypto"
  "env_now (demo_env t) = t" "env_salt (demo_env t) = demo_salt"
  by (simp_all add: demo_env_def)

lemma rehash_fields [simp]:
  "id_seq (rehash f d) = id_seq d"
  "username ` set (users (rehash f d)) = username ` set (users d)"
  "email ` set (users (rehash f d)) = email ` set (users d)"
  by (auto simp: rehash_def image_image)

lemma select_first_rehash:
  assumes "\<And>u h. P (u\<lparr>hashed_password := h\<rparr>) = P u"
  shows "select_first P (rehash f d) = map_option (\<lambda>u. u\<lparr>hashed_password := f u\<rparr>) (select_first P d)"
  using assms by (simp add: select_first_def rehash_def find_map_comp comp_def)

lemma user_response_hash [simp]:
  "user_response (u\<lparr>hashed_password := h\<rparr>) = user_response u"
  by (simp add: user_response_def)

lemma get_current_user_rehash:
  "get_current_user st cr now (rehash f d) t =
     map_sum id (\<lambda>u. u\<lparr>hashed_password := f u\<rparr>) (get_current_user st cr now d t)"
  by (simp add: get_current_user_def get_user_by_id_def select_first_rehash
      split: sum.split option.split)

lemma require_role_rehash:
  "get_current_active_user st cr now (rehash f d) t =
     map_sum id (\<lambda>u. u\<lparr>hashed_password := f u\<rparr>) (get_current_active_user st cr now d t)"
  "require_role r st cr now (rehash f d) t =
     map_sum id (\<lambda>u. u\<lparr>hashed_password := f u\<rparr>) (require_role r st cr now d t)"
  by (cases "get_current_user st cr now d t";
      simp add: get_current_active_user_def require_role_def role_checker_def get_current_user_rehash)+

lemma create_user_rehash:
  "fst (create_user cr salt now (rehash f d) ud) = fst (create_user cr salt now d ud)"
  by (simp add: create_user_def select_first_rehash insert_user_def Let_def
      split: option.split)

section \<open>Properties\<close>

text \<open>
  C12. Only an administrator creates users: a \<open>/register\<close> response that carries a
  user was served to a request whose bearer token resolves to an active ADMIN and whose
  body passed validation.
\<close>

theorem register_requires_admin:
  assumes "register ev d a ud = (Response s (BUser r), d')"
  shows "\<exists>tok adm. http_bearer a = Inr tok \<and>
           get_current_user (env_settings ev) (env_crypto ev) (env_now ev) d tok = Inr adm \<and>
           role adm = ADMIN \<and> is_active adm \<and> valid_user_create ud"
proof -
  obtain tok adm where "http_bearer a = Inr tok"
      and adm: "require_admin (env_settings ev) (env_crypto ev) (env_now ev) d tok = Inr adm"
      and "valid_user_create ud"
    using register_refused_body [OF assms] by blast
  moreover from adm have "get_current_user (env_settings ev) (env_crypto ev) (env_now ev) d tok = Inr adm"
      "role adm = ADMIN"
    using require_role_Inr [of ADMIN] by (auto simp: require_admin_def)
  ultimately show ?thesis using get_current_user_Inr_active by blast
qed

theorem register_requires_admin_witness:
  "\<exists>r d'. register (demo_env 500) staff_db (Some (''Bearer '' @ root_token))
      (demo_create ''carol'' ''carol@example.com'') = (Response 201 (BUser r), d') \<and>
   get_current_user default_settings demo_crypto 500 staff_db root_token = Inr root_user"
proof -
  let ?ud = "demo_create ''carol'' ''carol@example.com''"
  have v: "validate_user_create ?ud = Some ?ud"
    by (simp add: validate_user_create_def email_syntax demo_create_def user_create_body_def)
  have ra: "require_admin default_settings demo_crypto 500 staff_db root_token = Inr root_user"
    by (simp add: require_admin_def require_role_def get_current_active_user_eq root_token_resolves
        role_checker_def)
  have tok: "root_token \<noteq> []" by (simp add: root_token_def create_access_token_def jwt_encode_def Let_def)
  have hb: "http_bearer (Some (''Bearer '' @ root_token)) = Inr root_token"
    by (rule http_bearer_Bearer [OF tok])
  let ?u = "materialize 3 500 (new_user_of demo_crypto demo_salt ?ud)"
  have cu: "create_user demo_crypto demo_salt 500 staff_db ?ud =
      (Inr ?u, staff_db\<lparr>id_seq := 4, users := [alice, root_user, ?u]\<rparr>)"
    by (simp add: create_user_def select_first_def insert_user_def Let_def column_widths
        alice_def root_user_def)
  have "user_response_of ?u \<noteq> None"
    by (simp add: user_response_of_def email_syntax materialize_def new_user_of_def demo_create_def
        user_create_body_def)
  then obtain r where "user_reply 201 ?u = Response 201 (BUser r)"
    by (auto simp: user_reply_def)
  then have eq: "register (demo_env 500) staff_db (Some (''Bearer '' @ root_token)) ?ud =
      (Response 201 (BUser r), staff_db\<lparr>id_seq := 4, users := [alice, root_user, ?u]\<rparr>)"
    unfolding register_def hb by (simp add: ra v cu)
  from register_requires_admin [OF eq] eq show ?thesis by (auto simp: root_token_resolves)
qed

text \<open>
  C13. A request to \<open>/register\<close> whose token resolves to a user who is not an
  ADMIN is refused with 403 \<open>Not enough permissions\<close> before its body is looked
  at, and the table is left unchanged.
\<close>

theorem register_forbidden:
  assumes "http_bearer a = Inr tok"
    and "get_current_user (env_settings ev) (env_crypto ev) (env_now ev) d tok = Inr v"
    and "role v \<noteq> ADMIN"
  shows "register ev d a ud = (Response 403 (BDetail ''Not enough permissions''), d)"
  using assms
  by (simp add: register_def require_admin_def require_role_def get_current_active_user_eq
      role_checker_def not_enough_permissions_def error_response_def)

theorem register_forbidden_witness:
  "register (demo_env 500) staff_db (Some (''Bearer '' @ alice_token))
     (demo_create ''carol'' ''carol@example.com'') =
   (Response 403 (BDetail ''Not enough permissions''), staff_db)"
proof -
  have tok: "alice_token \<noteq> []" by (simp add: alice_token_def create_access_token_def jwt_encode_def Let_def)
  show ?thesis
    using register_forbidden [OF http_bearer_Bearer [OF tok], of "demo_env 500" staff_db alice]
      alice_token_resolves_staff [of 500]
    by simp
qed

text \<open>
  C14. The duplicate check sees the email as \<open>EmailStr\<close> hands it on: an
  administrator's request whose email, once normalised (a \<open>Name <address>\<close> form
  unwrapped, white space stripped, the domain lower-cased), is the email of a stored user
  is refused with the 400 of a duplicate and leaves the table unchanged, although the
  email as sent differs from the stored one.
\<close>

theorem register_email_normalised:
  assumes "http_bearer a = Inr tok"
    and "require_admin (env_settings ev) (env_crypto ev) (env_now ev) d tok = Inr adm"
    and "valid_user_create ud"
    and "u \<in> set (users d)" and "email_address (uc_email ud) = Some (email u)"
  shows "register ev d a ud = (Response 400 (BDetail ''Username or email already registered''), d)"
proof -
  have v: "validate_user_create ud = Some (ud\<lparr>uc_email := email u\<rparr>)"
    using assms(3,5) by (simp add: validate_user_create_def valid_user_create_def)
  have "select_first (\<lambda>v. username v = uc_username ud \<or> email v = email u) d \<noteq> None"
    using assms(4) by (auto simp: select_first_def find_None_iff)
  then have "create_user (env_crypto ev) (env_salt ev) (env_now ev) d (ud\<lparr>uc_email := email u\<rparr>) =
      (Inl already_registered, d)"
    by (auto simp: create_user_def split: option.split)
  then show ?thesis using assms(1,2) v
    by (simp add: register_def already_registered_def error_response_def)
qed

theorem register_email_normalised_witness:
  "register (demo_env 500) staff_db (Some (''Bearer '' @ root_token))
     (demo_create ''alice2'' ''Alice <alice@example.com>'') =
   (Response 400 (BDetail ''Username or email already registered''), staff_db)"
proof -
  let ?ud = "demo_create ''alice2'' ''Alice <alice@example.com>''"
  have tok: "root_token \<noteq> []" by (simp add: root_token_def create_access_token_def jwt_encode_def Let_def)
  have ra: "require_admin default_settings demo_crypto 500 staff_db root_token = Inr root_user"
    by (simp add: require_admin_def require_role_def get_current_active_user_eq root_token_resolves
        role_checker_def)
  have v: "valid_user_create ?ud"
    by (simp add: valid_user_create_def valid_email_def email_syntax demo_create_def user_create_body_def)
  have e: "email_address (uc_email ?ud) = Some (email alice)"
    by (simp add: email_syntax demo_create_def user_create_body_def)
  show ?thesis
    using register_email_normalised [OF http_bearer_Bearer [OF tok], of "demo_env 500" staff_db root_user
        ?ud alice] ra v e
    by simp
qed

text \<open>
  C15. \<open>/me\<close> without an \<open>Authorization\<close> header is refused by the bearer scheme
  with 403 \<open>Not authenticated\<close>, while a header whose token is malformed, wrongly
  signed or expired is refused with 401 \<open>Could not validate credentials\<close>: the two
  failures carry different statuses, and neither touches the table.
\<close>

theorem me_auth_statuses:
  "get_current_user_info ev d None = (Response 403 (BDetail ''Not authenticated''), d) \<and>
   (http_bearer a = Inr tok \<longrightarrow>
    jwt_decode (env_crypto ev) (SECRET_KEY (env_settings ev)) (env_now ev) tok = Inl e \<longrightarrow>
    get_current_user_info ev d a = (Response 401 (BDetail ''Could not validate credentials''), d))"
  by (simp add: get_current_user_info_def http_bearer_def not_authenticated_def error_response_def
      get_current_active_user_def get_current_user_def verify_token_def token_exception_def)

theorem me_auth_statuses_witness:
  "get_current_user_info (demo_env 2000) staff_db None =
     (Response 403 (BDetail ''Not authenticated''), staff_db) \<and>
   get_current_user_info (demo_env 2000) staff_db (Some (''Bearer '' @ alice_token)) =
     (Response 401 (BDetail ''Could not validate credentials''), staff_db)"
proof -
  have tok: "alice_token \<noteq> []" by (simp add: alice_token_def create_access_token_def jwt_encode_def Let_def)
  have "jwt_decode demo_crypto (SECRET_KEY default_settings) 2000 alice_token = Inl Expired"
    by (simp add: alice_token_def create_access_token_def jwt_decode_encode_expired)
  then show ?thesis
    using me_auth_statuses [of "demo_env 2000" staff_db "Some (''Bearer '' @ alice_token)" alice_token
        Expired] http_bearer_Bearer [OF tok] by simp
qed

text \<open>
  C17. Every sequence of requests keeps the table's constraints: unique ids, usernames
  and emails, and every id below the sequence.
\<close>

theorem run_db_inv:
  "db_inv d \<Longrightarrow> db_inv (snd (run rs d))"
proof (induction rs arbitrary: d)
  case (Cons x rs)
  obtain ev r where x: "x = (ev, r)" by (cases x)
  from Cons.prems have "db_inv (snd (handle ev d r))" by (rule db_inv_handle)
  then show ?case unfolding x snd_run_Cons by (rule Cons.IH)
qed simp

theorem run_db_inv_witness:
  "db_inv staff_db \<and>
   db_inv (snd (run [(demo_env 500, PostRegister (Some (''Bearer '' @ root_token))
                        (demo_create ''carol'' ''carol@example.com'')),
                     (demo_env 600, PostLogin (demo_login ''alice'' ''password1''))] staff_db))"
  using run_db_inv [OF staff_db_inv] staff_db_inv by blast

text \<open>
  C25. The stored password hashes reach no response but the login's: replacing every
  row's hash by anything leaves the response to every other request unchanged (the
  user objects returned never carry the hash, and no other route reads it).
\<close>

theorem handle_hash_noninterference:
  assumes "\<forall>l. req \<noteq> PostLogin l"
  shows "fst (handle ev (rehash f d) req) = fst (handle ev d req)"
proof (cases req)
  case (PostRegister a ud)
  then show ?thesis
    by (simp add: register_def require_admin_def require_role_rehash fst_case_reply
        create_user_rehash split: sum.split option.split)
next
  case (GetMe a)
  then show ?thesis
    by (simp add: get_current_user_info_def require_role_rehash split: sum.split)
qed (use assms in \<open>simp_all add: logout_def api_status_def health_check_def\<close>)

theorem handle_hash_noninterference_witness:
  "fst (handle (demo_env 500) (rehash (\<lambda>_. ''x'') staff_db) (GetMe (Some (''Bearer '' @ root_token)))) =
   fst (handle (demo_env 500) staff_db (GetMe (Some (''Bearer '' @ root_token))))"
  using handle_hash_noninterference [of "GetMe (Some (''Bearer '' @ root_token))" "demo_env 500"
      "\<lambda>_. ''x''" staff_db]
  by simp

end
