(* ===== verification/Session.thy ===== *)
theory Session
  imports Auth_Service
begin

text \<open>
  The SQLAlchemy session of \<open>app/core/database.py\<close> (\<open>AsyncSessionLocal\<close>,
  \<open>get_db\<close>) under the two service methods that write. A session holds the
  committed table and the unit of work not yet flushed: the objects \<open>db.add\<close>ed and
  the attributes assigned on loaded objects. \<open>commit\<close> flushes the unit of work in
  order inside one transaction: either every statement succeeds, or the first failing
  one aborts the transaction and no row changes, while the values drawn from
  \<open>users_id_seq\<close> stay drawn (PostgreSQL sequences are not transactional).
  \<open>rollback\<close> and \<open>close\<close> discard what is not committed. The session-level
  translations of \<open>create_user\<close> and \<open>authenticate_user\<close> are shown to be exactly
  the direct models of \<open>Auth_Service\<close> that the rest of the development uses.
\<close>

section \<open>The unit of work\<close>

datatype pending =
    PAdd NewUser
  | PSetLogin int timestamp

record session =
  s_db :: db
  s_new :: "pending list"

definition open_session :: "db \<Rightarrow> session" where
  "open_session d = \<lparr>s_db = d, s_new = []\<rparr>"

definition session_add :: "pending \<Rightarrow> session \<Rightarrow> session" where
  "session_add p s = s\<lparr>s_new := s_new s @ [p]\<rparr>"

definition session_rollback :: "session \<Rightarrow> session" where
  "session_rollback s = s\<lparr>s_new := []\<rparr>"

text \<open>
  The flush: each pending object is one statement, executed in order; the first that
  fails ends the flush with its exception. The rows inserted are returned in order.
\<close>

fun flush :: "timestamp \<Rightarrow> pending list \<Rightarrow> db \<Rightarrow> (error + User list) \<times> db" where
  "flush now [] d = (Inr [], d)"
| "flush now (PAdd n # ps) d =
     (case insert_user now n d of
        (Inl e, d') \<Rightarrow> (Inl e, d')
      | (Inr u, d') \<Rightarrow>
          (case flush now ps d' of
             (Inl e, d'') \<Rightarrow> (Inl e, d'')
           | (Inr us, d'') \<Rightarrow> (Inr (u # us), d'')))"
| "flush now (PSetLogin i t # ps) d = flush now ps (update_last_login t i d)"

definition session_commit :: "timestamp \<Rightarrow> session \<Rightarrow> (error + User list) \<times> session" where
  "session_commit now s =
     (case flush now (s_new s) (s_db s) of
        (Inr us, d') \<Rightarrow> (Inr us, \<lparr>s_db = d', s_new = []\<rparr>)
      | (Inl e, d') \<Rightarrow> (Inl e, \<lparr>s_db = (s_db s)\<lparr>id_seq := id_seq d'\<rparr>, s_new = []\<rparr>))"

text \<open>
  \<open>get_db\<close>: a fresh session per request; an exception escaping the handler rolls the
  session back and is re-raised; the session is closed in every case, which discards
  whatever was not committed. The table after the request is the committed one.
\<close>

definition get_db :: "(session \<Rightarrow> (error + 'a) \<times> session) \<Rightarrow> db \<Rightarrow> (error + 'a) \<times> db" where
  "get_db handler d =
     (case handler (open_session d) of
        (Inl e, s') \<Rightarrow> (Inl e, s_db (session_rollback s'))
      | (Inr a, s') \<Rightarrow> (Inr a, s_db s'))"

section \<open>The service methods against the session\<close>

text \<open>
  \<open>create_user\<close> line by line: the SELECT (nothing is pending, so autoflush does
  nothing), the 400, \<open>db.add(db_user)\<close>, \<open>commit\<close>, and \<open>refresh(db_user)\<close>,
  which reads back the row inserted for the object added.
\<close>

definition create_user_tx ::
  "crypto \<Rightarrow> string \<Rightarrow> timestamp \<Rightarrow> UserCreate \<Rightarrow> session \<Rightarrow> (error + User) \<times> session" where
  "create_user_tx cr salt now ud s =
     (case select_first (\<lambda>u. username u = uc_username ud \<or> email u = uc_email ud) (s_db s) of
        Some _ \<Rightarrow> (Inl already_registered, s)
      | None \<Rightarrow>
          (case session_commit now (session_add (PAdd (new_user_of cr salt ud)) s) of
             (Inl e, s') \<Rightarrow> (Inl e, s')
           | (Inr us, s') \<Rightarrow> (Inr (last us), s')))"

text \<open>
  \<open>authenticate_user\<close> line by line: the SELECT, the three early \<open>return None\<close>,
  the assignment \<open>user.last_login = utcnow()\<close> (a dirty attribute of the loaded
  object, flushed as an UPDATE of its row) and \<open>commit\<close>.
\<close>

definition authenticate_user_tx ::
  "crypto \<Rightarrow> timestamp \<Rightarrow> UserLogin \<Rightarrow> session \<Rightarrow> (error + User option) \<times> session" where
  "authenticate_user_tx cr now l s =
     (case select_first (\<lambda>u. username u = login_username l) (s_db s) of
        None \<Rightarrow> (Inr None, s)
      | Some u \<Rightarrow>
          if \<not> verify_password cr (login_password l) (hashed_password u) then (Inr None, s)
          else if \<not> is_active u then (Inr None, s)
          else (case session_commit now (session_add (PSetLogin (uid u) now) s) of
                  (Inl e, s') \<Rightarrow> (Inl e, s')
                | (Inr _, s') \<Rightarrow> (Inr (Some (touch_login now u)), s')))"

text \<open>A unit of work of two INSERTs whose second violates the unique username index.\<close>

definition carol_then_alice :: session where
  "carol_then_alice =
     \<lparr>s_db = demo_db,
      s_new = [PAdd (new_user_of demo_crypto demo_salt (demo_create ''carol'' ''carol@example.com'')),
               PAdd (new_user_of demo_crypto demo_salt (demo_create ''alice'' ''a3@example.com''))]\<rparr>"

section \<open>Facts the properties share\<close>

lemma flush_seq_mono: "id_seq d \<le> id_seq (snd (flush now ps d))"
proof (induction now ps d rule: flush.induct)
  case (2 now n ps d)
  obtain r d' where ins: "insert_user now n d = (r, d')" by (cases "insert_user now n d")
  have seq: "id_seq d' = id_seq d + 1" using insert_user_seq [of now n d] ins by simp
  show ?case
  proof (cases r)
    case (Inr u)
    then have "id_seq d' \<le> id_seq (snd (flush now ps d'))" using 2 ins by simp
    then show ?thesis using ins Inr seq by (auto split: sum.split prod.split)
  qed (use ins seq in simp)
qed (simp_all add: update_last_login_seq)

lemma flush_single_add:
  "flush now [PAdd n] d =
     (case insert_user now n d of (Inl e, d') \<Rightarrow> (Inl e, d') | (Inr u, d') \<Rightarrow> (Inr [u], d'))"
  by (simp split: prod.split sum.split)

lemma s_db_rollback [simp]: "s_db (session_rollback s) = s_db s"
  by (simp add: session_rollback_def)

lemma insert_user_Inl_db:
  "insert_user now n d = (Inl e, d') \<Longrightarrow> d' = d\<lparr>id_seq := id_seq d'\<rparr>"
  by (auto simp: insert_user_def Let_def split: if_splits)

text \<open>
  The two writing service methods, run on a fresh session, end with the unit of work
  empty and the committed table that the direct models of \<open>Auth_Service\<close> return.
\<close>

lemma create_user_tx_open:
  "create_user_tx cr salt now ud (open_session d) =
     (fst (create_user cr salt now d ud), open_session (snd (create_user cr salt now d ud)))"
proof (cases "select_first (\<lambda>u. username u = uc_username ud \<or> email u = uc_email ud) d")
  case None
  obtain r d' where ins: "insert_user now (new_user_of cr salt ud) d = (r, d')"
    by (cases "insert_user now (new_user_of cr salt ud) d")
  show ?thesis
  proof (cases r)
    case (Inl e)
    then have "d' = d\<lparr>id_seq := id_seq d'\<rparr>" using ins by (simp add: insert_user_Inl_db)
    then show ?thesis using None ins Inl
      by (simp add: create_user_tx_def create_user_def session_commit_def
          flush_single_add open_session_def session_add_def)
  next
    case (Inr u)
    then show ?thesis using None ins
      by (simp add: create_user_tx_def create_user_def session_commit_def
          flush_single_add open_session_def session_add_def)
  qed
qed (simp add: create_user_tx_def create_user_def open_session_def)

lemma authenticate_user_tx_open:
  "authenticate_user_tx cr now l (open_session d) =
     (Inr (fst (authenticate_user cr now d l)), open_session (snd (authenticate_user cr now d l)))"
  by (simp add: authenticate_user_tx_def authenticate_user_def session_commit_def
      open_session_def session_add_def split: option.split)

lemma get_db_open:
  "handler (open_session d) = (r, open_session d') \<Longrightarrow> get_db handler d = (r, d')"
  by (cases r) (simp_all add: get_db_def open_session_def)

section \<open>Agreement with the direct model\<close>

text \<open>
  A commit is atomic: when any statement of the unit of work fails, the commit
  raises and no row of the table changes, not even the rows that the statements
  flushed before the failing one inserted; only the sequence keeps the values drawn.
  The unit of work is empty afterwards.
\<close>

lemma session_commit_atomic:
  assumes "session_commit now s = (Inl e, s')"
  shows "users (s_db s') = users (s_db s) \<and> id_seq (s_db s) \<le> id_seq (s_db s') \<and> s_new s' = []"
  using assms flush_seq_mono [of "s_db s" now "s_new s"]
  by (auto simp: session_commit_def split: prod.splits sum.splits)

lemma session_commit_atomic_witness:
  "length (users (snd (flush 100 (s_new carol_then_alice) (s_db carol_then_alice)))) = 2 \<and>
   users (s_db (snd (session_commit 100 carol_then_alice))) = [alice] \<and>
   id_seq (s_db (snd (session_commit 100 carol_then_alice))) = 4"
proof -
  have fl: "flush 100 (s_new carol_then_alice) (s_db carol_then_alice) =
      (Inl (IntegrityError ''duplicate key value violates unique constraint ix_users_username''),
       \<lparr>users = [alice, materialize 2 100 (new_user_of demo_crypto demo_salt (demo_create ''carol'' ''carol@example.com''))],
        id_seq = 4\<rparr>)"
    by (simp add: carol_then_alice_def insert_user_def Let_def column_widths demo_db_def)
  then have c: "session_commit 100 carol_then_alice =
      (Inl (IntegrityError ''duplicate key value violates unique constraint ix_users_username''),
       \<lparr>s_db = demo_db\<lparr>id_seq := 4\<rparr>, s_new = []\<rparr>)"
    by (simp add: session_commit_def carol_then_alice_def)
  show ?thesis using session_commit_atomic [OF c] fl c by (simp add: carol_then_alice_def)
qed

end
