(* ===== verification/App_Session.thy ===== *)
theory App_Session
  imports Auth_Api Session
begin

text \<open>
  The application as FastAPI runs it: every route that declares \<open>Depends(get_db)\<close>,
  directly or through \<open>get_current_user\<close>, runs inside one session per request
  (FastAPI caches the dependency, so the route and its user dependencies share it).
  The route bodies are written against the session, with the service methods of
  \<open>Session\<close>; an exception escaping the route passes through \<open>get_db\<close>, which
  rolls back and re-raises, and is then turned into its response. The property of this
  theory is that this layered application is exactly \<open>Auth_Api.handle\<close>, so the
  properties proved of \<open>handle\<close> hold of it.
\<close>

section \<open>Routes against the session\<close>

text \<open>\<open>AuthService.login_user\<close> on the request's session.\<close>

definition login_user_tx ::
  "Settings \<Rightarrow> crypto \<Rightarrow> timestamp \<Rightarrow> UserLogin \<Rightarrow> session \<Rightarrow> (error + Token) \<times> session" where
  "login_user_tx st cr now l s =
     (case authenticate_user_tx cr now l s of
        (Inl e, s') \<Rightarrow> (Inl e, s')
      | (Inr None, s') \<Rightarrow> (Inl incorrect_credentials, s')
      | (Inr (Some u), s') \<Rightarrow>
          (let minutes = ACCESS_TOKEN_EXPIRE_MINUTES st in
           (Inr \<lparr>access_token =
                   create_access_token st cr now (username u, uid u, role_value (role u)) (minutes * 60),
                 token_type = ''bearer'', expires_in = minutes * 60\<rparr>, s')))"

text \<open>
  \<open>register\<close>: \<open>get_db\<close> opens the session, \<open>require_admin\<close> resolves the caller
  through it (a SELECT, nothing written), the body is validated, and
  \<open>create_user\<close> runs on the same session with the validated body; the user it
  returns is checked against the response model.
\<close>

definition register_tx ::
  "env \<Rightarrow> string option \<Rightarrow> UserCreate \<Rightarrow> session \<Rightarrow> (error + response) \<times> session" where
  "register_tx ev authorization user_data s =
     (case http_bearer authorization of
        Inl e \<Rightarrow> (Inl e, s)
      | Inr token \<Rightarrow>
          (case require_admin (env_settings ev) (env_crypto ev) (env_now ev) (s_db s) token of
             Inl e \<Rightarrow> (Inl e, s)
           | Inr current_user \<Rightarrow>
               (case validate_user_create user_data of
                  None \<Rightarrow> (Inr validation_error, s)
                | Some ud \<Rightarrow>
                    (case create_user_tx (env_crypto ev) (env_salt ev) (env_now ev) ud s of
                       (Inl e, s') \<Rightarrow> (Inl e, s')
                     | (Inr u, s') \<Rightarrow> (Inr (user_reply 201 u), s')))))"

definition login_tx :: "env \<Rightarrow> UserLogin \<Rightarrow> session \<Rightarrow> (error + response) \<times> session" where
  "login_tx ev login_data s =
     (case login_user_tx (env_settings ev) (env_crypto ev) (env_now ev) login_data s of
        (Inl e, s') \<Rightarrow> (Inl e, s')
      | (Inr t, s') \<Rightarrow> (Inr (Response 200 (BToken t)), s'))"

text \<open>\<open>/me\<close>: the session is opened for \<open>get_current_user\<close>, which only reads.\<close>

definition me_tx :: "env \<Rightarrow> string option \<Rightarrow> session \<Rightarrow> (error + response) \<times> session" where
  "me_tx ev authorization s =
     (case http_bearer authorization of
        Inl e \<Rightarrow> (Inl e, s)
      | Inr token \<Rightarrow>
          (case get_current_active_user (env_settings ev) (env_crypto ev) (env_now ev) (s_db s) token of
             Inl e \<Rightarrow> (Inl e, s)
           | Inr u \<Rightarrow> (Inr (user_reply 200 u), s)))"

section \<open>The application\<close>

text \<open>A route run inside \<open>get_db\<close>, its escaping exception turned into a response.\<close>

definition serve :: "(session \<Rightarrow> (error + response) \<times> session) \<Rightarrow> db \<Rightarrow> response \<times> db" where
  "serve route d =
     (case get_db route d of
        (Inl e, d') \<Rightarrow> (error_response e, d')
      | (Inr resp, d') \<Rightarrow> (resp, d'))"

fun handle_tx :: "env \<Rightarrow> db \<Rightarrow> request \<Rightarrow> response \<times> db" where
  "handle_tx ev d (PostRegister a u) = serve (register_tx ev a u) d"
| "handle_tx ev d (PostLogin l) = serve (login_tx ev l) d"
| "handle_tx ev d (GetMe a) = serve (me_tx ev a) d"
| "handle_tx ev d PostLogout = logout d"
| "handle_tx ev d GetStatus = api_status d"
| "handle_tx ev d GetHealth = health_check ev d"

section \<open>Facts the properties share\<close>

lemma s_db_open [simp]: "s_db (open_session d) = d"
  by (simp add: open_session_def)

lemma login_user_tx_open:
  "login_user_tx st cr now l (open_session d) =
     (fst (login_user st cr now d l), open_session (snd (login_user st cr now d l)))"
  by (simp add: login_user_tx_def login_user_def authenticate_user_tx_open Let_def
      split: prod.split option.split)


section \<open>Agreement with the direct model\<close>

text \<open>
  The application composed as FastAPI runs it, every database route inside
  \<open>get_db\<close> with the service methods executed statement by statement on the
  request's session, answers every request exactly as \<open>Auth_Api.handle\<close> does and
  leaves the same committed table.
\<close>

lemma handle_tx_refines: "handle_tx ev d r = handle ev d r"
proof (cases r)
  case (PostRegister a ud)
  then show ?thesis
    by (auto simp: serve_def get_db_def register_tx_def register_def create_user_tx_open
        split: sum.split prod.split option.split)
next
  case (PostLogin l)
  then show ?thesis
    by (auto simp: serve_def get_db_def login_tx_def login_def login_user_tx_open
        split: sum.split prod.split)
next
  case (GetMe a)
  then show ?thesis
    by (auto simp: serve_def get_db_def me_tx_def get_current_user_info_def
        split: sum.split)
qed simp_all

end
