(* ===== verification/Tests.thy ===== *)
theory Tests
  imports App_Session
begin

text \<open>
  The test suite of \<open>src/backend/tests\<close>, run against the model. The fixtures of
  \<open>conftest.py\<close>: \<open>setup_test_db\<close> creates the tables once for the whole run
  (session scope); \<open>db_session\<close> opens a session per test and, in its
  \<open>finally\<close>, rolls it back and closes it; \<open>client\<close> overrides \<open>get_db\<close> so
  that every request of a test runs on that same session, with no rollback of its own.
  A test is a function of the session to its outcome: it passes, fails at the line of
  its first false \<open>assert\<close>, or raises. The hashes are made with the model's sample
  primitives and salt; each test reads one clock value.
\<close>

section \<open>Outcomes and fixtures\<close>

datatype test_outcome = Passed | Failed nat | Raised error

text \<open>The \<open>assert\<close> statements of a test, with their lines, in order.\<close>

fun check :: "(nat \<times> bool) list \<Rightarrow> test_outcome" where
  "check [] = Passed"
| "check ((l, b) # as) = (if b then check as else Failed l)"

text \<open>\<open>db_session\<close>: run the test on a fresh session, then roll back and close.\<close>

definition with_db_session ::
  "(session \<Rightarrow> test_outcome \<times> session) \<Rightarrow> db \<Rightarrow> test_outcome \<times> db" where
  "with_db_session test d =
     (case test (open_session d) of (out, s') \<Rightarrow> (out, s_db (session_rollback s')))"

text \<open>
  A request of \<open>client\<close>: the route runs on the test's session (the overriding
  \<open>get_db\<close> only yields it), and an escaping exception becomes its response.
\<close>

definition respond :: "(error + response) \<times> session \<Rightarrow> response \<times> session" where
  "respond r = (case r of (Inl e, s') \<Rightarrow> (error_response e, s') | (Inr resp, s') \<Rightarrow> (resp, s'))"

fun client_request :: "env \<Rightarrow> request \<Rightarrow> session \<Rightarrow> response \<times> session" where
  "client_request ev (PostRegister a u) s = respond (register_tx ev a u s)"
| "client_request ev (PostLogin l) s = respond (login_tx ev l s)"
| "client_request ev (GetMe a) s = respond (me_tx ev a s)"
| "client_request ev PostLogout s = (fst (logout (s_db s)), s)"
| "client_request ev GetStatus s = (fst (api_status (s_db s)), s)"
| "client_request ev GetHealth s = (fst (health_check ev (s_db s)), s)"

text \<open>The \<open>User(...)\<close> rows the tests add directly, active, with a fresh hash.\<close>

definition test_user :: "string \<Rightarrow> string \<Rightarrow> string \<Rightarrow> UserRole \<Rightarrow> NewUser" where
  "test_user n e pw r =
     \<lparr>nu_username = n, nu_email = e, nu_hashed_password = get_password_hash demo_crypto demo_salt pw,
      nu_full_name = None, nu_role = Some r, nu_is_active = Some True, nu_is_verified = None\<rparr>"

definition add_commit :: "timestamp \<Rightarrow> NewUser \<Rightarrow> session \<Rightarrow> (error + User list) \<times> session" where
  "add_commit now n s = session_commit now (session_add (PAdd n) s)"

text \<open>What the tests read of a JSON response.\<close>

fun status_is :: "nat \<Rightarrow> response \<Rightarrow> bool" where
  "status_is n (Response s _) = (s = n)"

fun body_token :: "response \<Rightarrow> Token option" where
  "body_token (Response _ (BToken t)) = Some t"
| "body_token _ = None"

fun body_user :: "response \<Rightarrow> UserResponse option" where
  "body_user (Response _ (BUser u)) = Some u"
| "body_user _ = None"

fun body_detail :: "response \<Rightarrow> bool" where
  "body_detail (Response _ (BDetail _)) = True"
| "body_detail _ = False"

section \<open>\<open>test_auth.py\<close>: \<open>TestAuthService\<close>\<close>

definition test_create_user :: "timestamp \<Rightarrow> session \<Rightarrow> test_outcome \<times> session" where
  "test_create_user now s =
     (let user_data = user_create_body ''testuser'' ''test@example.com'' ''testpass123''
                        (Some ''Test User'') (Some ANALYST) None in
      case create_user_tx demo_crypto demo_salt now user_data s of
        (Inl e, s') \<Rightarrow> (Raised e, s')
      | (Inr user, s') \<Rightarrow>
          (check [(34, username user = ''testuser''), (35, email user = ''test@example.com''),
                  (36, full_name user = Some ''Test User''), (37, role user = ANALYST),
                  (38, is_active user),
                  (39, verify_password demo_crypto ''testpass123'' (hashed_password user))], s'))"

definition test_authenticate_user_success :: "timestamp \<Rightarrow> session \<Rightarrow> test_outcome \<times> session" where
  "test_authenticate_user_success now s =
     (case add_commit now (test_user ''authtest'' ''authtest@example.com'' ''testpass123'' VIEWER) s of
        (Inl e, s') \<Rightarrow> (Raised e, s')
      | (Inr _, s') \<Rightarrow>
          (case authenticate_user_tx demo_crypto now (demo_login ''authtest'' ''testpass123'') s' of
             (Inl e, s'') \<Rightarrow> (Raised e, s'')
           | (Inr r, s'') \<Rightarrow>
               (check [(61, r \<noteq> None), (62, map_option username r = Some ''authtest'')], s'')))"

definition test_authenticate_user_wrong_password ::
  "timestamp \<Rightarrow> session \<Rightarrow> test_outcome \<times> session" where
  "test_authenticate_user_wrong_password now s =
     (case add_commit now (test_user ''wrongpasstest'' ''wrongpass@example.com'' ''correctpass'' VIEWER) s of
        (Inl e, s') \<Rightarrow> (Raised e, s')
      | (Inr _, s') \<Rightarrow>
          (case authenticate_user_tx demo_crypto now (demo_login ''wrongpasstest'' ''wrongpass'') s' of
             (Inl e, s'') \<Rightarrow> (Raised e, s'')
           | (Inr r, s'') \<Rightarrow> (check [(84, r = None)], s'')))"

definition test_authenticate_nonexistent_user ::
  "timestamp \<Rightarrow> session \<Rightarrow> test_outcome \<times> session" where
  "test_authenticate_nonexistent_user now s =
     (case authenticate_user_tx demo_crypto now (demo_login ''nonexistent'' ''anypass'') s of
        (Inl e, s') \<Rightarrow> (Raised e, s')
      | (Inr r, s') \<Rightarrow> (check [(94, r = None)], s'))"

section \<open>\<open>test_auth.py\<close>: \<open>TestAuthAPI\<close>\<close>

definition test_login_success :: "timestamp \<Rightarrow> session \<Rightarrow> test_outcome \<times> session" where
  "test_login_success now s =
     (case add_commit now (test_user ''apitest'' ''apitest@example.com'' ''testpass123'' ANALYST) s of
        (Inl e, s') \<Rightarrow> (Raised e, s')
      | (Inr _, s') \<Rightarrow>
          (case client_request (demo_env now) (PostLogin (demo_login ''apitest'' ''testpass123'')) s' of
             (response, s'') \<Rightarrow>
               (check [(121, status_is 200 response), (123, body_token response \<noteq> None),
                       (124, map_option token_type (body_token response) = Some ''bearer''),
                       (125, body_token response \<noteq> None)], s'')))"

definition test_login_wrong_credentials :: "timestamp \<Rightarrow> session \<Rightarrow> test_outcome \<times> session" where
  "test_login_wrong_credentials now s =
     (case client_request (demo_env now) (PostLogin (demo_login ''nonexistent'' ''wrongpass'')) s of
        (response, s') \<Rightarrow> (check [(135, status_is 401 response), (137, body_detail response)], s'))"

definition test_get_current_user_without_token ::
  "timestamp \<Rightarrow> session \<Rightarrow> test_outcome \<times> session" where
  "test_get_current_user_without_token now s =
     (case client_request (demo_env now) (GetMe None) s of
        (response, s') \<Rightarrow> (check [(144, status_is 403 response)], s'))"

definition test_get_current_user_with_token ::
  "timestamp \<Rightarrow> session \<Rightarrow> test_outcome \<times> session" where
  "test_get_current_user_with_token now s =
     (case add_commit now (test_user ''tokentest'' ''tokentest@example.com'' ''testpass123'' ADMIN) s of
        (Inl e, s') \<Rightarrow> (Raised e, s')
      | (Inr _, s') \<Rightarrow>
          (case client_request (demo_env now) (PostLogin (demo_login ''tokentest'' ''testpass123'')) s' of
             (login_response, s'') \<Rightarrow>
               (case (status_is 200 login_response, body_token login_response) of
                  (True, Some token_data) \<Rightarrow>
                    (case client_request (demo_env now)
                            (GetMe (Some (''Bearer '' @ access_token token_data))) s'' of
                       (response, s3) \<Rightarrow>
                         (check [(177, status_is 200 response),
                                 (179, map_option ur_username (body_user response) = Some ''tokentest''),
                                 (180, map_option ur_email (body_user response) = Some ''tokentest@example.com''),
                                 (181, map_option ur_role (body_user response) = Some ''ADMIN'')], s3))
                | _ \<Rightarrow> (Failed 167, s''))))"

text \<open>
  The tests of \<open>test_auth.py\<close> in the order pytest runs them, each inside
  \<open>db_session\<close>, on the one test database of the run.
\<close>

definition test_auth_suite :: "timestamp \<Rightarrow> db \<Rightarrow> test_outcome list \<times> db" where
  "test_auth_suite now d0 =
     (let (o1, d1) = with_db_session (test_create_user now) d0;
          (o2, d2) = with_db_session (test_authenticate_user_success now) d1;
          (o3, d3) = with_db_session (test_authenticate_user_wrong_password now) d2;
          (o4, d4) = with_db_session (test_authenticate_nonexistent_user now) d3;
          (o5, d5) = with_db_session (test_login_success now) d4;
          (o6, d6) = with_db_session (test_login_wrong_credentials now) d5;
          (o7, d7) = with_db_session (test_get_current_user_without_token now) d6;
          (o8, d8) = with_db_session (test_get_current_user_with_token now) d7
      in ([o1, o2, o3, o4, o5, o6, o7, o8], d8))"

section \<open>\<open>test_simple.py\<close>\<close>

definition test_password_hashing :: test_outcome where
  "test_password_hashing =
     (let password = ''testpassword123''; hashed = get_password_hash demo_crypto demo_salt password in
      check [(19, password \<noteq> hashed), (20, 0 < length hashed),
             (23, verify_password demo_crypto password hashed),
             (24, \<not> verify_password demo_crypto ''wrongpassword'' hashed)])"

text \<open>
  \<open>create_access_token(data)\<close> is called without \<open>expires_delta\<close>; the default of
  \<open>app/core/security.py\<close> is not among the sources, so it is a parameter.
\<close>

definition test_jwt_token_creation :: "timestamp \<Rightarrow> int \<Rightarrow> test_outcome" where
  "test_jwt_token_creation now delta =
     (let token = create_access_token default_settings demo_crypto now
                    (''testuser'', 1, role_value ADMIN) delta in
      check [(37, 0 < length token), (39, length (filter (\<lambda>c. c = CHR ''.'') token) = 2)])"

definition test_user_role_enum :: test_outcome where
  "test_user_role_enum =
     check [(47, role_value ADMIN = ''admin''), (48, role_value ANALYST = ''analyst''),
            (49, role_value VIEWER = ''viewer'')]"

definition test_user_creation :: test_outcome where
  "test_user_creation =
     (let user = \<lparr>nu_username = ''testuser'', nu_email = ''test@example.com'',
                  nu_hashed_password = ''hashed_password_here'', nu_full_name = None,
                  nu_role = Some ADMIN, nu_is_active = Some True, nu_is_verified = None\<rparr> in
      check [(63, nu_username user = ''testuser''), (64, nu_email user = ''test@example.com''),
             (65, nu_role user = Some ADMIN), (66, nu_is_active user = Some True)])"

definition test_settings_load :: test_outcome where
  "test_settings_load =
     check [(76, PROJECT_NAME default_settings = ''RE Platform''),
            (77, VERSION default_settings = ''0.1.0''), (78, API_V1_STR default_settings = ''/api/v1''),
            (79, 0 < ACCESS_TOKEN_EXPIRE_MINUTES default_settings)]"

definition test_simple_suite :: "timestamp \<Rightarrow> int \<Rightarrow> test_outcome list" where
  "test_simple_suite now delta =
     [test_password_hashing, test_jwt_token_creation now delta, test_user_role_enum,
      test_user_creation, test_settings_load]"

section \<open>Facts the properties share\<close>

lemma filter_eq_absent: "c \<notin> set xs \<Longrightarrow> filter (\<lambda>x. x = c) xs = []"
  by (induction xs) auto

lemma jwt_encode_dots: "length (filter (\<lambda>x. x = CHR ''.'') (jwt_encode cr key c)) = 2"
  by (simp add: jwt_encode_def Let_def filter_eq_absent)

lemma test_jwt_token_creation_passes: "test_jwt_token_creation now delta = Passed"
proof -
  let ?tok = "create_access_token default_settings demo_crypto now (''testuser'', 1, role_value ADMIN) delta"
  have d: "length (filter (\<lambda>x. x = CHR ''.'') ?tok) = 2"
    by (simp add: create_access_token_def jwt_encode_dots)
  moreover have "length (filter (\<lambda>x. x = CHR ''.'') ?tok) \<le> length ?tok"
    by (rule length_filter_le)
  ultimately have "0 < length ?tok" by linarith
  with d show ?thesis by (simp add: test_jwt_token_creation_def Let_def)
qed

lemma test_password_hashing_passes: "test_password_hashing = Passed"
proof -
  have h: "get_password_hash demo_crypto demo_salt ''testpassword123'' = demo_salt @ ''321drowssaptset''"
    by (simp add: get_password_hash_def demo_crypto_def)
  have "\<not> verify_password demo_crypto ''wrongpassword'' (demo_salt @ ''321drowssaptset'')"
    by (simp add: verify_password_def demo_crypto_def SALT_LEN_def demo_salt_def)
  then show ?thesis using verify_password_hash [of demo_salt demo_crypto "''testpassword123''"]
    by (simp add: test_password_hashing_def Let_def h)
qed

lemma test_simple_passes:
  "test_simple_suite now delta = [Passed, Passed, Passed, Passed, Passed]"
  by (simp add: test_simple_suite_def test_password_hashing_passes test_jwt_token_creation_passes
      test_user_role_enum_def test_user_creation_def test_settings_load_def default_settings_def)

lemmas suite_eval = user_reply_def user_response_of_def email_syntax test_auth_suite_def with_db_session_def test_user_def add_commit_def
  session_commit_def session_add_def open_session_def session_rollback_def column_widths Let_def
  test_create_user_def create_user_tx_def empty_db_def select_first_def insert_user_def
  fits_columns_def materialize_new_user_of user_create_body_def SALT_LEN_def
  test_authenticate_user_success_def test_authenticate_user_wrong_password_def
  test_authenticate_nonexistent_user_def authenticate_user_tx_def demo_login_def materialize_def
  test_login_success_def test_login_wrong_credentials_def test_get_current_user_without_token_def
  test_get_current_user_with_token_def respond_def login_tx_def login_user_tx_def me_tx_def
  error_response_def incorrect_credentials_def http_bearer_def not_authenticated_def
  get_current_active_user_def get_current_user_def verify_token_def create_access_token_def
  jwt_decode_encode default_settings_def demo_env_def get_user_by_id_def user_response_def
  touch_login_def update_last_login_def partition_space_def lower_Bearer

section \<open>The suite run against the model\<close>

text \<open>
  The test suite run against the model: every test of \<open>test_simple.py\<close> passes
  (for every clock and every default lifetime of a token), and of \<open>test_auth.py\<close>
  every test passes except \<open>test_get_current_user_with_token\<close>, which fails at line
  181, where it expects the role \<open>"ADMIN"\<close> and the response carries \<open>"admin"\<close>.
  The rollback of the \<open>db_session\<close> fixture undoes nothing the tests committed: the
  five users they created stay in the test database for the rest of the run, and
  \<open>test_create_user\<close> run again on that database raises the 400 of a duplicate.
\<close>

lemma test_suite_outcome:
  "test_simple_suite now delta = [Passed, Passed, Passed, Passed, Passed] \<and>
   fst (test_auth_suite 100 empty_db) =
     [Passed, Passed, Passed, Passed, Passed, Passed, Passed, Failed 181] \<and>
   map username (users (snd (test_auth_suite 100 empty_db))) =
     [''testuser'', ''authtest'', ''wrongpasstest'', ''apitest'', ''tokentest''] \<and>
   fst (with_db_session (test_create_user 100) (snd (test_auth_suite 100 empty_db))) =
     Raised already_registered"
proof (intro conjI)
  show "test_simple_suite now delta = [Passed, Passed, Passed, Passed, Passed]"
    by (rule test_simple_passes)
  show "fst (test_auth_suite 100 empty_db) =
      [Passed, Passed, Passed, Passed, Passed, Passed, Passed, Failed 181]"
    by (simp add: suite_eval)
  show "map username (users (snd (test_auth_suite 100 empty_db))) =
      [''testuser'', ''authtest'', ''wrongpasstest'', ''apitest'', ''tokentest'']"
    by (simp add: suite_eval)
  show "fst (with_db_session (test_create_user 100) (snd (test_auth_suite 100 empty_db))) =
      Raised already_registered"
    by (simp add: suite_eval)
qed

end
