(* ===== verification/Routing.thy ===== *)
theory Routing
  imports Auth_Api
begin

text \<open>
  How a request reaches its route. \<open>create_app\<close> (\<open>app/main.py\<close>) builds the
  application's route table in order: the documentation routes that \<open>FastAPI(...)\<close>
  installs (\<open>openapi_url\<close>, \<open>docs_url\<close>, the OAuth2 redirect of the docs page at
  its default path, \<open>redoc_url\<close>; Starlette gives a function endpoint
  without declared methods GET, and HEAD with it), \<open>/health\<close>, and
  the routes of \<open>api_router\<close> under \<open>API_V1_STR\<close>, the authentication routes
  under a further \<open>/auth\<close> (\<open>app/api/v1/__init__.py\<close>). Starlette matches the
  path exactly, route by route: the first route whose path and method match serves
  the request; if only the path matched, the answer is 405; otherwise, with
  \<open>redirect_slashes\<close>, a path that matches after adding a trailing slash or
  stripping the trailing slashes is redirected (307); anything else is 404.
\<close>

section \<open>The route table\<close>

datatype endpoint =
    EOpenAPI | EDocs | EDocsOAuth2Redirect | ERedoc
  | EHealth | EStatus | ERegister | ELogin | EMe | ELogout

record route =
  r_path :: string
  r_methods :: "string list option"
  r_endpoint :: endpoint

definition routes :: "Settings \<Rightarrow> route list" where
  "routes st =
     [\<lparr>r_path = API_V1_STR st @ ''/openapi.json'', r_methods = Some [''GET'', ''HEAD''], r_endpoint = EOpenAPI\<rparr>,
      \<lparr>r_path = API_V1_STR st @ ''/docs'', r_methods = Some [''GET'', ''HEAD''], r_endpoint = EDocs\<rparr>,
      \<lparr>r_path = ''/docs/oauth2-redirect'', r_methods = Some [''GET'', ''HEAD''], r_endpoint = EDocsOAuth2Redirect\<rparr>,
      \<lparr>r_path = API_V1_STR st @ ''/redoc'', r_methods = Some [''GET'', ''HEAD''], r_endpoint = ERedoc\<rparr>,
      \<lparr>r_path = ''/health'', r_methods = Some [''GET''], r_endpoint = EHealth\<rparr>,
      \<lparr>r_path = API_V1_STR st @ ''/status'', r_methods = Some [''GET''], r_endpoint = EStatus\<rparr>,
      \<lparr>r_path = API_V1_STR st @ ''/auth'' @ ''/register'', r_methods = Some [''POST''],
       r_endpoint = ERegister\<rparr>,
      \<lparr>r_path = API_V1_STR st @ ''/auth'' @ ''/login'', r_methods = Some [''POST''], r_endpoint = ELogin\<rparr>,
      \<lparr>r_path = API_V1_STR st @ ''/auth'' @ ''/me'', r_methods = Some [''GET''], r_endpoint = EMe\<rparr>,
      \<lparr>r_path = API_V1_STR st @ ''/auth'' @ ''/logout'', r_methods = Some [''POST''],
       r_endpoint = ELogout\<rparr>]"

definition method_ok :: "route \<Rightarrow> string \<Rightarrow> bool" where
  "method_ok r m = (case r_methods r of None \<Rightarrow> True | Some ms \<Rightarrow> m \<in> set ms)"

section \<open>Dispatch\<close>

datatype dispatch_result = Endpoint endpoint | MethodNotAllowed | Redirect string | NotFound

text \<open>\<open>redirect_slashes\<close>: strip every trailing slash, or add one.\<close>

definition redirect_path :: "string \<Rightarrow> string" where
  "redirect_path p =
     (if take 1 (rev p) = ''/'' then rev (dropWhile (\<lambda>c. c = CHR ''/'') (rev p)) else p @ ''/'')"

definition dispatch :: "Settings \<Rightarrow> string \<Rightarrow> string \<Rightarrow> dispatch_result" where
  "dispatch st meth path =
     (case List.find (\<lambda>r. r_path r = path \<and> method_ok r meth) (routes st) of
        Some r \<Rightarrow> Endpoint (r_endpoint r)
      | None \<Rightarrow>
          (case List.find (\<lambda>r. r_path r = path) (routes st) of
             Some _ \<Rightarrow> MethodNotAllowed
           | None \<Rightarrow>
               if path = ''/'' then NotFound
               else (case List.find (\<lambda>r. r_path r = redirect_path path) (routes st) of
                       Some _ \<Rightarrow> Redirect (redirect_path path)
                     | None \<Rightarrow> NotFound)))"

end
