(* ===== verification/Concurrent_Register.thy ===== *)
theory Concurrent_Register
  imports Auth_Service
begin

text \<open>
  Concurrent registrations. \<open>AuthService.create_user\<close> reads the table (the
  existence check) and, later, inserts and commits; between the two \<open>await\<close>s the
  event loop may run other requests, each on its own session against the same table.
  The model splits each registration into those two atomic steps and lets any pending
  request take its next step: an \<open>inductive\<close> step relation over the shared table
  and the phase of every request. The unique indexes of the table, not the check, are
  what keep usernames and emails unique; a request that loses the race fails in its
  INSERT with \<open>IntegrityError\<close>, a 500, not with the 400 of the check.
\<close>

datatype reg_phase =
    Pending UserCreate
  | Checked UserCreate
  | Finished UserCreate "error + User"

record sys =
  sys_db :: db
  reqs :: "reg_phase list"

definition reg_init :: "db \<Rightarrow> UserCreate list \<Rightarrow> sys" where
  "reg_init d uds = \<lparr>sys_db = d, reqs = map Pending uds\<rparr>"

text \<open>The two halves of \<open>create_user\<close>: lines 26--38 and lines 41--55.\<close>

definition check_step :: "db \<Rightarrow> UserCreate \<Rightarrow> reg_phase" where
  "check_step d ud =
     (case select_first (\<lambda>u. username u = uc_username ud \<or> email u = uc_email ud) d of
        Some _ \<Rightarrow> Finished ud (Inl already_registered)
      | None \<Rightarrow> Checked ud)"

inductive reg_step :: "crypto \<Rightarrow> string \<Rightarrow> timestamp \<Rightarrow> sys \<Rightarrow> sys \<Rightarrow> bool"
  for cr :: crypto and salt :: string and now :: timestamp where
  check: "i < length (reqs s) \<Longrightarrow> reqs s ! i = Pending ud \<Longrightarrow>
    reg_step cr salt now s (s\<lparr>reqs := (reqs s)[i := check_step (sys_db s) ud]\<rparr>)"
| insert: "i < length (reqs s) \<Longrightarrow> reqs s ! i = Checked ud \<Longrightarrow>
    insert_user now (new_user_of cr salt ud) (sys_db s) = (r, d') \<Longrightarrow>
    reg_step cr salt now s \<lparr>sys_db = d', reqs = (reqs s)[i := Finished ud r]\<rparr>"

inductive reg_reach :: "crypto \<Rightarrow> string \<Rightarrow> timestamp \<Rightarrow> sys \<Rightarrow> sys \<Rightarrow> bool"
  for cr :: crypto and salt :: string and now :: timestamp and s0 :: sys where
  start: "reg_reach cr salt now s0 s0"
| step: "reg_reach cr salt now s0 s \<Longrightarrow> reg_step cr salt now s t \<Longrightarrow> reg_reach cr salt now s0 t"

inductive_cases reg_stepE: "reg_step cr salt now s t"

text \<open>Two registrations with the same username, for the concrete runs.\<close>

definition dave1 :: UserCreate where "dave1 = demo_create ''dave'' ''dave@example.com''"
definition dave2 :: UserCreate where "dave2 = demo_create ''dave'' ''dave2@example.com''"

text \<open>The row the first of them inserts, with id 2.\<close>

definition dave_row :: User where
  "dave_row = materialize 2 100 (new_user_of demo_crypto demo_salt dave1)"

text \<open>
  The invariant: the table's constraints; every request that succeeded has its row in
  the table; two requests that succeeded have rows with different ids.
\<close>

definition succeeded :: "sys \<Rightarrow> nat \<Rightarrow> User \<Rightarrow> bool" where
  "succeeded s i u \<longleftrightarrow> i < length (reqs s) \<and> (\<exists>ud. reqs s ! i = Finished ud (Inr u))"

definition reg_inv :: "sys \<Rightarrow> bool" where
  "reg_inv s \<longleftrightarrow>
     db_inv (sys_db s) \<and>
     (\<forall>i u. succeeded s i u \<longrightarrow> u \<in> set (users (sys_db s))) \<and>
     (\<forall>i j u v. succeeded s i u \<longrightarrow> succeeded s j v \<longrightarrow> i \<noteq> j \<longrightarrow> uid u \<noteq> uid v)"

text \<open>
  The reference: the same registrations served one after another, each a whole call
  of \<open>Auth_Service.create_user\<close> on the table the previous one left.
\<close>

fun create_all :: "crypto \<Rightarrow> string \<Rightarrow> timestamp \<Rightarrow> db \<Rightarrow> UserCreate list \<Rightarrow> (error + User) list \<times> db" where
  "create_all cr salt now d [] = ([], d)"
| "create_all cr salt now d (ud # uds) =
     (let (r, d') = create_user cr salt now d ud; (rs, d'') = create_all cr salt now d' uds
      in (r # rs, d''))"

section \<open>Facts the properties share\<close>

lemma succeeded_check:
  assumes "i < length (reqs s)" and "reqs s ! i = Pending ud"
  shows "succeeded (s\<lparr>reqs := (reqs s)[i := check_step (sys_db s) ud]\<rparr>) j u \<longleftrightarrow> succeeded s j u"
  using assms
  by (cases "i = j")
     (auto simp: succeeded_def check_step_def split: option.split)

lemma succeeded_insert:
  assumes "i < length (reqs s)" and "reqs s ! i = Checked ud"
  shows "succeeded \<lparr>sys_db = d', reqs = (reqs s)[i := Finished ud r]\<rparr> j u \<longleftrightarrow>
         (if j = i then r = Inr u else succeeded s j u)"
  using assms by (auto simp: succeeded_def)

lemma reg_inv_check:
  "reg_inv s \<Longrightarrow> i < length (reqs s) \<Longrightarrow> reqs s ! i = Pending ud \<Longrightarrow>
   reg_inv (s\<lparr>reqs := (reqs s)[i := check_step (sys_db s) ud]\<rparr>)"
  unfolding reg_inv_def using succeeded_check [of i s ud] by simp

lemma reg_inv_insert:
  assumes inv: "reg_inv s" and i: "i < length (reqs s)" "reqs s ! i = Checked ud"
    and ins: "insert_user now n (sys_db s) = (r, d')"
  shows "reg_inv \<lparr>sys_db = d', reqs = (reqs s)[i := Finished ud r]\<rparr>"
proof -
  have dbi: "db_inv (sys_db s)" and rows: "\<forall>j u. succeeded s j u \<longrightarrow> u \<in> set (users (sys_db s))"
    and ids: "\<forall>j k u v. succeeded s j u \<longrightarrow> succeeded s k v \<longrightarrow> j \<noteq> k \<longrightarrow> uid u \<noteq> uid v"
    using inv by (auto simp: reg_inv_def)
  have not_i: "\<not> succeeded s i u" for u using i by (simp add: succeeded_def)
  have dbi': "db_inv d'" using db_inv_insert_user [OF dbi, of now n] ins by simp
  from ins show ?thesis
  proof (cases rule: insert_user_cases)
    case data
    then show ?thesis using dbi' rows ids i by (simp add: reg_inv_def succeeded_insert)
  next
    case dup
    then show ?thesis using dbi' rows ids i by (simp add: reg_inv_def succeeded_insert)
  next
    case ok
    have old: "uid v < id_seq (sys_db s)" if "succeeded s j v" for j v
      using rows that dbi by (auto simp: db_inv_def)
    show ?thesis using dbi' rows ids i ok old
      by (auto simp: reg_inv_def succeeded_insert) fastforce+
  qed
qed

lemma reg_step_inv:
  "reg_step cr salt now s t \<Longrightarrow> reg_inv s \<Longrightarrow> reg_inv t"
  by (induction rule: reg_step.induct) (auto intro: reg_inv_check reg_inv_insert)

lemma reg_reach_inv:
  "reg_reach cr salt now s0 s \<Longrightarrow> reg_inv s0 \<Longrightarrow> reg_inv s"
  by (induction rule: reg_reach.induct) (auto intro: reg_step_inv)

lemma reg_inv_init:
  "db_inv d \<Longrightarrow> reg_inv (reg_init d uds)"
  by (auto simp: reg_inv_def reg_init_def succeeded_def)

lemma distinct_map_eq:
  "distinct (map f xs) \<Longrightarrow> u \<in> set xs \<Longrightarrow> v \<in> set xs \<Longrightarrow> f u = f v \<Longrightarrow> u = v"
  by (metis distinct_map inj_onD)

text \<open>
  A schedule of two registrations of \<open>dave\<close>: both pass the check before either
  inserts. The first insert takes id 2; the second violates the unique index.
\<close>

lemma dave_inserts:
  "insert_user 100 (new_user_of demo_crypto demo_salt dave1) demo_db =
     (Inr dave_row, \<lparr>users = [alice, dave_row], id_seq = 3\<rparr>)"
  "\<exists>e. insert_user 100 (new_user_of demo_crypto demo_salt dave2) \<lparr>users = [alice, dave_row], id_seq = 3\<rparr> =
     (Inl (IntegrityError e), \<lparr>users = [alice, dave_row], id_seq = 4\<rparr>)"
  by (simp_all add: insert_user_def Let_def dave1_def dave2_def column_widths dave_row_def
      materialize_new_user_of demo_db_def)

lemma dave_checks:
  "check_step demo_db dave1 = Checked dave1" "check_step demo_db dave2 = Checked dave2"
  by (simp_all add: check_step_def select_first_def dave1_def dave2_def demo_create_def
      user_create_body_def)

lemma dave_race_run:
  "\<exists>e. reg_reach demo_crypto demo_salt 100 (reg_init demo_db [dave1, dave2])
     \<lparr>sys_db = \<lparr>users = [alice, dave_row], id_seq = 4\<rparr>,
      reqs = [Finished dave1 (Inr dave_row), Finished dave2 (Inl (IntegrityError e))]\<rparr>"
proof -
  let ?s0 = "reg_init demo_db [dave1, dave2]"
  let ?s1 = "\<lparr>sys_db = demo_db, reqs = [Checked dave1, Pending dave2]\<rparr>"
  let ?s2 = "\<lparr>sys_db = demo_db, reqs = [Checked dave1, Checked dave2]\<rparr>"
  let ?s3 = "\<lparr>sys_db = \<lparr>users = [alice, dave_row], id_seq = 3\<rparr>,
              reqs = [Finished dave1 (Inr dave_row), Checked dave2]\<rparr>"
  obtain e where e: "insert_user 100 (new_user_of demo_crypto demo_salt dave2)
      \<lparr>users = [alice, dave_row], id_seq = 3\<rparr> =
      (Inl (IntegrityError e), \<lparr>users = [alice, dave_row], id_seq = 4\<rparr>)"
    using dave_inserts(2) by blast
  have "reg_step demo_crypto demo_salt 100 ?s0 ?s1"
    using reg_step.check [of 0 ?s0 dave1 demo_crypto demo_salt 100]
    by (simp add: reg_init_def dave_checks)
  moreover have "reg_step demo_crypto demo_salt 100 ?s1 ?s2"
    using reg_step.check [of 1 ?s1 dave2 demo_crypto demo_salt 100]
    by (simp add: dave_checks)
  moreover have "reg_step demo_crypto demo_salt 100 ?s2 ?s3"
    using reg_step.insert [where i = 0 and s = ?s2 and ud = dave1 and cr = demo_crypto
      and salt = demo_salt and now = 100] dave_inserts(1)
    by simp
  moreover have "reg_step demo_crypto demo_salt 100 ?s3
      \<lparr>sys_db = \<lparr>users = [alice, dave_row], id_seq = 4\<rparr>,
       reqs = [Finished dave1 (Inr dave_row), Finished dave2 (Inl (IntegrityError e))]\<rparr>"
    using reg_step.insert [where i = 1 and s = ?s3 and ud = dave2 and cr = demo_crypto
      and salt = demo_salt and now = 100] e by simp
  ultimately show ?thesis
    by (meson reg_reach.start reg_reach.step)
qed

lemma reg_reach_trans:
  "reg_reach cr salt now s1 s2 \<Longrightarrow> reg_reach cr salt now s0 s1 \<Longrightarrow> reg_reach cr salt now s0 s2"
  by (induction rule: reg_reach.induct) (auto intro: reg_reach.step)

lemma reg_reach_one: "reg_step cr salt now s t \<Longrightarrow> reg_reach cr salt now s t"
  by (rule reg_reach.step [OF reg_reach.start])

lemma serial_request:
  "reg_reach cr salt now \<lparr>sys_db = d, reqs = fins @ Pending ud # rest\<rparr>
     \<lparr>sys_db = snd (create_user cr salt now d ud),
      reqs = fins @ Finished ud (fst (create_user cr salt now d ud)) # rest\<rparr>"
proof -
  let ?s = "\<lparr>sys_db = d, reqs = fins @ Pending ud # rest\<rparr>"
  have i: "length fins < length (reqs ?s)" "reqs ?s ! length fins = Pending ud" by simp_all
  have chk: "reg_step cr salt now ?s (?s\<lparr>reqs := fins @ check_step d ud # rest\<rparr>)"
    using reg_step.check [OF i] by simp
  show ?thesis
  proof (cases "select_first (\<lambda>u. username u = uc_username ud \<or> email u = uc_email ud) d")
    case (Some u)
    then show ?thesis using reg_reach_one [OF chk]
      by (simp add: check_step_def create_user_def)
  next
    case None
    let ?t = "?s\<lparr>reqs := fins @ Checked ud # rest\<rparr>"
    obtain r d' where ins: "insert_user now (new_user_of cr salt ud) d = (r, d')" by fastforce
    have j: "length fins < length (reqs ?t)" "reqs ?t ! length fins = Checked ud" by simp_all
    have ins': "insert_user now (new_user_of cr salt ud) (sys_db ?t) = (r, d')" using ins by simp
    have "reg_step cr salt now ?t \<lparr>sys_db = d', reqs = fins @ Finished ud r # rest\<rparr>"
      using reg_step.insert [OF j ins'] by simp
    moreover have "reg_reach cr salt now ?s ?t"
      using reg_reach_one [OF chk] None by (simp add: check_step_def)
    ultimately show ?thesis using None ins
      by (simp add: create_user_def reg_reach.step)
  qed
qed

lemma serial_requests:
  "reg_reach cr salt now \<lparr>sys_db = d, reqs = fins @ map Pending uds\<rparr>
     \<lparr>sys_db = snd (create_all cr salt now d uds),
      reqs = fins @ map2 Finished uds (fst (create_all cr salt now d uds))\<rparr>"
proof (induction uds arbitrary: d fins)
  case Nil
  show ?case by (simp add: reg_reach.start)
next
  case (Cons ud uds)
  obtain r d' where cu: "create_user cr salt now d ud = (r, d')" by fastforce
  have "reg_reach cr salt now \<lparr>sys_db = d', reqs = (fins @ [Finished ud r]) @ map Pending uds\<rparr>
     \<lparr>sys_db = snd (create_all cr salt now d' uds),
      reqs = (fins @ [Finished ud r]) @ map2 Finished uds (fst (create_all cr salt now d' uds))\<rparr>"
    by (rule Cons.IH)
  moreover have "reg_reach cr salt now \<lparr>sys_db = d, reqs = fins @ map Pending (ud # uds)\<rparr>
     \<lparr>sys_db = d', reqs = (fins @ [Finished ud r]) @ map Pending uds\<rparr>"
    using serial_request [of cr salt now d fins ud "map Pending uds"] cu by simp
  ultimately show ?case using cu
    by (simp add: Let_def split_def) (blast intro: reg_reach_trans)
qed

section \<open>Properties\<close>

text \<open>
  C18. However the steps of concurrent registrations interleave, the table keeps its
  constraints: no two rows share an id, a username or an email.
\<close>

theorem reg_reach_db_inv:
  "db_inv d \<Longrightarrow> reg_reach cr salt now (reg_init d uds) s \<Longrightarrow> db_inv (sys_db s)"
  using reg_reach_inv reg_inv_init by (auto simp: reg_inv_def)

theorem reg_reach_db_inv_witness:
  "\<exists>e. db_inv demo_db \<and>
     reg_reach demo_crypto demo_salt 100 (reg_init demo_db [dave1, dave2])
       \<lparr>sys_db = \<lparr>users = [alice, dave_row], id_seq = 4\<rparr>,
        reqs = [Finished dave1 (Inr dave_row), Finished dave2 (Inl (IntegrityError e))]\<rparr> \<and>
     db_inv \<lparr>users = [alice, dave_row], id_seq = 4\<rparr>"
proof -
  obtain e where r: "reg_reach demo_crypto demo_salt 100 (reg_init demo_db [dave1, dave2])
       \<lparr>sys_db = \<lparr>users = [alice, dave_row], id_seq = 4\<rparr>,
        reqs = [Finished dave1 (Inr dave_row), Finished dave2 (Inl (IntegrityError e))]\<rparr>"
    using dave_race_run by blast
  show ?thesis using reg_reach_db_inv [OF demo_db_inv r] r demo_db_inv by auto
qed

text \<open>
  C19. Of any set of concurrent registrations, at most one succeeds per username and
  per email: two requests that both returned a user with the same username or the same
  email are the same request.
\<close>

theorem reg_unique_success:
  assumes "db_inv d" and "reg_reach cr salt now (reg_init d uds) s"
    and "succeeded s i u" and "succeeded s j v"
    and "username u = username v \<or> email u = email v"
  shows "i = j"
proof (rule ccontr)
  assume ne: "i \<noteq> j"
  have inv: "reg_inv s" using reg_reach_inv [OF assms(2) reg_inv_init [OF assms(1)]] .
  then have in_db: "u \<in> set (users (sys_db s))" "v \<in> set (users (sys_db s))"
    and dbi: "db_inv (sys_db s)"
    using assms(3,4) by (auto simp: reg_inv_def)
  from assms(5) have "u = v"
    using dbi in_db distinct_map_eq [of username] distinct_map_eq [of email]
    by (auto simp: db_inv_def)
  with inv assms(3,4) ne show False unfolding reg_inv_def by blast
qed

theorem reg_unique_success_witness:
  "\<exists>s. reg_reach demo_crypto demo_salt 100 (reg_init demo_db [dave1, dave2]) s \<and>
     succeeded s 0 dave_row \<and> (0::nat) = 0"
proof -
  obtain e where r: "reg_reach demo_crypto demo_salt 100 (reg_init demo_db [dave1, dave2])
       \<lparr>sys_db = \<lparr>users = [alice, dave_row], id_seq = 4\<rparr>,
        reqs = [Finished dave1 (Inr dave_row), Finished dave2 (Inl (IntegrityError e))]\<rparr>"
    using dave_race_run by blast
  have sc: "succeeded \<lparr>sys_db = \<lparr>users = [alice, dave_row], id_seq = 4\<rparr>,
        reqs = [Finished dave1 (Inr dave_row), Finished dave2 (Inl (IntegrityError e))]\<rparr> 0 dave_row"
    by (simp add: succeeded_def)
  show ?thesis using reg_unique_success [OF demo_db_inv r sc sc] r sc by blast
qed

text \<open>
  C20. The check and the insert of \<open>create_user\<close> are not atomic. For every table
  and every two registrations that collide on their username or their email, that both
  pass the check on that table and whose rows fit their columns, some interleaving lets
  both pass the check; the one that inserts second then fails on the unique index with
  \<open>IntegrityError\<close>, which the application answers with 500. Served one after the
  other, the second is refused with the 400 of the check instead.
\<close>

theorem reg_race_integrity_error:
  assumes fresh1: "select_first (\<lambda>u. username u = uc_username ud1 \<or> email u = uc_email ud1) d = None"
    and fresh2: "select_first (\<lambda>u. username u = uc_username ud2 \<or> email u = uc_email ud2) d = None"
    and fits: "fits_columns (new_user_of cr salt ud1)" "fits_columns (new_user_of cr salt ud2)"
    and clash: "uc_username ud1 = uc_username ud2 \<or> uc_email ud1 = uc_email ud2"
  shows "\<exists>u e d'. reg_reach cr salt now (reg_init d [ud1, ud2])
           \<lparr>sys_db = d', reqs = [Finished ud1 (Inr u), Finished ud2 (Inl (IntegrityError e))]\<rparr> \<and>
         fst (create_user cr salt now (snd (create_user cr salt now d ud1)) ud2) = Inl already_registered"
proof -
  let ?n1 = "new_user_of cr salt ud1" and ?n2 = "new_user_of cr salt ud2"
  let ?u = "materialize (id_seq d) now ?n1"
  let ?d1 = "d\<lparr>id_seq := id_seq d + 1, users := users d @ [?u]\<rparr>"
  have ins1: "insert_user now ?n1 d = (Inr ?u, ?d1)"
    using fresh1 fits(1) by (auto simp: select_first_def find_None_iff insert_user_def Let_def)
  have taken: "nu_username ?n2 \<in> username ` set (users ?d1) \<or> nu_email ?n2 \<in> email ` set (users ?d1)"
    using clash by auto
  obtain r d2 where ins2: "insert_user now ?n2 ?d1 = (r, d2)" by (cases "insert_user now ?n2 ?d1")
  from ins2 obtain e where r: "r = Inl (IntegrityError e)"
  proof (cases rule: insert_user_cases)
    case data
    then show ?thesis using fits(2) by simp
  next
    case (dup e)
    then show ?thesis by (intro that [of e]) simp
  next
    case ok
    then show ?thesis using taken by blast
  qed
  let ?s1 = "\<lparr>sys_db = d, reqs = [Checked ud1, Pending ud2]\<rparr>"
  let ?s2 = "\<lparr>sys_db = d, reqs = [Checked ud1, Checked ud2]\<rparr>"
  let ?s3 = "\<lparr>sys_db = ?d1, reqs = [Finished ud1 (Inr ?u), Checked ud2]\<rparr>"
  have "reg_step cr salt now (reg_init d [ud1, ud2]) ?s1"
    using reg_step.check [of 0 "reg_init d [ud1, ud2]" ud1 cr salt now] fresh1
    by (simp add: reg_init_def check_step_def)
  moreover have "reg_step cr salt now ?s1 ?s2"
    using reg_step.check [of 1 ?s1 ud2 cr salt now] fresh2 by (simp add: check_step_def)
  moreover have "reg_step cr salt now ?s2 ?s3"
    using reg_step.insert [of 0 ?s2 ud1 now cr salt] ins1 by simp
  moreover have "reg_step cr salt now ?s3
      \<lparr>sys_db = d2, reqs = [Finished ud1 (Inr ?u), Finished ud2 (Inl (IntegrityError e))]\<rparr>"
    using reg_step.insert [of 1 ?s3 ud2 now cr salt] ins2 r by simp
  ultimately have run: "reg_reach cr salt now (reg_init d [ud1, ud2])
      \<lparr>sys_db = d2, reqs = [Finished ud1 (Inr ?u), Finished ud2 (Inl (IntegrityError e))]\<rparr>"
    by (meson reg_reach.start reg_reach.step)
  have "select_first (\<lambda>u. username u = uc_username ud2 \<or> email u = uc_email ud2) ?d1 \<noteq> None"
    using clash by (auto simp: select_first_def find_None_iff)
  then have "fst (create_user cr salt now ?d1 ud2) = Inl already_registered"
    by (auto simp: create_user_def split: option.split)
  moreover have "snd (create_user cr salt now d ud1) = ?d1"
    using fresh1 ins1 by (simp add: create_user_def)
  ultimately show ?thesis using run by auto
qed

theorem reg_race_integrity_error_witness:
  "\<exists>u e d'. reg_reach demo_crypto demo_salt 100 (reg_init demo_db [dave1, dave2])
      \<lparr>sys_db = d', reqs = [Finished dave1 (Inr u), Finished dave2 (Inl (IntegrityError e))]\<rparr> \<and>
   fst (create_user demo_crypto demo_salt 100 (snd (create_user demo_crypto demo_salt 100 demo_db dave1)) dave2) =
     Inl already_registered"
proof (rule reg_race_integrity_error)
  show "select_first (\<lambda>u. username u = uc_username dave1 \<or> email u = uc_email dave1) demo_db = None"
    "select_first (\<lambda>u. username u = uc_username dave2 \<or> email u = uc_email dave2) demo_db = None"
    by (simp_all add: select_first_def dave1_def dave2_def demo_create_def user_create_body_def)
  show "fits_columns (new_user_of demo_crypto demo_salt dave1)"
    "fits_columns (new_user_of demo_crypto demo_salt dave2)"
    by (simp_all add: dave1_def dave2_def column_widths)
  show "uc_username dave1 = uc_username dave2 \<or> uc_email dave1 = uc_email dave2"
    by (simp add: dave1_def dave2_def demo_create_def user_create_body_def)
qed

text \<open>
  The concurrent model agrees with the sequential service: the serial schedule,
  which runs each request's check and insert back to back in order, is a run of
  \<open>reg_step\<close> from the initial state whose results and final table are exactly
  those of calling \<open>create_user\<close> on the requests one after another.
\<close>

lemma serial_schedule_equiv:
  "reg_reach cr salt now (reg_init d uds)
     \<lparr>sys_db = snd (create_all cr salt now d uds),
      reqs = map2 Finished uds (fst (create_all cr salt now d uds))\<rparr>"
  using serial_requests [of cr salt now d "[]" uds] by (simp add: reg_init_def)

end
