(* ===== verification/Seed_Admin.thy ===== *)
theory Seed_Admin
  imports Auth_Service
begin

text \<open>
  \<open>scripts/seed_admin.py\<close>: \<open>create_admin_user\<close> looks the user \<open>admin\<close> up by
  name and, if it is absent, inserts the built-in administrator; an exception in the
  INSERT is rolled back and re-raised. What the script prints is a list of
  \<open>seed_msg\<close> values; \<open>seed_main\<close> is \<open>main()\<close>.
\<close>

datatype seed_outcome = AlreadyExists | Created User

definition ADMIN_PASSWORD :: string where
  "ADMIN_PASSWORD = ''admin123!''"

definition admin_new_user :: "crypto \<Rightarrow> string \<Rightarrow> NewUser" where
  "admin_new_user cr salt =
     \<lparr>nu_username = ''admin'', nu_email = ''admin@re-platform.local'',
      nu_hashed_password = get_password_hash cr salt ADMIN_PASSWORD,
      nu_full_name = Some ''System Administrator'', nu_role = Some ADMIN,
      nu_is_active = Some True, nu_is_verified = Some True\<rparr>"

definition create_admin_user :: "crypto \<Rightarrow> string \<Rightarrow> timestamp \<Rightarrow> db \<Rightarrow> seed_outcome db_result" where
  "create_admin_user cr salt now d =
     (case select_first (\<lambda>u. username u = ''admin'') d of
        Some _ \<Rightarrow> (Inr AlreadyExists, d)
      | None \<Rightarrow>
          (case insert_user now (admin_new_user cr salt) d of
             (Inl e, d') \<Rightarrow> (Inl e, d')
           | (Inr u, d') \<Rightarrow> (Inr (Created u), d')))"

text \<open>
  What the script prints, one constructor per \<open>print\<close> call with the values it
  interpolates (the emoji prefixes of the messages are left out). \<open>main()\<close> announces
  the run, runs \<open>create_admin_user\<close>, and reports completion only when no exception
  escaped; the exception then ends \<open>asyncio.run\<close>.
\<close>

datatype seed_msg =
    MsgCreating
  | MsgAlreadyExists string
  | MsgCreatedUser string
  | MsgEmail string
  | MsgRole string
  | MsgId int
  | MsgChangePassword
  | MsgDefaultPassword string
  | MsgError error
  | MsgComplete

definition admin_messages :: "seed_outcome db_result \<Rightarrow> seed_msg list" where
  "admin_messages r =
     (case fst r of
        Inr AlreadyExists \<Rightarrow> [MsgAlreadyExists ''admin'']
      | Inr (Created u) \<Rightarrow>
          [MsgCreatedUser (username u), MsgEmail (email u), MsgRole (role_value (role u)),
           MsgId (uid u), MsgChangePassword, MsgDefaultPassword ADMIN_PASSWORD]
      | Inl e \<Rightarrow> [MsgError e])"

definition seed_main :: "crypto \<Rightarrow> string \<Rightarrow> timestamp \<Rightarrow> db \<Rightarrow> seed_msg list \<times> (error + unit) \<times> db" where
  "seed_main cr salt now d =
     (let r = create_admin_user cr salt now d in
      (case fst r of
         Inl e \<Rightarrow> (MsgCreating # admin_messages r, Inl e, snd r)
       | Inr _ \<Rightarrow> (MsgCreating # admin_messages r @ [MsgComplete], Inr (), snd r)))"

section \<open>Facts the properties share\<close>

lemma admin_new_user_fields [simp]:
  "nu_username (admin_new_user cr salt) = ''admin''"
  "nu_email (admin_new_user cr salt) = ''admin@re-platform.local''"
  by (simp_all add: admin_new_user_def)

lemma admin_fits_demo: "fits_columns (admin_new_user demo_crypto demo_salt)"
  by (simp add: fits_columns_def admin_new_user_def get_password_hash_def demo_crypto_def
      demo_salt_def ADMIN_PASSWORD_def column_widths)

lemma create_admin_user_Inr:
  assumes "create_admin_user cr salt now d = (Inr out, d')"
  shows "\<exists>u. u \<in> set (users d') \<and> username u = ''admin''"
  using assms
  by (auto simp: create_admin_user_def insert_user_def Let_def
      dest!: select_first_SomeD split: option.splits if_splits)

section \<open>Properties\<close>

text \<open>
  C21. The seed is idempotent: once a run has returned normally, running it again
  reports that the administrator exists and changes nothing.
\<close>

theorem create_admin_user_idempotent:
  assumes "create_admin_user cr salt now d = (Inr out, d')"
  shows "create_admin_user cr salt' now' d' = (Inr AlreadyExists, d')"
proof -
  obtain u where "u \<in> set (users d')" "username u = ''admin''"
    using create_admin_user_Inr [OF assms] by blast
  then have "select_first (\<lambda>u. username u = ''admin'') d' \<noteq> None"
    by (auto simp: select_first_def find_None_iff)
  then show ?thesis by (auto simp: create_admin_user_def)
qed

theorem create_admin_user_idempotent_witness:
  "create_admin_user demo_crypto demo_salt 5 empty_db =
     (Inr (Created (materialize 1 5 (admin_new_user demo_crypto demo_salt))),
      \<lparr>users = [materialize 1 5 (admin_new_user demo_crypto demo_salt)], id_seq = 2\<rparr>) \<and>
   create_admin_user demo_crypto demo_salt 6
     \<lparr>users = [materialize 1 5 (admin_new_user demo_crypto demo_salt)], id_seq = 2\<rparr> =
     (Inr AlreadyExists, \<lparr>users = [materialize 1 5 (admin_new_user demo_crypto demo_salt)], id_seq = 2\<rparr>)"
proof -
  have first: "create_admin_user demo_crypto demo_salt 5 empty_db =
     (Inr (Created (materialize 1 5 (admin_new_user demo_crypto demo_salt))),
      \<lparr>users = [materialize 1 5 (admin_new_user demo_crypto demo_salt)], id_seq = 2\<rparr>)"
    using admin_fits_demo
    by (simp add: create_admin_user_def select_first_def empty_db_def insert_user_def Let_def)
  show ?thesis using first create_admin_user_idempotent [OF first, of demo_salt 6] by simp
qed

text \<open>
  C22. The seed checks only the username: if another account already uses the
  administrator's email, the INSERT violates the unique email index and the script
  fails with \<open>IntegrityError\<close> (the sequence value it drew is lost).
\<close>

theorem create_admin_user_email_taken:
  assumes "\<forall>u\<in>set (users d). username u \<noteq> ''admin''"
    and "v \<in> set (users d)" and "email v = ''admin@re-platform.local''"
    and "fits_columns (admin_new_user cr salt)"
  shows "\<exists>e. create_admin_user cr salt now d = (Inl (IntegrityError e), d\<lparr>id_seq := id_seq d + 1\<rparr>)"
proof -
  have "select_first (\<lambda>u. username u = ''admin'') d = None"
    using assms(1) by (simp add: select_first_def find_None_all)
  moreover have "''admin@re-platform.local'' \<in> email ` set (users d)"
    using assms(2,3) by (metis rev_image_eqI)
  ultimately show ?thesis using assms(1,4)
    by (auto simp: create_admin_user_def insert_user_def Let_def image_iff)
qed

theorem create_admin_user_email_taken_witness:
  "\<exists>e. create_admin_user demo_crypto demo_salt 5
      \<lparr>users = [alice\<lparr>email := ''admin@re-platform.local''\<rparr>], id_seq = 2\<rparr> =
    (Inl (IntegrityError e), \<lparr>users = [alice\<lparr>email := ''admin@re-platform.local''\<rparr>], id_seq = 3\<rparr>)"
  using create_admin_user_email_taken [of "\<lparr>users = [alice\<lparr>email := ''admin@re-platform.local''\<rparr>], id_seq = 2\<rparr>"
      "alice\<lparr>email := ''admin@re-platform.local''\<rparr>" demo_crypto demo_salt 5] admin_fits_demo
  by simp

text \<open>
  C29. The script reports \<open>Seeding complete!\<close> exactly when it did not raise, and
  a run that created the administrator prints its default password in clear text.
\<close>

theorem seed_main_reports:
  "(MsgComplete \<in> set (fst (seed_main cr salt now d)) \<longleftrightarrow> fst (snd (seed_main cr salt now d)) = Inr ()) \<and>
   (fst (create_admin_user cr salt now d) = Inr (Created u) \<longrightarrow>
      MsgDefaultPassword ADMIN_PASSWORD \<in> set (fst (seed_main cr salt now d)))"
  by (cases "create_admin_user cr salt now d")
     (auto simp: seed_main_def admin_messages_def Let_def split: sum.splits seed_outcome.splits)

theorem seed_main_reports_witness:
  "fst (seed_main demo_crypto demo_salt 5 empty_db) =
     [MsgCreating, MsgCreatedUser ''admin'', MsgEmail ''admin@re-platform.local'', MsgRole ''admin'',
      MsgId 1, MsgChangePassword, MsgDefaultPassword ''admin123!'', MsgComplete] \<and>
   MsgDefaultPassword ADMIN_PASSWORD \<in> set (fst (seed_main demo_crypto demo_salt 5 empty_db))"
proof -
  have c: "create_admin_user demo_crypto demo_salt 5 empty_db =
     (Inr (Created (materialize 1 5 (admin_new_user demo_crypto demo_salt))),
      \<lparr>users = [materialize 1 5 (admin_new_user demo_crypto demo_salt)], id_seq = 2\<rparr>)"
    using admin_fits_demo
    by (simp add: create_admin_user_def select_first_def empty_db_def insert_user_def Let_def)
  have o: "fst (seed_main demo_crypto demo_salt 5 empty_db) =
     [MsgCreating, MsgCreatedUser ''admin'', MsgEmail ''admin@re-platform.local'', MsgRole ''admin'',
      MsgId 1, MsgChangePassword, MsgDefaultPassword ''admin123!'', MsgComplete]"
    by (simp add: seed_main_def c admin_messages_def materialize_def admin_new_user_def ADMIN_PASSWORD_def Let_def)
  show ?thesis
    using o seed_main_reports [of demo_crypto demo_salt 5 empty_db
        "materialize 1 5 (admin_new_user demo_crypto demo_salt)"] c by simp
qed

end
