(* ===== verification/Spec2Isabelle.thy ===== *)
theory Spec2Isabelle
  imports Tests Routing Concurrent_Register Seed_Admin
begin

text \<open>
  \<^bold>\<open>A verification model of the RE Platform authentication backend.\<close>

  The program (\<open>src/backend\<close>) is a FastAPI service over one PostgreSQL table,
  \<open>users\<close>. Its parts, leaves first, and where the model keeps them:

  \<^item> \<^bold>\<open>Email addresses\<close> (\<open>EmailStr\<close> at \<open>app/schemas/user.py:14\<close>) in
    \<open>Email_Validator\<close>: Pydantic's \<open>validate_email\<close> and the
    \<open>email-validator\<close> checks it calls, as a function \<open>email_address\<close> to the
    normalised address or \<open>None\<close>: the \<open>Name <address>\<close> form, stripping, one
    \<open>@\<close>, a dot-atom local part of at most 64 characters, a host-name domain of at
    most 253 (labels of at most 63, a period, a letter last, no special-use name such as
    \<open>.local\<close>), 254 characters in all, the domain lower-cased. ASCII addresses only.
  \<^item> \<^bold>\<open>Data\<close> (\<open>app/models/user.py\<close>, \<open>app/schemas/user.py\<close>,
    \<open>app/schemas/token.py\<close>, \<open>app/core/config.py\<close>) in theory \<open>User_Model\<close>: the
    enumeration \<open>UserRole\<close> with its values, the row \<open>User\<close> (a record), the
    keyword arguments of a \<open>User(...)\<close> call (\<open>NewUser\<close>) and the column defaults
    that \<open>materialize\<close> applies, the declared column widths (\<open>fits_columns\<close>), the
    request schemas with their Pydantic constraints (\<open>valid_user_create\<close>, the
    validated body \<open>validate_user_create\<close> with its normalised email, and
    \<open>valid_user_update\<close> for \<open>UserUpdate\<close>, which no route accepts yet), the response
    schema (\<open>user_response\<close>, and \<open>user_response_of\<close>, the validation FastAPI
    applies to a returned user), \<open>Settings\<close> with its defaults, and the exceptions
    (\<open>error\<close>: \<open>HTTPException\<close>, \<open>IntegrityError\<close>, \<open>DataError\<close>,
    \<open>ResponseValidationError\<close>).
  \<^item> \<^bold>\<open>The table\<close> (the SQLAlchemy session) in \<open>User_Store\<close>: a record of the rows in
    primary-key order and of the id sequence; \<open>select_first\<close> is
    \<open>select(...).where(...).scalars().first()\<close>, \<open>insert_user\<close> is the INSERT with
    the width and unique constraints and a sequence that advances even when the INSERT
    fails, \<open>update_last_login\<close> is the UPDATE of \<open>authenticate_user\<close> (with
    \<open>onupdate\<close> on \<open>updated_at\<close>). \<open>db_inv\<close> is the table's constraints.
  \<^item> \<^bold>\<open>The session\<close> (\<open>app/core/database.py\<close>: \<open>AsyncSessionLocal\<close>, \<open>get_db\<close>) in
    \<open>Session\<close>: a session is the committed table and a unit of work of pending
    INSERTs and attribute UPDATEs; \<open>session_commit\<close> flushes it in order inside one
    transaction (PostgreSQL's all or nothing, with the sequence values kept);
    \<open>get_db\<close> rolls back and re-raises on an exception. \<open>create_user_tx\<close> and
    \<open>authenticate_user_tx\<close> are the two writing service methods statement by statement
    against the session; lemmas show them equal to the direct models of
    \<open>Auth_Service\<close>, which the properties use.
  \<^item> \<^bold>\<open>Credential hasher and token codec\<close> (\<open>app/core/security.py\<close>, which is not
    among the sources) in \<open>Password_Hash\<close> and \<open>Token_Codec\<close>, modelled from spec
    sections 4.1 and 4.2: a salted hash that embeds its salt, and an HS256 JWT of three
    \<open>.\<close>-separated segments whose signature is checked before any claim is read and
    which is expired at or past \<open>exp\<close> (spec 4.2). The primitives (bcrypt, HMAC-SHA256)
    are the fields of a record \<open>crypto\<close> passed to every operation; base64url is
    replaced by an escape with the property that matters (no separator in a segment,
    decoding inverts encoding, proved as \<open>decode_encode_claims\<close>,
    \<open>parse_int_string_of_int\<close>).
  \<^item> \<^bold>\<open>AuthService\<close> (\<open>app/services/auth_service.py\<close>) in \<open>Auth_Service\<close>: one
    definition per method, taking the table and returning the result with the table after
    its commits; the random salt and \<open>utcnow()\<close> are arguments (a request reads one
    clock value).
  \<^item> \<^bold>\<open>Dependencies\<close> (\<open>app/core/deps.py\<close>) in \<open>Auth_Deps\<close>: the bearer scheme
    (FastAPI's \<open>HTTPBearer\<close>), \<open>get_current_user\<close>, \<open>get_current_active_user\<close>,
    and \<open>require_role\<close> with its three instances, each a function into
    \<open>error + User\<close>.
  \<^item> \<^bold>\<open>Routes\<close> (\<open>app/api/v1/auth.py\<close>, \<open>app/api/v1/__init__.py\<close>,
    \<open>app/main.py\<close>) in \<open>Auth_Api\<close>: each route resolves its dependencies in
    FastAPI's order (bearer, user chain, then body validation), calls the service with
    the validated body, validates a returned user against \<open>UserResponse\<close>
    (\<open>user_reply\<close>) and maps an escaping exception to its response; \<open>handle\<close>
    dispatches a request and \<open>run\<close> serves a sequence of them.
  \<^item> \<^bold>\<open>The application over sessions\<close> in \<open>App_Session\<close>: the routes as FastAPI
    runs them, each database route inside \<open>get_db\<close> with one session shared by the
    route and its user dependencies, the service methods executed on that session
    (\<open>register_tx\<close>, \<open>login_tx\<close>, \<open>me_tx\<close>, \<open>handle_tx\<close>); the lemma
    \<open>handle_tx_refines\<close> shows it equal to \<open>handle\<close>.
  \<^item> \<^bold>\<open>Routing\<close> in \<open>Routing\<close>: the ordered route table that \<open>FastAPI(...)\<close>,
    \<open>@app.get\<close> and \<open>include_router\<close> build (\<open>routes\<close>; the documentation routes
    answer GET and HEAD) and Starlette's dispatch of a method and path
    (\<open>dispatch\<close>: first full match, 405, the \<open>redirect_slashes\<close> 307, 404).
  \<^item> \<^bold>\<open>Concurrency\<close> in \<open>Concurrent_Register\<close>: \<open>create_user\<close> split at its
    \<open>await\<close>s into a check step and an insert step; \<open>reg_step\<close> (an inductive
    relation) lets any pending registration move, \<open>reg_reach\<close> collects the reachable
    states, and the invariant \<open>reg_inv\<close> is proved by rule induction.
  \<^item> \<^bold>\<open>Seed script\<close> (\<open>scripts/seed_admin.py\<close>) in \<open>Seed_Admin\<close>:
    \<open>create_admin_user\<close>, its printed messages (\<open>seed_msg\<close>) and \<open>main()\<close>
    (\<open>seed_main\<close>).
  \<^item> \<^bold>\<open>The test suite\<close> (\<open>tests/test_auth.py\<close>, \<open>tests/test_simple.py\<close>,
    \<open>tests/conftest.py\<close>) in \<open>Tests\<close>: every test as a function to its outcome
    (pass, failure at the line of its first false \<open>assert\<close>, exception), the fixtures
    as the code has them, and the suite run in pytest's order; the lemma
    \<open>test_suite_outcome\<close> evaluates it.

  \<^bold>\<open>What is proved\<close> (each claim after a text block naming it, C1--C29):
  authentication and login, their uniform failure and the token they issue
  (\<open>Auth_Service\<close>); registration's branches, its invariant, and what validation
  guarantees of the column widths (the email column is the one it misses); the resolution
  of a token to a user and each refusal, including altered signatures, the round trips
  of the Authorization header and of a login's token, and the role gate
  (\<open>Auth_Deps\<close>); the routes' access control, the normalised duplicate check and the
  statuses of \<open>/me\<close>, the table's constraints under any sequence of requests, and that
  the stored hashes influence no response but the login's (\<open>Auth_Api\<close>); under any
  interleaving of concurrent registrations the constraints and the uniqueness of
  success, and for every colliding pair of registrations the race that ends in a 500
  (\<open>Concurrent_Register\<close>); the seed script, its output, and, here, that the
  administrator it creates cannot read its own profile: \<open>/me\<close> answers 500 for it.

  \<^bold>\<open>Bounds.\<close> No fuel is used: every function is total by structural recursion or a
  measure (\<open>string_of_nat\<close>, \<open>unesc\<close>, \<open>run\<close>); the concurrent registrations are an
  inductive relation, and the properties about them are stated of every reachable state.

  \<^bold>\<open>Not modelled.\<close> \<open>app/core/security.py\<close> is not among the sources, so the hasher
  and the token codec follow the spec rather than code (they stay partly modelled: what
  the file does beyond the spec, such as the default lifetime of a token when
  \<open>expires_delta\<close> is omitted, cannot be read off the repository; python-jose itself
  would still accept a token at its \<open>exp\<close> second, where the spec says expired); timing
  (the constant-time comparison of the hash), the bcrypt and HMAC functions themselves,
  base64url and JSON text; internationalised email addresses and \<open>xn--\<close> domain
  labels, and quoted display names that contain \<open><\<close> (the model refuses them); the
  detail of a 422 body (a list of errors in FastAPI, one detail string here); the
  engine's URL, echo flag and connection pooling; autoflush (no service method queries
  with a non-empty unit of work); the expiry of the server-side \<open>updated_at\<close> on the
  object \<open>authenticate_user\<close> returns (the model gives the value a reload reads; no
  route reads it); the CORS middleware and the content of the OpenAPI documents (the
  documentation routes are in the route table, their responses are not); the loading of
  settings from the environment; \<open>User.__repr__\<close>; the emoji prefixes of the seed
  script's messages; in the tests, the HTTP transport of \<open>httpx\<close> (requests are
  direct calls of the application) and the random salt of bcrypt (the sample primitives
  and salt are used).
\<close>

section \<open>End-to-end scenarios\<close>

definition long_email :: string where
  "long_email = ''xxxxxxxxxxxxxxxxxxxxxxxxxxxxxxxxxxxxxxxxxxxxxxxxxxxxxxxxxxxxxxxx@yyyyyyyyyyyyyyyyyyyyyyyyyyyyyy.example.com''"

definition erin :: UserCreate where
  "erin = demo_create ''erin'' long_email"

definition admin_row :: User where
  "admin_row = materialize 1 5 (admin_new_user demo_crypto demo_salt)"

definition seeded_db :: db where
  "seeded_db = \<lparr>users = [admin_row], id_seq = 2\<rparr>"

definition admin_token :: string where
  "admin_token = create_access_token default_settings demo_crypto 10 (''admin'', 1, ''admin'') 1800"

lemma admin_row_fields [simp]:
  "uid admin_row = 1" "username admin_row = ''admin''" "role admin_row = ADMIN"
  "is_active admin_row" "email admin_row = ''admin@re-platform.local''"
  "hashed_password admin_row = get_password_hash demo_crypto demo_salt ''admin123!''"
  by (simp_all add: admin_row_def materialize_def admin_new_user_def ADMIN_PASSWORD_def)

lemma seed_empty:
  "create_admin_user demo_crypto demo_salt 5 empty_db = (Inr (Created admin_row), seeded_db)"
  using admin_fits_demo
  by (simp add: create_admin_user_def select_first_def empty_db_def insert_user_def Let_def
      admin_row_def seeded_db_def)

lemma seeded_db_fields [simp]: "users seeded_db = [admin_row]" "id_seq seeded_db = 2"
  by (simp_all add: seeded_db_def)

lemma admin_login:
  "login (demo_env 10) seeded_db (demo_login ''admin'' ''admin123!'') =
     (Response 200 (BToken \<lparr>access_token = create_access_token default_settings demo_crypto 10
        (''admin'', 1, ''admin'') 1800, token_type = ''bearer'', expires_in = 1800\<rparr>),
      update_last_login 10 1 seeded_db)"
  by (simp add: login_def login_user_def authenticate_user_def select_first_def demo_login_def
      default_settings_def)

lemma admin_token_resolves:
  "get_current_user default_settings demo_crypto 20 (update_last_login 10 1 seeded_db) admin_token =
   Inr (touch_login 10 admin_row)"
  by (simp add: admin_token_def get_current_user_def verify_token_def create_access_token_def
      jwt_decode_encode get_user_by_id_def select_first_def update_last_login_def)

lemma admin_token_nonempty: "admin_token \<noteq> []"
  by (simp add: admin_token_def create_access_token_def)

lemma erin_valid: "validate_user_create erin = Some erin"
  by (simp add: validate_user_create_def email_syntax erin_def demo_create_def user_create_body_def
      long_email_def)

lemma erin_too_wide: "\<not> fits_columns (new_user_of demo_crypto demo_salt erin)"
  by (simp add: fits_columns_def new_user_of_def erin_def demo_create_def user_create_body_def
      long_email_def EMAIL_WIDTH_def)

section \<open>Properties\<close>

text \<open>
  C16. The administrator that the seed script creates can log in but can never read its
  own profile: its email \<open>admin@re-platform.local\<close> lies in the special-use domain
  \<open>.local\<close>, which \<open>EmailStr\<close> refuses, so FastAPI's validation of the
  \<open>/me\<close> response against \<open>UserResponse\<close> fails and the request is answered
  with 500, on every later table, at every time, with every token that resolves to an
  account with that email.
\<close>

theorem seeded_admin_me_500:
  assumes "create_admin_user cr salt now d0 = (Inr (Created a), d1)"
    and "http_bearer auth = Inr tok"
    and "get_current_user (env_settings ev) (env_crypto ev) (env_now ev) d tok = Inr u"
    and "email u = email a"
  shows "get_current_user_info ev d auth = (Response 500 (BDetail ''Internal Server Error''), d)"
proof -
  have "email a = ''admin@re-platform.local''"
    using assms(1) by (auto simp: create_admin_user_def insert_user_def Let_def split: option.splits if_splits)
  then have "user_response_of u = None"
    using assms(4) by (simp add: user_response_of_def email_syntax)
  then show ?thesis using assms(2,3)
    by (simp add: get_current_user_info_def get_current_active_user_eq user_reply_def error_response_def)
qed

theorem seeded_admin_me_500_witness:
  "create_admin_user demo_crypto demo_salt 5 empty_db = (Inr (Created admin_row), seeded_db) \<and>
   fst (login (demo_env 10) seeded_db (demo_login ''admin'' ''admin123!'')) =
     Response 200 (BToken \<lparr>access_token = admin_token, token_type = ''bearer'', expires_in = 1800\<rparr>) \<and>
   get_current_user_info (demo_env 20) (update_last_login 10 1 seeded_db) (Some (''Bearer '' @ admin_token)) =
     (Response 500 (BDetail ''Internal Server Error''), update_last_login 10 1 seeded_db)"
proof -
  have "get_current_user (env_settings (demo_env 20)) (env_crypto (demo_env 20)) (env_now (demo_env 20))
      (update_last_login 10 1 seeded_db) admin_token = Inr (touch_login 10 admin_row)"
    using admin_token_resolves by simp
  from seeded_admin_me_500 [OF seed_empty http_bearer_Bearer [OF admin_token_nonempty] this]
  show ?thesis using seed_empty admin_login by (simp add: admin_token_def)
qed

text \<open>
  An instance of \<open>Auth_Service.valid_create_fits_iff\<close>: the request schema accepts
  any \<open>EmailStr\<close> (up to 254 characters) but the \<open>email\<close> column is
  \<open>String(100)\<close>: an administrator registering a user with a valid 107-character
  email (a local part of 64 characters, the most \<open>EmailStr\<close> allows) gets a 500 from
  the database's \<open>DataError\<close>, not a 422, and the table keeps only the drawn
  sequence value.
\<close>

lemma register_long_email_500:
  "validate_user_create erin = Some erin \<and> length (uc_email erin) > EMAIL_WIDTH \<and>
   register (demo_env 500) staff_db (Some (''Bearer '' @ root_token)) erin =
     (Response 500 (BDetail ''Internal Server Error''), staff_db\<lparr>id_seq := 4\<rparr>)"
proof -
  have tok: "root_token \<noteq> []" by (simp add: root_token_def create_access_token_def jwt_encode_nonempty)
  have ra: "require_admin default_settings demo_crypto 500 staff_db root_token = Inr root_user"
    by (simp add: require_admin_def require_role_def get_current_active_user_eq root_token_resolves
        role_checker_def)
  have free: "select_first (\<lambda>u. username u = uc_username erin \<or> email u = uc_email erin) staff_db = None"
    by (simp add: select_first_def erin_def demo_create_def user_create_body_def long_email_def
        alice_def root_user_def)
  have cu: "create_user demo_crypto demo_salt 500 staff_db erin =
      (Inl (DataError ''value too long for type character varying''), staff_db\<lparr>id_seq := 4\<rparr>)"
    using erin_too_wide free by (simp add: create_user_def insert_user_def Let_def)
  have reg: "register (demo_env 500) staff_db (Some (''Bearer '' @ root_token)) erin =
      (Response 500 (BDetail ''Internal Server Error''), staff_db\<lparr>id_seq := 4\<rparr>)"
    unfolding register_def http_bearer_Bearer [OF tok]
    by (simp add: ra erin_valid cu error_response_def)
  have "length (uc_email erin) > EMAIL_WIDTH"
    by (simp add: erin_def demo_create_def user_create_body_def long_email_def EMAIL_WIDTH_def)
  with erin_valid reg show ?thesis by simp
qed

end
